(* ===== verification/Prelude.thy ===== *)
theory Prelude
  imports Main "HOL-Library.Sublist"
begin

text \<open>
  Shared vocabulary of the development: the JavaScript values and built-in string
  operations the TypeScript sources call, modelled once here, and the generic lemmas on
  lists and sums that the component theories use.

  \<^item> A JavaScript \<open>number\<close> that holds an amount, an identifier or a count is modelled as
    \<open>int\<close> (exact arithmetic; floating-point rounding and \<open>NaN\<close> are not modelled).
  \<^item> A JavaScript string is a \<open>string\<close> (a list of 8-bit characters); \<open>toLowerCase\<close>
    and \<open>trim\<close> are modelled on ASCII, which is what the forms of this console contain.
  \<^item> JavaScript truthiness (\<open>!x\<close>) of strings, numbers and optional numbers is
    written out: the empty string, \<open>0\<close> and \<open>undefined\<close> are falsy.
  \<^item> Instants are milliseconds since the Unix epoch (\<open>int\<close>), calendar days are day
    numbers since 1970-01-01 (\<open>int\<close>).
\<close>

named_theorems vm_defs "unfolding rules of the view-model handlers"
named_theorems js_simps "evaluation rules of the modelled JavaScript built-ins"

type_synonym js_number = int
type_synonym instant = int
type_synonym day = int

subsection \<open>JavaScript built-ins\<close>

definition js_lower_char :: "char \<Rightarrow> char" where
  "js_lower_char c =
     (if (65::nat) \<le> of_char c \<and> of_char c \<le> (90::nat) then char_of (of_char c + (32::nat)) else c)"

text \<open>\<open>String.prototype.toLowerCase\<close> on ASCII.\<close>

definition js_toLowerCase :: "string \<Rightarrow> string" where
  "js_toLowerCase s = map js_lower_char s"

text \<open>\<open>s.includes(t)\<close>: \<open>t\<close> occurs as a contiguous part of \<open>s\<close>.\<close>

definition js_includes :: "string \<Rightarrow> string \<Rightarrow> bool" where
  "js_includes s t = sublist t s"

text \<open>White space and line terminators that \<open>String.prototype.trim\<close> removes (ASCII part).\<close>

definition js_is_space :: "char \<Rightarrow> bool" where
  "js_is_space c = (c \<in> set [CHR '' '', CHR 0x09, CHR 0x0A, CHR 0x0B, CHR 0x0C, CHR 0x0D])"

definition js_trim :: "string \<Rightarrow> string" where
  "js_trim s = rev (dropWhile js_is_space (rev (dropWhile js_is_space s)))"

text \<open>Truthiness: \<open>!s\<close> for a string, \<open>!n\<close> for a number, \<open>!x\<close> for an optional number.\<close>

definition js_truthy_str :: "string \<Rightarrow> bool" where
  "js_truthy_str s = (s \<noteq> [])"

definition js_truthy_num :: "js_number \<Rightarrow> bool" where
  "js_truthy_num n = (n \<noteq> 0)"

definition js_truthy_opt :: "js_number option \<Rightarrow> bool" where
  "js_truthy_opt x = (case x of None \<Rightarrow> False | Some n \<Rightarrow> n \<noteq> 0)"

text \<open>Decimal rendering of a number in a template literal (\<open>`${id}`\<close>, \<open>id.toString()\<close>).\<close>

fun nat_digits :: "nat \<Rightarrow> string" where
  "nat_digits n =
     (if n < 10 then [char_of (48 + n)] else nat_digits (n div 10) @ [char_of (48 + n mod 10)])"

definition js_num_str :: "js_number \<Rightarrow> string" where
  "js_num_str i = (if i < 0 then CHR ''-'' # nat_digits (nat (- i)) else nat_digits (nat i))"

text \<open>\<open>s.split(c)\<close> with a one-character separator: the maximal pieces between the
  separators, empty pieces included (\<open>'/a'.split('/') = ['', 'a']\<close>).\<close>

fun js_split :: "char \<Rightarrow> string \<Rightarrow> string list" where
  "js_split c [] = [[]]"
| "js_split c (x # xs) =
     (if x = c then [] # js_split c xs
      else (case js_split c xs of w # ws \<Rightarrow> (x # w) # ws | [] \<Rightarrow> [[x]]))"

text \<open>Reading a decimal numeral back, as a server reads a path segment or a query
  parameter (\<open>parseInt\<close> restricted to well-formed numerals: an optional minus sign and
  at least one digit, nothing else). It is the left inverse of \<open>js_num_str\<close>.\<close>

definition is_digit :: "char \<Rightarrow> bool" where
  "is_digit c = ((48::nat) \<le> of_char c \<and> of_char c \<le> (57::nat))"

definition digit_val :: "char \<Rightarrow> nat" where
  "digit_val c = of_char c - 48"

definition parse_nat :: "string \<Rightarrow> nat option" where
  "parse_nat s =
     (if s \<noteq> [] \<and> list_all is_digit s then Some (foldl (\<lambda>a c. 10 * a + digit_val c) 0 s) else None)"

definition parse_int :: "string \<Rightarrow> int option" where
  "parse_int s =
     (case s of
        c # r \<Rightarrow> if c = CHR ''-'' then map_option (\<lambda>n. - int n) (parse_nat r) else map_option int (parse_nat s)
      | [] \<Rightarrow> None)"

declare js_lower_char_def [js_simps] js_toLowerCase_def [js_simps] js_includes_def [js_simps]
  js_truthy_str_def [js_simps] js_truthy_num_def [js_simps] js_truthy_opt_def [js_simps]

subsection \<open>Browser timers\<close>

text \<open>
  \<open>setTimeout(f, d)\<close> and \<open>clearTimeout(id)\<close>: the browser keeps the pending timers
  with their identifiers and due times; identifiers are positive and never reused (HTML
  standard). A timer fires at or after its due time; the callback of a timer is fixed by
  the code that set it, so the component that owns the timers knows it and the record
  does not store it.
\<close>

record timer_env =
  pending :: "(nat \<times> nat) list"
  next_id :: nat
  clock :: nat

definition timer_env_init :: timer_env where
  "timer_env_init = \<lparr>pending = [], next_id = 1, clock = 0\<rparr>"

definition setTimeout :: "nat \<Rightarrow> timer_env \<Rightarrow> nat \<times> timer_env" where
  "setTimeout d env =
     (next_id env, env\<lparr>pending := pending env @ [(next_id env, clock env + d)], next_id := next_id env + 1\<rparr>)"

definition clearTimeout :: "nat \<Rightarrow> timer_env \<Rightarrow> timer_env" where
  "clearTimeout i env = env\<lparr>pending := filter (\<lambda>(j, _). j \<noteq> i) (pending env)\<rparr>"

definition advance :: "nat \<Rightarrow> timer_env \<Rightarrow> timer_env" where
  "advance n env = env\<lparr>clock := clock env + n\<rparr>"

text \<open>Timer \<open>i\<close> may fire now: it is pending and due.\<close>

definition due_timer :: "nat \<Rightarrow> timer_env \<Rightarrow> bool" where
  "due_timer i env = (\<exists>d. (i, d) \<in> set (pending env) \<and> d \<le> clock env)"

lemma due_timer_code [code]:
  "due_timer i env = list_ex (\<lambda>(j, d). j = i \<and> d \<le> clock env) (pending env)"
  by (auto simp: due_timer_def list_ex_iff)

subsection \<open>Lemmas on the built-ins\<close>

lemma js_truthy_opt_iff [simp]: "js_truthy_opt x \<longleftrightarrow> (\<exists>n. x = Some n \<and> n \<noteq> 0)"
  by (cases x) (auto simp: js_truthy_opt_def)

lemma js_truthy_str_iff [simp]: "js_truthy_str s \<longleftrightarrow> s \<noteq> []"
  by (simp add: js_truthy_str_def)

lemma js_truthy_num_iff [simp]: "js_truthy_num n \<longleftrightarrow> n \<noteq> 0"
  by (simp add: js_truthy_num_def)

lemma length_js_toLowerCase [simp]: "length (js_toLowerCase s) = length s"
  by (simp add: js_toLowerCase_def)

lemma js_includes_Nil [simp]: "js_includes s []"
  by (simp add: js_includes_def)

lemma js_includes_refl [simp]: "js_includes s s"
  by (simp add: js_includes_def)

lemma all_set_dropWhile: "(\<forall>x \<in> set (dropWhile P xs). P x) \<longleftrightarrow> (\<forall>x \<in> set xs. P x)"
  by (induction xs) auto

lemma js_trim_Nil_iff: "js_trim s = [] \<longleftrightarrow> (\<forall>c \<in> set s. js_is_space c)"
  by (simp add: js_trim_def dropWhile_eq_Nil_conv all_set_dropWhile)

declare nat_digits.simps [simp del]

lemma nat_digits_ne [simp]: "nat_digits n \<noteq> []"
  by (subst nat_digits.simps) simp

lemma char_digit: "d < 10 \<Longrightarrow> is_digit (char_of (48 + d)) \<and> digit_val (char_of (48 + d)) = d"
  by (simp add: is_digit_def digit_val_def)

lemma nat_digits_is_digit: "list_all is_digit (nat_digits n)"
  by (induction n rule: nat_digits.induct) (subst nat_digits.simps; simp add: char_digit)

lemma nat_digits_value: "foldl (\<lambda>a c. 10 * a + digit_val c) 0 (nat_digits n) = n"
  by (induction n rule: nat_digits.induct) (subst nat_digits.simps; simp add: char_digit)

lemma parse_nat_digits [simp]: "parse_nat (nat_digits n) = Some n"
  by (simp add: parse_nat_def nat_digits_is_digit nat_digits_value)

lemma hd_nat_digits: "hd (nat_digits n) \<noteq> CHR ''-''"
  using nat_digits_is_digit [of n] by (cases "nat_digits n") (auto simp: is_digit_def)

text \<open>The rendering of numbers round-trips, hence is injective.\<close>

lemma parse_int_js_num_str [simp]: "parse_int (js_num_str i) = Some i"
proof (cases "i < 0")
  case True
  then show ?thesis by (simp add: parse_int_def js_num_str_def)
next
  case False
  obtain c r where cr: "nat_digits (nat i) = c # r" by (cases "nat_digits (nat i)") auto
  with hd_nat_digits [of "nat i"] have "c \<noteq> CHR ''-''" by simp
  moreover have "parse_nat (c # r) = Some (nat i)" by (simp flip: cr)
  ultimately show ?thesis using False cr by (simp add: parse_int_def js_num_str_def)
qed

lemma list_all_unica: "set xs \<subseteq> {c} \<Longrightarrow> P c \<Longrightarrow> list_all P xs"
  by (auto simp: list_all_iff)

lemma js_num_str_inj [simp]: "js_num_str i = js_num_str j \<longleftrightarrow> i = j"
  by (metis option.inject parse_int_js_num_str)

lemma js_split_no_sep: "c \<notin> set w \<Longrightarrow> js_split c w = [w]"
  by (induction w) auto

lemma js_num_str_no_slash [simp]: "CHR ''/'' \<notin> set (js_num_str i)"
proof -
  have "\<not> is_digit CHR ''/''" by (simp add: is_digit_def)
  then have "CHR ''/'' \<notin> set (nat_digits n)" for n
    using nat_digits_is_digit [of n] by (auto simp: list_all_iff)
  then show ?thesis by (simp add: js_num_str_def)
qed

lemma js_split_num [simp]: "js_split CHR ''/'' (js_num_str i) = [js_num_str i]"
  by (simp add: js_split_no_sep)

subsection \<open>Sums computed by \<open>reduce\<close>\<close>

text \<open>
  \<open>xs.reduce((sum, x) => sum + f(x), 0)\<close> is a left fold; it computes the sum of
  \<open>f\<close> over the list.
\<close>

lemma foldl_add_sum_list: "foldl (\<lambda>acc x. acc + f x) a xs = a + sum_list (map f xs)"
  by (induction xs arbitrary: a) (simp_all add: algebra_simps)

lemma sum_list_filter_nonneg:
  "(\<And>x. P x \<Longrightarrow> (0::int) \<le> f x) \<Longrightarrow> 0 \<le> sum_list (map f (filter P xs))"
  by (induction xs) (auto intro: add_nonneg_nonneg)

lemma sum_list_filter_split:
  "sum_list (map (f::'a \<Rightarrow> int) xs)
     = sum_list (map f (filter P xs)) + sum_list (map f (filter (\<lambda>x. \<not> P x) xs))"
  by (induction xs) simp_all

lemma sum_list_filter_not_pos:
  "(\<And>x. g x = 0 \<Longrightarrow> h x = 0) \<Longrightarrow>
   sum_list (map (h::'a \<Rightarrow> int) (filter (\<lambda>x. \<not> 0 < (g x::int)) xs)) =
   sum_list (map h (filter (\<lambda>x. g x < 0) xs))"
  by (induction xs) auto

lemma sum_list_abs_pos:
  "sum_list (map (\<lambda>x. \<bar>f x\<bar>) (filter (\<lambda>x. 0 < (f x::int)) xs)) = sum_list (map f (filter (\<lambda>x. 0 < f x) xs))"
  by (induction xs) auto

lemma sum_list_abs_neg:
  "sum_list (map (\<lambda>x. \<bar>f x\<bar>) (filter (\<lambda>x. (f x::int) < 0) xs)) = - sum_list (map f (filter (\<lambda>x. f x < 0) xs))"
  by (induction xs) auto

end
