(* ===== verification/Models.thy ===== *)
theory Models
  imports Prelude
begin

text \<open>
  The data model of \<open>src/bank-frontend/src/app/models/models.ts\<close> and the constants of
  \<open>constants/app.constants.ts\<close>. Each TypeScript interface is a record; an optional
  property (\<open>id?: number\<close>) is an \<open>option\<close> field, \<open>None\<close> being the absent property.
  Field names that two interfaces share are prefixed by the record (\<open>cuenta_estado\<close>,
  \<open>mov_numeroCuenta\<close>, \<open>rep_estado\<close>, ...), since record fields of one theory share a
  name space; the other fields keep the source's names.

  Objects sent to the backend are serialised by the HTTP client as JSON objects. They are
  modelled as association lists from property names to JSON values
  (\<open>cliente_json\<close>, \<open>cuenta_json\<close>, \<open>movimiento_json\<close>), so that a property that is
  absent from a payload, as opposed to present with an empty value, can be stated. The
  interfaces are also types of such objects (\<open>Cliente_tipo\<close>, ...: property, primitive
  type, optional), and each serialiser produces an object of its interface's type.
\<close>

subsection \<open>JSON values\<close>

datatype json = JStr string | JNum int | JBool bool | JNull

type_synonym json_obj = "(string \<times> json) list"

definition json_keys :: "json_obj \<Rightarrow> string set" where
  "json_keys obj = fst ` set obj"

text \<open>\<open>delete obj.key\<close>.\<close>

definition json_delete :: "string \<Rightarrow> json_obj \<Rightarrow> json_obj" where
  "json_delete k obj = filter (\<lambda>(k', _). k' \<noteq> k) obj"

definition opt_field :: "string \<Rightarrow> ('a \<Rightarrow> json) \<Rightarrow> 'a option \<Rightarrow> json_obj" where
  "opt_field k f x = (case x of None \<Rightarrow> [] | Some v \<Rightarrow> [(k, f v)])"

subsection \<open>Entities\<close>

record cliente =
  clienteId :: "int option"
  nombre :: string
  genero :: string
  edad :: int
  identificacion :: string
  direccion :: string
  telefono :: string
  contrasena :: string
  estado :: bool

record cuenta =
  cuenta_id :: "int option"
  numeroCuenta :: string
  tipoCuenta :: string
  saldoInicial :: int
  cuenta_estado :: bool
  cuenta_clienteId :: int
  clienteNombre :: "string option"

record movimiento =
  mov_id :: "int option"
  fecha :: "string option"
  tipoMovimiento :: string
  valor :: js_number
  saldo :: "js_number option"
  mov_numeroCuenta :: string

record reporteMovimiento =
  rep_fecha :: string
  rep_cliente :: string
  rep_numeroCuenta :: string
  tipo :: string
  rep_saldoInicial :: js_number
  rep_estado :: bool
  movimiento :: js_number
  saldoDisponible :: js_number

subsection \<open>Serialisation of request bodies\<close>

definition cliente_json :: "cliente \<Rightarrow> json_obj" where
  "cliente_json c =
     opt_field ''clienteId'' JNum (clienteId c) @
     [(''nombre'', JStr (nombre c)), (''genero'', JStr (genero c)), (''edad'', JNum (edad c)),
      (''identificacion'', JStr (identificacion c)), (''direccion'', JStr (direccion c)),
      (''telefono'', JStr (telefono c)), (''contrasena'', JStr (contrasena c)),
      (''estado'', JBool (estado c))]"

definition cuenta_json :: "cuenta \<Rightarrow> json_obj" where
  "cuenta_json a =
     opt_field ''id'' JNum (cuenta_id a) @
     [(''numeroCuenta'', JStr (numeroCuenta a)), (''tipoCuenta'', JStr (tipoCuenta a)),
      (''saldoInicial'', JNum (saldoInicial a)), (''estado'', JBool (cuenta_estado a)),
      (''clienteId'', JNum (cuenta_clienteId a))] @
     opt_field ''clienteNombre'' JStr (clienteNombre a)"

definition movimiento_json :: "movimiento \<Rightarrow> json_obj" where
  "movimiento_json m =
     opt_field ''id'' JNum (mov_id m) @ opt_field ''fecha'' JStr (fecha m) @
     [(''tipoMovimiento'', JStr (tipoMovimiento m)), (''valor'', JNum (valor m))] @
     opt_field ''saldo'' JNum (saldo m) @
     [(''numeroCuenta'', JStr (mov_numeroCuenta m))]"

subsection \<open>Constants\<close>

definition TIPOS_CUENTA :: "string list" where
  "TIPOS_CUENTA = [''Ahorros'', ''Corriente'']"

definition TIPOS_MOVIMIENTO :: "string list" where
  "TIPOS_MOVIMIENTO = [''Deposito'', ''Retiro'', ''Credito'', ''Debito'']"

definition DURACION_MENSAJE :: nat where
  "DURACION_MENSAJE = 5000"

definition GENEROS :: "string list" where
  "GENEROS = [''Masculino'', ''Femenino'', ''Otro'']"

text \<open>\<open>VALIDACIONES\<close>, \<open>MENSAJES\<close> and \<open>APP_CONFIG\<close>: the configuration objects of
  \<open>constants/app.constants.ts\<close>. No component reads them (the views write their own
  literals and checks), which the theory \<open>Clientes\<close> states of the customer form.\<close>

record validaciones =
  EDAD_MINIMA :: js_number
  EDAD_MAXIMA :: js_number
  TELEFONO_MIN_LENGTH :: js_number
  TELEFONO_MAX_LENGTH :: js_number
  IDENTIFICACION_MIN_LENGTH :: js_number
  IDENTIFICACION_MAX_LENGTH :: js_number
  PASSWORD_MIN_LENGTH :: js_number
  SALDO_MINIMO :: js_number
  MONTO_MINIMO_TRANSACCION :: js_number

definition VALIDACIONES :: validaciones where
  "VALIDACIONES =
     \<lparr>EDAD_MINIMA = 18, EDAD_MAXIMA = 120, TELEFONO_MIN_LENGTH = 7, TELEFONO_MAX_LENGTH = 15,
      IDENTIFICACION_MIN_LENGTH = 5, IDENTIFICACION_MAX_LENGTH = 20, PASSWORD_MIN_LENGTH = 4,
      SALDO_MINIMO = 0, MONTO_MINIMO_TRANSACCION = 1\<rparr>"

record mensajes_error =
  CAMPOS_REQUERIDOS :: string
  EDAD_INVALIDA :: string
  PASSWORD_REQUERIDA :: string
  SALDO_INSUFICIENTE :: string
  MONTO_INVALIDO :: string
  CONFIRMACION :: string

record mensajes_exito =
  CREADO :: string
  ACTUALIZADO :: string
  ELIMINADO :: string
  GUARDADO :: string

record mensajes =
  ERROR :: mensajes_error
  EXITO :: mensajes_exito

text \<open>Non-ASCII letters are written as their UTF-8 bytes (\<open>0xC3 0xB1\<close> is the letter
  n with tilde, \<open>0xC3 0xA1\<close> and \<open>0xC3 0xB3\<close> are a and o with acute accent,
  \<open>0xC2 0xBF\<close> the inverted question mark).\<close>

definition MENSAJES :: mensajes where
  "MENSAJES =
     \<lparr>ERROR =
        \<lparr>CAMPOS_REQUERIDOS = ''Por favor complete todos los campos obligatorios'',
         EDAD_INVALIDA = ''La edad debe estar entre '' @ js_num_str (EDAD_MINIMA VALIDACIONES) @ '' y '' @
                         js_num_str (EDAD_MAXIMA VALIDACIONES) @ '' a'' @ [CHR 0xC3, CHR 0xB1] @ ''os'',
         PASSWORD_REQUERIDA = ''La contrase'' @ [CHR 0xC3, CHR 0xB1] @ ''a es obligatoria para crear un cliente'',
         SALDO_INSUFICIENTE = ''Saldo insuficiente para realizar la operaci'' @ [CHR 0xC3, CHR 0xB3] @ ''n'',
         MONTO_INVALIDO = ''El monto debe ser mayor a cero'',
         CONFIRMACION = [CHR 0xC2, CHR 0xBF] @ ''Est'' @ [CHR 0xC3, CHR 0xA1] @
                        '' seguro de realizar esta operaci'' @ [CHR 0xC3, CHR 0xB3] @ ''n?''\<rparr>,
      EXITO =
        \<lparr>CREADO = ''Registro creado exitosamente'', ACTUALIZADO = ''Registro actualizado exitosamente'',
         ELIMINADO = ''Registro eliminado exitosamente'', GUARDADO = ''Cambios guardados exitosamente''\<rparr>\<rparr>"

record app_config =
  app_DURACION_MENSAJE :: nat
  app_DEBOUNCE_SEARCH :: nat
  app_ITEMS_POR_PAGINA :: nat
  app_MAX_FILE_SIZE :: nat

definition APP_CONFIG :: app_config where
  "APP_CONFIG =
     \<lparr>app_DURACION_MENSAJE = DURACION_MENSAJE, app_DEBOUNCE_SEARCH = 300, app_ITEMS_POR_PAGINA = 10,
      app_MAX_FILE_SIZE = 5242880\<rparr>"

subsection \<open>The interfaces as types of JSON objects\<close>

text \<open>The TypeScript interfaces of \<open>models.ts\<close> as types of JSON objects: each property
  with its primitive type and whether it is optional (\<open>?\<close>). An object conforms to an
  interface when its properties are distinct, each is a property of the interface with a
  value of its type, and every property that is not optional is present.\<close>

datatype json_tipo = TString | TNumber | TBoolean

fun tipo_json :: "json \<Rightarrow> json_tipo option" where
  "tipo_json (JStr _) = Some TString"
| "tipo_json (JNum _) = Some TNumber"
| "tipo_json (JBool _) = Some TBoolean"
| "tipo_json JNull = None"

type_synonym interfaz = "(string \<times> json_tipo \<times> bool) list"

definition conforme :: "interfaz \<Rightarrow> json_obj \<Rightarrow> bool" where
  "conforme i obj \<longleftrightarrow>
     distinct (map fst obj) \<and>
     list_all (\<lambda>(k, v). case map_of i k of None \<Rightarrow> False | Some (t, _) \<Rightarrow> tipo_json v = Some t) obj \<and>
     list_all (\<lambda>(k, t, opcional). opcional \<or> k \<in> set (map fst obj)) i"

definition Cliente_tipo :: interfaz where
  "Cliente_tipo =
     [(''clienteId'', TNumber, True), (''nombre'', TString, False), (''genero'', TString, False),
      (''edad'', TNumber, False), (''identificacion'', TString, False), (''direccion'', TString, False),
      (''telefono'', TString, False), (''contrasena'', TString, False), (''estado'', TBoolean, False)]"

definition Cuenta_tipo :: interfaz where
  "Cuenta_tipo =
     [(''id'', TNumber, True), (''numeroCuenta'', TString, False), (''tipoCuenta'', TString, False),
      (''saldoInicial'', TNumber, False), (''estado'', TBoolean, False), (''clienteId'', TNumber, False),
      (''clienteNombre'', TString, True)]"

definition Movimiento_tipo :: interfaz where
  "Movimiento_tipo =
     [(''id'', TNumber, True), (''fecha'', TString, True), (''tipoMovimiento'', TString, False),
      (''valor'', TNumber, False), (''saldo'', TNumber, True), (''numeroCuenta'', TString, False)]"

text \<open>An interface with one property made optional: the type of an object from which
  \<open>delete (obj as any).k\<close> may have removed \<open>k\<close>.\<close>

definition hacer_opcional :: "string \<Rightarrow> interfaz \<Rightarrow> interfaz" where
  "hacer_opcional k i = map (\<lambda>(k', t, opc). (k', t, opc \<or> k' = k)) i"

subsection \<open>Lemmas on payloads\<close>

lemma json_keys_append [simp]: "json_keys (xs @ ys) = json_keys xs \<union> json_keys ys"
  by (auto simp: json_keys_def)

lemma json_keys_Cons [simp]: "json_keys ((k, v) # xs) = insert k (json_keys xs)"
  by (simp add: json_keys_def)

lemma json_keys_Nil [simp]: "json_keys [] = {}"
  by (simp add: json_keys_def)

lemma json_keys_delete [simp]: "json_keys (json_delete k obj) = json_keys obj - {k}"
  by (auto simp: json_keys_def json_delete_def image_iff)

lemma json_keys_opt_field [simp]:
  "json_keys (opt_field k f x) = (case x of None \<Rightarrow> {} | Some _ \<Rightarrow> {k})"
  by (simp add: opt_field_def split: option.splits)

lemma json_delete_append [simp]:
  "json_delete k (xs @ ys) = json_delete k xs @ json_delete k ys"
  by (simp add: json_delete_def)

lemma json_delete_opt_field_other [simp]:
  "k \<noteq> k' \<Longrightarrow> json_delete k (opt_field k' f x) = opt_field k' f x"
  by (simp add: json_delete_def opt_field_def split: option.splits)

lemma json_delete_Cons [simp]:
  "json_delete k ((k', v) # xs) = (if k' = k then json_delete k xs else (k', v) # json_delete k xs)"
  by (simp add: json_delete_def)

lemma contrasena_in_cliente_json: "''contrasena'' \<in> json_keys (cliente_json c)"
  by (simp add: cliente_json_def)

lemma cliente_json_contrasena:
  "map_of (cliente_json c) ''contrasena'' = Some (JStr (contrasena c))"
  by (simp add: cliente_json_def opt_field_def split: option.splits)

lemma cliente_json_conforme: "conforme Cliente_tipo (cliente_json c)"
  by (simp add: conforme_def Cliente_tipo_def cliente_json_def opt_field_def split: option.splits)

lemma cuenta_json_conforme: "conforme Cuenta_tipo (cuenta_json a)"
  by (simp add: conforme_def Cuenta_tipo_def cuenta_json_def opt_field_def split: option.splits)

lemma movimiento_json_conforme: "conforme Movimiento_tipo (movimiento_json m)"
  by (simp add: conforme_def Movimiento_tipo_def movimiento_json_def opt_field_def split: option.splits)

lemma map_of_hacer_opcional:
  "map_of (hacer_opcional k i) k' = map_option (\<lambda>(t, opc). (t, opc \<or> k' = k)) (map_of i k')"
  by (induction i) (auto simp: hacer_opcional_def)

lemma tipo_hacer_opcional:
  "(case map_of (hacer_opcional k i) k' of None \<Rightarrow> False | Some (t, _) \<Rightarrow> tipo_json v = Some t) \<longleftrightarrow>
   (case map_of i k' of None \<Rightarrow> False | Some (t, _) \<Rightarrow> tipo_json v = Some t)"
  by (simp add: map_of_hacer_opcional split: option.splits)

lemma conforme_delete:
  assumes "conforme i obj"
  shows "conforme (hacer_opcional k i) (json_delete k obj)"
proof -
  have "distinct (map fst (json_delete k obj))"
    using assms by (simp add: conforme_def json_delete_def distinct_map_filter)
  moreover have "list_all (\<lambda>(k', v). case map_of (hacer_opcional k i) k' of None \<Rightarrow> False
                     | Some (t, _) \<Rightarrow> tipo_json v = Some t) (json_delete k obj)"
    using assms by (simp add: conforme_def json_delete_def list_all_iff tipo_hacer_opcional)
  moreover have "list_all (\<lambda>(k', t, opc). opc \<or> k' \<in> set (map fst (json_delete k obj))) (hacer_opcional k i)"
    using assms unfolding conforme_def json_delete_def list_all_iff hacer_opcional_def
    by (fastforce simp: image_iff)
  ultimately show ?thesis by (simp add: conforme_def)
qed

lemma conforme_hacer_opcional: "conforme i obj \<Longrightarrow> conforme (hacer_opcional k i) obj"
  unfolding conforme_def by (simp add: tipo_hacer_opcional) (fastforce simp: list_all_iff hacer_opcional_def)

end
