(* ===== verification/Api.thy ===== *)
theory Api
  imports Models
begin

text \<open>
  The HTTP client wrapper \<open>services/api.service.ts\<close> (class \<open>ApiService\<close>). Every
  method of the class builds one HTTP request and returns the (cold) observable of its
  response; nothing is sent until a component subscribes. The model separates the two:
  each method is a definition of the same name building its request (verb, URL under
  \<open>baseUrl = '/api'\<close> with the identifier rendered by the template literal, JSON body,
  and for \<open>getReporte\<close> the query parameters built with \<open>HttpParams.set\<close>);
  \<open>api_call\<close> has one constructor per method with the method's arguments, and
  \<open>request_of\<close> sends a call to its method. A component's subscription to a call is an
  effect of the component's handler (theory \<open>ViewModel\<close>), and the response comes back
  as an \<open>api_response\<close> (theory \<open>Session\<close>).

  The report endpoint takes the two ISO-8601 instants that the report view computes with
  \<open>toISOString()\<close>; the model carries the instants themselves (\<open>QInstant\<close>) rather
  than their rendering, which is a bijection done by the browser.

  \<open>api_call_of_request\<close> reads a request back the way the REST surface of the
  specification describes it; the round trip through it (C34) shows that the methods reach
  pairwise distinct endpoints and that identifiers survive their rendering.
\<close>

datatype http_method = GET | POST | PUT | DELETE

datatype query_param = QText string | QInstant instant

record http_request =
  req_method :: http_method
  req_url :: string
  req_body :: "json_obj option"
  req_params :: "(string \<times> query_param) list"

datatype api_call =
    GetClientes
  | GetCliente int
  | CreateCliente json_obj
  | UpdateCliente int json_obj
  | DeleteCliente int
  | GetCuentas
  | GetCuenta int
  | GetCuentasByCliente int
  | CreateCuenta json_obj
  | UpdateCuenta int json_obj
  | DeleteCuenta int
  | GetMovimientos
  | GetMovimiento int
  | GetMovimientosByCuenta int
  | CreateMovimiento json_obj
  | UpdateMovimiento int json_obj
  | DeleteMovimiento int
  | GetReporte int instant instant

datatype api_response =
    RClientes "cliente list"
  | RCliente cliente
  | RCuentas "cuenta list"
  | RCuenta cuenta
  | RMovimientos "movimiento list"
  | RMovimiento movimiento
  | RReporte "reporteMovimiento list"
  | RVoid

definition baseUrl :: string where
  "baseUrl = ''/api''"

text \<open>The build environments \<open>environments/environment.ts\<close> (development) and
  \<open>environments/environment.prod.ts\<close> (production). No file of the application imports
  them: \<open>ApiService\<close> has its own literal \<open>baseUrl\<close>, which agrees with the
  \<open>apiUrl\<close> of both builds (lemma \<open>request_of_apiUrl\<close>).\<close>

record entorno =
  production :: bool
  apiUrl :: string
  appVersion :: string
  enableDebugTools :: bool
  logLevel :: string

definition environment :: entorno where
  "environment = \<lparr>production = False, apiUrl = ''/api'', appVersion = ''1.0.0-dev'',
     enableDebugTools = True, logLevel = ''debug''\<rparr>"

definition environment_prod :: entorno where
  "environment_prod = \<lparr>production = True, apiUrl = ''/api'', appVersion = ''1.0.0'',
     enableDebugTools = False, logLevel = ''error''\<rparr>"

definition http_get :: "string \<Rightarrow> http_request" where
  "http_get u = \<lparr>req_method = GET, req_url = u, req_body = None, req_params = []\<rparr>"

definition http_post :: "string \<Rightarrow> json_obj \<Rightarrow> http_request" where
  "http_post u b = \<lparr>req_method = POST, req_url = u, req_body = Some b, req_params = []\<rparr>"

definition http_put :: "string \<Rightarrow> json_obj \<Rightarrow> http_request" where
  "http_put u b = \<lparr>req_method = PUT, req_url = u, req_body = Some b, req_params = []\<rparr>"

definition http_delete :: "string \<Rightarrow> http_request" where
  "http_delete u = \<lparr>req_method = DELETE, req_url = u, req_body = None, req_params = []\<rparr>"

text \<open>\<open>HttpParams.set(k, v)\<close>: an immutable copy in which \<open>k\<close> has the single value
  \<open>v\<close>; a key already present keeps its position, a new key goes last.\<close>

definition http_params_set ::
  "string \<Rightarrow> query_param \<Rightarrow> (string \<times> query_param) list \<Rightarrow> (string \<times> query_param) list" where
  "http_params_set k v ps =
     (if k \<in> fst ` set ps then map (\<lambda>(k', v'). if k' = k then (k', v) else (k', v')) ps
      else ps @ [(k, v)])"

subsection \<open>The methods of \<open>ApiService\<close>\<close>

definition getClientes :: http_request where
  "getClientes = http_get (baseUrl @ ''/clientes'')"

definition getCliente :: "int \<Rightarrow> http_request" where
  "getCliente i = http_get (baseUrl @ ''/clientes/'' @ js_num_str i)"

definition createCliente :: "json_obj \<Rightarrow> http_request" where
  "createCliente c = http_post (baseUrl @ ''/clientes'') c"

definition updateCliente :: "int \<Rightarrow> json_obj \<Rightarrow> http_request" where
  "updateCliente i c = http_put (baseUrl @ ''/clientes/'' @ js_num_str i) c"

definition deleteCliente :: "int \<Rightarrow> http_request" where
  "deleteCliente i = http_delete (baseUrl @ ''/clientes/'' @ js_num_str i)"

definition getCuentas :: http_request where
  "getCuentas = http_get (baseUrl @ ''/cuentas'')"

definition getCuenta :: "int \<Rightarrow> http_request" where
  "getCuenta i = http_get (baseUrl @ ''/cuentas/'' @ js_num_str i)"

definition getCuentasByCliente :: "int \<Rightarrow> http_request" where
  "getCuentasByCliente i = http_get (baseUrl @ ''/cuentas/cliente/'' @ js_num_str i)"

definition createCuenta :: "json_obj \<Rightarrow> http_request" where
  "createCuenta c = http_post (baseUrl @ ''/cuentas'') c"

definition updateCuenta :: "int \<Rightarrow> json_obj \<Rightarrow> http_request" where
  "updateCuenta i c = http_put (baseUrl @ ''/cuentas/'' @ js_num_str i) c"

definition deleteCuenta :: "int \<Rightarrow> http_request" where
  "deleteCuenta i = http_delete (baseUrl @ ''/cuentas/'' @ js_num_str i)"

definition getMovimientos :: http_request where
  "getMovimientos = http_get (baseUrl @ ''/movimientos'')"

definition getMovimiento :: "int \<Rightarrow> http_request" where
  "getMovimiento i = http_get (baseUrl @ ''/movimientos/'' @ js_num_str i)"

definition getMovimientosByCuenta :: "int \<Rightarrow> http_request" where
  "getMovimientosByCuenta i = http_get (baseUrl @ ''/movimientos/cuenta/'' @ js_num_str i)"

definition createMovimiento :: "json_obj \<Rightarrow> http_request" where
  "createMovimiento m = http_post (baseUrl @ ''/movimientos'') m"

definition updateMovimiento :: "int \<Rightarrow> json_obj \<Rightarrow> http_request" where
  "updateMovimiento i m = http_put (baseUrl @ ''/movimientos/'' @ js_num_str i) m"

definition deleteMovimiento :: "int \<Rightarrow> http_request" where
  "deleteMovimiento i = http_delete (baseUrl @ ''/movimientos/'' @ js_num_str i)"

definition getReporte :: "int \<Rightarrow> instant \<Rightarrow> instant \<Rightarrow> http_request" where
  "getReporte c ini fin =
     (let params = http_params_set ''fechaFin'' (QInstant fin)
                     (http_params_set ''fechaInicio'' (QInstant ini)
                       (http_params_set ''clienteId'' (QText (js_num_str c)) []))
      in (http_get (baseUrl @ ''/reportes''))\<lparr>req_params := params\<rparr>)"

text \<open>The request of a call: the method the call names, applied to its arguments.\<close>

fun request_of :: "api_call \<Rightarrow> http_request" where
  "request_of GetClientes = getClientes"
| "request_of (GetCliente i) = getCliente i"
| "request_of (CreateCliente c) = createCliente c"
| "request_of (UpdateCliente i c) = updateCliente i c"
| "request_of (DeleteCliente i) = deleteCliente i"
| "request_of GetCuentas = getCuentas"
| "request_of (GetCuenta i) = getCuenta i"
| "request_of (GetCuentasByCliente i) = getCuentasByCliente i"
| "request_of (CreateCuenta c) = createCuenta c"
| "request_of (UpdateCuenta i c) = updateCuenta i c"
| "request_of (DeleteCuenta i) = deleteCuenta i"
| "request_of GetMovimientos = getMovimientos"
| "request_of (GetMovimiento i) = getMovimiento i"
| "request_of (GetMovimientosByCuenta i) = getMovimientosByCuenta i"
| "request_of (CreateMovimiento m) = createMovimiento m"
| "request_of (UpdateMovimiento i m) = updateMovimiento i m"
| "request_of (DeleteMovimiento i) = deleteMovimiento i"
| "request_of (GetReporte c ini fin) = getReporte c ini fin"

text \<open>The type of the body each method declares for its parameter
  (\<open>createCliente(cliente: Cliente)\<close>, ...), \<open>None\<close> for the methods without body, and
  what it means for a request to carry a body of its declared type.\<close>

definition cuerpo_declarado :: "api_call \<Rightarrow> interfaz option" where
  "cuerpo_declarado c =
     (case c of
        CreateCliente _ \<Rightarrow> Some Cliente_tipo | UpdateCliente _ _ \<Rightarrow> Some Cliente_tipo
      | CreateCuenta _ \<Rightarrow> Some Cuenta_tipo | UpdateCuenta _ _ \<Rightarrow> Some Cuenta_tipo
      | CreateMovimiento _ \<Rightarrow> Some Movimiento_tipo | UpdateMovimiento _ _ \<Rightarrow> Some Movimiento_tipo
      | _ \<Rightarrow> None)"

definition cuerpo_bien_tipado :: "interfaz option \<Rightarrow> http_request \<Rightarrow> bool" where
  "cuerpo_bien_tipado t r =
     (case (req_body r, t) of
        (None, None) \<Rightarrow> True
      | (Some b, Some i) \<Rightarrow> conforme i b
      | _ \<Rightarrow> False)"

text \<open>The calls that change backend state (the ones after which a view reloads its list).\<close>

fun is_mutation :: "api_call \<Rightarrow> bool" where
  "is_mutation (CreateCliente _) = True"
| "is_mutation (UpdateCliente _ _) = True"
| "is_mutation (DeleteCliente _) = True"
| "is_mutation (CreateCuenta _) = True"
| "is_mutation (UpdateCuenta _ _) = True"
| "is_mutation (DeleteCuenta _) = True"
| "is_mutation (CreateMovimiento _) = True"
| "is_mutation (UpdateMovimiento _ _) = True"
| "is_mutation (DeleteMovimiento _) = True"
| "is_mutation _ = False"

text \<open>The backend's reading of a request (a reference for the round trip, written from the
  REST surface of the specification, not from code of the repository): the base path, then
  the resource, the numeric identifier and the query parameters.\<close>

fun decode_endpoint ::
  "http_method \<Rightarrow> string list \<Rightarrow> json_obj option \<Rightarrow> (string \<times> query_param) list \<Rightarrow> api_call option" where
  "decode_endpoint GET [x] None [] =
     (if x = ''clientes'' then Some GetClientes
      else if x = ''cuentas'' then Some GetCuentas
      else if x = ''movimientos'' then Some GetMovimientos else None)"
| "decode_endpoint GET [x, n] None [] =
     (if x = ''clientes'' then map_option GetCliente (parse_int n)
      else if x = ''cuentas'' then map_option GetCuenta (parse_int n)
      else if x = ''movimientos'' then map_option GetMovimiento (parse_int n) else None)"
| "decode_endpoint GET [x, y, n] None [] =
     (if x = ''cuentas'' \<and> y = ''cliente'' then map_option GetCuentasByCliente (parse_int n)
      else if x = ''movimientos'' \<and> y = ''cuenta'' then map_option GetMovimientosByCuenta (parse_int n)
      else None)"
| "decode_endpoint GET [x] None [(k1, QText c), (k2, QInstant ini), (k3, QInstant fin)] =
     (if x = ''reportes'' \<and> k1 = ''clienteId'' \<and> k2 = ''fechaInicio'' \<and> k3 = ''fechaFin''
      then map_option (\<lambda>i. GetReporte i ini fin) (parse_int c) else None)"
| "decode_endpoint POST [x] (Some b) [] =
     (if x = ''clientes'' then Some (CreateCliente b)
      else if x = ''cuentas'' then Some (CreateCuenta b)
      else if x = ''movimientos'' then Some (CreateMovimiento b) else None)"
| "decode_endpoint PUT [x, n] (Some b) [] =
     (if x = ''clientes'' then map_option (\<lambda>i. UpdateCliente i b) (parse_int n)
      else if x = ''cuentas'' then map_option (\<lambda>i. UpdateCuenta i b) (parse_int n)
      else if x = ''movimientos'' then map_option (\<lambda>i. UpdateMovimiento i b) (parse_int n) else None)"
| "decode_endpoint DELETE [x, n] None [] =
     (if x = ''clientes'' then map_option DeleteCliente (parse_int n)
      else if x = ''cuentas'' then map_option DeleteCuenta (parse_int n)
      else if x = ''movimientos'' then map_option DeleteMovimiento (parse_int n) else None)"
| "decode_endpoint _ _ _ _ = None"

definition api_call_of_request :: "http_request \<Rightarrow> api_call option" where
  "api_call_of_request r =
     (case js_split CHR ''/'' (req_url r) of
        [] # a # segs \<Rightarrow>
          if a = ''api'' then decode_endpoint (req_method r) segs (req_body r) (req_params r) else None
      | _ \<Rightarrow> None)"

lemmas http_builders = http_get_def http_post_def http_put_def http_delete_def baseUrl_def

lemmas api_methods = getClientes_def getCliente_def createCliente_def updateCliente_def
  deleteCliente_def getCuentas_def getCuenta_def getCuentasByCliente_def createCuenta_def
  updateCuenta_def deleteCuenta_def getMovimientos_def getMovimiento_def
  getMovimientosByCuenta_def createMovimiento_def updateMovimiento_def deleteMovimiento_def
  getReporte_def

lemma req_body_request_of:
  "req_body (request_of c) =
     (case c of
        CreateCliente b \<Rightarrow> Some b | UpdateCliente _ b \<Rightarrow> Some b | CreateCuenta b \<Rightarrow> Some b
      | UpdateCuenta _ b \<Rightarrow> Some b | CreateMovimiento b \<Rightarrow> Some b | UpdateMovimiento _ b \<Rightarrow> Some b
      | _ \<Rightarrow> None)"
  by (cases c) (simp_all add: api_methods http_builders Let_def)

lemma request_of_body:
  "req_body (request_of c) \<noteq> None \<longleftrightarrow> req_method (request_of c) \<in> {POST, PUT}"
  by (cases c) (simp_all add: api_methods http_builders Let_def)

lemma request_of_mutation_method:
  "is_mutation c \<longleftrightarrow> req_method (request_of c) \<noteq> GET"
  by (cases c) (simp_all add: api_methods http_builders Let_def)

lemma request_of_decodes: "api_call_of_request (request_of c) = Some c"
  by (cases c) (simp_all add: api_call_of_request_def api_methods http_builders http_params_set_def Let_def)

text \<open>Every request goes under the \<open>apiUrl\<close> of either build, and the two builds differ
  only in the production flag, the version and the debug settings.\<close>

lemma request_of_apiUrl:
  "(\<exists>rest. req_url (request_of c) = apiUrl environment @ rest) \<and>
   apiUrl environment_prod = apiUrl environment \<and>
   environment_prod = environment\<lparr>production := True, appVersion := ''1.0.0'',
     enableDebugTools := False, logLevel := ''error''\<rparr>"
  by (cases c) (simp_all add: api_methods http_builders http_params_set_def environment_def
      environment_prod_def Let_def)

subsection \<open>Properties\<close>

text \<open>C34. Every method of \<open>ApiService\<close> reaches its own endpoint: the backend reads back
  from the request (verb, path under \<open>/api\<close>, identifier rendered by the template
  literal, body and query parameters) exactly the call that built it, so no two calls, and
  no two identifiers, are sent as the same request.\<close>

theorem request_of_inyectiva:
  "api_call_of_request (request_of c) = Some c \<and> (request_of c' = request_of c \<longleftrightarrow> c' = c)"
  by (metis option.inject request_of_decodes)

end
