(* ===== verification/ErrorInterceptor.thy ===== *)
theory ErrorInterceptor
  imports Api
begin

text \<open>
  The error interceptor \<open>interceptors/error.interceptor.ts\<close>. Every failed request
  reaches it as an \<open>HttpErrorResponse\<close>: a status, the transport's own message and the
  payload \<open>error.error\<close>. The payload is an \<open>ErrorEvent\<close> for a failure on the
  client side, and otherwise whatever the backend sent: a JSON object that may or may not
  have a \<open>message\<close> property, a plain text body, or nothing (\<open>null\<close>).
  The interceptor turns the failure into the value \<open>{status, message, error}\<close> that every
  subscriber's error callback receives (\<open>normalizeError\<close>); a successful response
  passes through unchanged (\<open>errorInterceptor\<close>, on the sum type whose left side is the
  failure). The \<open>console.error\<close> log line is not modelled.
\<close>

datatype err_body =
    ErrorEventBody string
  | ObjectBody "string option"
  | TextBody string
  | NullBody

record http_error_response =
  http_status :: int
  http_message :: string
  http_error :: err_body

record normalized_error =
  ne_status :: int
  ne_message :: string
  ne_error :: err_body

text \<open>\<open>error.error?.message || error.message\<close>: the body's message when it is a non-empty
  string, the transport message otherwise.\<close>

fun backend_message :: "err_body \<Rightarrow> string \<Rightarrow> string" where
  "backend_message (ObjectBody (Some m)) fallback = (if m \<noteq> [] then m else fallback)"
| "backend_message _ fallback = fallback"

definition normalizeError :: "http_error_response \<Rightarrow> normalized_error" where
  "normalizeError e =
     (let errorMessage =
        (case http_error e of
           ErrorEventBody m \<Rightarrow> ''Error: '' @ m
         | b \<Rightarrow> backend_message b (http_message e))
      in \<lparr>ne_status = http_status e, ne_message = errorMessage, ne_error = http_error e\<rparr>)"

definition errorInterceptor :: "(http_error_response + 'a) \<Rightarrow> (normalized_error + 'a)" where
  "errorInterceptor r = map_sum normalizeError id r"

lemma normalizeError_status [simp]: "ne_status (normalizeError e) = http_status e"
  by (simp add: normalizeError_def Let_def)

lemma normalizeError_error [simp]: "ne_error (normalizeError e) = http_error e"
  by (simp add: normalizeError_def Let_def)

subsection \<open>Properties\<close>

text \<open>C25. Every failure the interceptor normalises carries a non-empty message for the
  user, as long as the transport's own message is non-empty: a client-side failure is
  prefixed with "Error: ", and a server-side one falls back to the transport message when
  the body has no usable message.\<close>

theorem normalizeError_mensaje_no_vacio:
  assumes "http_message e \<noteq> []"
  shows "ne_message (normalizeError e) \<noteq> [] \<and> ne_status (normalizeError e) = http_status e \<and>
         ne_error (normalizeError e) = http_error e"
proof (cases "http_error e")
  case (ObjectBody mo)
  then show ?thesis
    using assms by (cases mo) (simp_all add: normalizeError_def Let_def)
qed (use assms in \<open>simp_all add: normalizeError_def Let_def\<close>)

theorem normalizeError_mensaje_no_vacio_witness:
  "ne_message (normalizeError \<lparr>http_status = 500, http_message = ''Internal Server Error'',
                               http_error = ObjectBody (Some [])\<rparr>) = ''Internal Server Error''"
  using normalizeError_mensaje_no_vacio
    [of "\<lparr>http_status = 500, http_message = ''Internal Server Error'', http_error = ObjectBody (Some [])\<rparr>"]
  by (simp add: normalizeError_def)

end
