(* ===== verification/ViewModel.thy ===== *)
theory ViewModel
  imports ErrorInterceptor
begin

text \<open>
  What the four feature views (\<open>components/clientes\<close>, \<open>cuentas\<close>,
  \<open>movimientos\<close>, \<open>reportes\<close>) share. Each view is a class whose fields are its
  state and whose methods are handlers; a handler updates the fields and may start
  asynchronous work. The model makes that work explicit: a handler is a function from the
  view's state to the new state and the list of effects it started, in order
  (type \<open>'s out\<close>):
  \<^item> \<open>Subscribe c\<close>: \<open>this.apiService.c(...).subscribe({next, error})\<close>; the
    callbacks run later, when the response arrives, and are modelled as the view's
    \<open>_next\<close> and \<open>_error\<close> handlers;
  \<^item> \<open>ClearMensajeAfter d\<close>: \<open>setTimeout(() => this.mensaje = '', d)\<close>;
  \<^item> \<open>DownloadPdf\<close> and \<open>DownloadJson\<close>: the export of the report view;
  \<^item> \<open>Uncaught x\<close>: an exception thrown inside a subscriber callback, which the
    observable library reports on the console; the callback stops there.
  \<open>window.confirm\<close> is synchronous and is an argument of the handler that calls it.

  Every view has the same \<open>mostrarMensaje\<close>, modelled once on the record \<open>vm_msg\<close>
  that every view's state record extends, and every view reads
  \<open>error.error.message\<close> of the normalised error in the same way
  (\<open>error_error_message\<close>).
\<close>

datatype msg_tipo = MsgSuccess | MsgError

datatype js_exc = TypeError

record vm_msg =
  mensaje :: string
  mensajeTipo :: msg_tipo

record pdf_doc =
  pdf_cliente :: string
  pdf_periodo :: "day option \<times> day option"
  pdf_filas :: "reporteMovimiento list"
  pdf_totales :: "js_number \<times> js_number \<times> js_number"
  pdf_archivo_cliente :: string

datatype effect =
    Subscribe api_call
  | ClearMensajeAfter nat
  | DownloadPdf pdf_doc
  | DownloadJson "reporteMovimiento list"
  | Uncaught js_exc

type_synonym 's out = "'s \<times> effect list"

text \<open>Sequential composition of two handler steps: the second runs on the state the first
  left, and the effects are started in order.\<close>

definition andThen :: "'s out \<Rightarrow> ('s \<Rightarrow> 's out) \<Rightarrow> 's out" where
  "andThen a f = (let (s1, e1) = a; (s2, e2) = f s1 in (s2, e1 @ e2))"

definition pure_step :: "('s \<Rightarrow> 's) \<Rightarrow> 's \<Rightarrow> 's out" where
  "pure_step f s = (f s, [])"

definition mostrarMensaje :: "string \<Rightarrow> msg_tipo \<Rightarrow> 'a vm_msg_scheme \<Rightarrow> 'a vm_msg_scheme out" where
  "mostrarMensaje texto k s =
     (s\<lparr>mensaje := texto, mensajeTipo := k\<rparr>, [ClearMensajeAfter DURACION_MENSAJE])"

text \<open>\<open>error.error.message\<close> on the normalised error: the message of an \<open>ErrorEvent\<close>
  or of a JSON body, \<open>undefined\<close> (rendered \<open>'undefined'\<close> by \<open>+\<close>) when the body has
  no such property, and a \<open>TypeError\<close> when the body is \<open>null\<close>.\<close>

fun error_error_message :: "normalized_error \<Rightarrow> js_exc + string" where
  "error_error_message e =
     (case ne_error e of
        ErrorEventBody m \<Rightarrow> Inr m
      | ObjectBody (Some m) \<Rightarrow> Inr m
      | ObjectBody None \<Rightarrow> Inr ''undefined''
      | TextBody _ \<Rightarrow> Inr ''undefined''
      | NullBody \<Rightarrow> Inl TypeError)"

text \<open>\<open>this.mostrarMensaje(prefix + error.error.message, 'error')\<close>: the message is
  shown, unless evaluating the argument throws.\<close>

definition mostrarError :: "string \<Rightarrow> normalized_error \<Rightarrow> 'a vm_msg_scheme \<Rightarrow> 'a vm_msg_scheme out" where
  "mostrarError pre e s =
     (case error_error_message e of
        Inl x \<Rightarrow> (s, [Uncaught x])
      | Inr m \<Rightarrow> mostrarMensaje (pre @ m) MsgError s)"

definition subscribes :: "effect list \<Rightarrow> api_call list" where
  "subscribes es = [c. Subscribe c \<leftarrow> es]"

text \<open>The state \<open>s'\<close> differs from \<open>s\<close> at most in the message and its kind.\<close>

definition solo_mensaje :: "'a vm_msg_scheme \<Rightarrow> 'a vm_msg_scheme \<Rightarrow> bool" where
  "solo_mensaje s s' \<longleftrightarrow> s' = s\<lparr>mensaje := mensaje s', mensajeTipo := mensajeTipo s'\<rparr>"

subsection \<open>The message channel in time\<close>

text \<open>
  Each \<open>ClearMensajeAfter d\<close> effect is a \<open>setTimeout\<close> whose callback clears
  \<open>mensaje\<close>. No view keeps the identifier it returns, so no such timer is ever
  cancelled: \<open>vm_schedule\<close> registers the timers a handler started, and
  \<open>vm_fire\<close> runs the callback of a due one.
\<close>

definition vm_schedule :: "effect list \<Rightarrow> timer_env \<Rightarrow> timer_env" where
  "vm_schedule es env =
     foldl (\<lambda>env e. case e of ClearMensajeAfter d \<Rightarrow> snd (setTimeout d env) | _ \<Rightarrow> env) env es"

definition vm_fire :: "nat \<Rightarrow> 'a vm_msg_scheme \<times> timer_env \<Rightarrow> 'a vm_msg_scheme \<times> timer_env" where
  "vm_fire i st = ((fst st)\<lparr>mensaje := []\<rparr>, clearTimeout i (snd st))"

subsection \<open>Lemmas shared by the views\<close>

lemma andThen_simp [simp]: "andThen a f = (fst (f (fst a)), snd a @ snd (f (fst a)))"
  by (simp add: andThen_def split: prod.splits)

lemma pure_step_simp [simp]: "pure_step f s = (f s, [])"
  by (simp add: pure_step_def)

lemma mostrarMensaje_eq [simp]:
  "mostrarMensaje t k s = (s\<lparr>mensaje := t, mensajeTipo := k\<rparr>, [ClearMensajeAfter DURACION_MENSAJE])"
  by (simp add: mostrarMensaje_def)

lemma subscribes_simps [simp]:
  "subscribes [] = []"
  "subscribes (Subscribe c # es) = c # subscribes es"
  "subscribes (ClearMensajeAfter d # es) = subscribes es"
  "subscribes (DownloadPdf p # es) = subscribes es"
  "subscribes (DownloadJson r # es) = subscribes es"
  "subscribes (Uncaught x # es) = subscribes es"
  "subscribes (es @ es') = subscribes es @ subscribes es'"
  by (simp_all add: subscribes_def)

lemma subscribes_mostrarMensaje [simp]: "subscribes (snd (mostrarMensaje t k s)) = []"
  by (simp add: mostrarMensaje_def)

lemma subscribes_mostrarError [simp]: "subscribes (snd (mostrarError p e s)) = []"
  by (simp add: mostrarError_def mostrarMensaje_def split: sum.splits)

lemma mostrarError_tipo:
  "error_error_message e = Inr m \<Longrightarrow>
     mensaje (fst (mostrarError p e s)) = p @ m \<and> mensajeTipo (fst (mostrarError p e s)) = MsgError"
  by (simp add: mostrarError_def)

lemma solo_mensaje_refl [simp]: "solo_mensaje s s"
  by (simp add: solo_mensaje_def)

lemma solo_mensaje_upd [simp]: "solo_mensaje s (s\<lparr>mensaje := t, mensajeTipo := k\<rparr>)"
  by (simp add: solo_mensaje_def)

lemma solo_mensaje_mostrarError [simp]: "solo_mensaje s (fst (mostrarError p e s))"
  by (simp add: mostrarError_def solo_mensaje_def split: sum.split)

subsection \<open>Properties\<close>

text \<open>C23. A view's message can disappear long before its five seconds: the timer of an
  earlier message is never cancelled and clears the newer one. An error shown at time 0 and
  a success message shown at 4000 ms: at 5000 ms the first timer fires and the success
  message, shown for one second, is gone, although its own timer is due only at 9000 ms.
  The notification service avoids this by cancelling the previous timer (C18); the views do
  not use it.\<close>

theorem mensaje_borrado_por_temporizador_anterior:
  "pending (advance 1000 (vm_schedule [ClearMensajeAfter DURACION_MENSAJE]
      (advance 4000 (vm_schedule [ClearMensajeAfter DURACION_MENSAJE] timer_env_init)))) = [(1, 5000), (2, 9000)] \<and>
   due_timer 1 (advance 1000 (vm_schedule [ClearMensajeAfter DURACION_MENSAJE]
      (advance 4000 (vm_schedule [ClearMensajeAfter DURACION_MENSAJE] timer_env_init)))) \<and>
   mensaje (fst (mostrarMensaje ''Movimiento realizado exitosamente'' MsgSuccess
      (fst (mostrarMensaje ''Error: saldo no disponible'' MsgError \<lparr>mensaje = [], mensajeTipo = MsgSuccess\<rparr>))))
     = ''Movimiento realizado exitosamente'' \<and>
   mensaje (fst (vm_fire 1 (fst (mostrarMensaje ''Movimiento realizado exitosamente'' MsgSuccess
      (fst (mostrarMensaje ''Error: saldo no disponible'' MsgError \<lparr>mensaje = [], mensajeTipo = MsgSuccess\<rparr>))),
      advance 1000 (vm_schedule [ClearMensajeAfter DURACION_MENSAJE]
      (advance 4000 (vm_schedule [ClearMensajeAfter DURACION_MENSAJE] timer_env_init)))))) = [] \<and>
   clock (advance 1000 (vm_schedule [ClearMensajeAfter DURACION_MENSAJE]
      (advance 4000 (vm_schedule [ClearMensajeAfter DURACION_MENSAJE] timer_env_init)))) - 4000 < DURACION_MENSAJE"
  by (simp add: vm_schedule_def vm_fire_def setTimeout_def advance_def timer_env_init_def
      due_timer_def DURACION_MENSAJE_def)

end
