(* ===== verification/Loading.thy ===== *)
theory Loading
  imports Prelude
begin

text \<open>
  The global loading indicator \<open>services/loading.service.ts\<close> (class
  \<open>LoadingService\<close>): a counter of requests in flight, \<open>loadingCount\<close>, and the
  signal \<open>isLoading\<close> that the spinner component reads. \<open>show\<close> and \<open>hide\<close> are
  called by the loading interceptor around every request, \<open>reset\<close> by nobody in the
  sources (the comment reserves it for tests and special cases). The three methods are
  \<open>loading_show\<close>, \<open>loading_hide\<close> and \<open>loading_reset\<close> (\<open>show\<close> is a keyword of
  the proof language).

  The abstract specification of the service is a natural number, the number of
  outstanding \<open>show\<close> calls not yet matched by a \<open>hide\<close> (\<open>hide\<close> never takes it
  below zero), with the spinner visible exactly when it is positive; \<open>loading_abs\<close> maps
  the implementation to it.
\<close>

record loading_service =
  loadingCount :: int
  isLoading :: bool

definition loading_init :: loading_service where
  "loading_init = \<lparr>loadingCount = 0, isLoading = False\<rparr>"

definition loading_show :: "loading_service \<Rightarrow> loading_service" where
  "loading_show s = s\<lparr>loadingCount := loadingCount s + 1, isLoading := True\<rparr>"

definition loading_hide :: "loading_service \<Rightarrow> loading_service" where
  "loading_hide s =
     (let s1 = s\<lparr>loadingCount := loadingCount s - 1\<rparr>
      in if loadingCount s1 \<le> 0 then s1\<lparr>loadingCount := 0, isLoading := False\<rparr> else s1)"

definition loading_reset :: "loading_service \<Rightarrow> loading_service" where
  "loading_reset s = s\<lparr>loadingCount := 0, isLoading := False\<rparr>"

datatype loading_op = Show | Hide | Reset

fun loading_apply :: "loading_service \<Rightarrow> loading_op \<Rightarrow> loading_service" where
  "loading_apply s Show = loading_show s"
| "loading_apply s Hide = loading_hide s"
| "loading_apply s Reset = loading_reset s"

definition loading_run :: "loading_service \<Rightarrow> loading_op list \<Rightarrow> loading_service" where
  "loading_run s ops = foldl loading_apply s ops"

text \<open>The type invariant: the counter is never negative and the flag says whether it is
  positive.\<close>

definition loading_inv :: "loading_service \<Rightarrow> bool" where
  "loading_inv s \<longleftrightarrow> 0 \<le> loadingCount s \<and> (isLoading s \<longleftrightarrow> 0 < loadingCount s)"

definition loading_abs :: "loading_service \<Rightarrow> nat" where
  "loading_abs s = nat (loadingCount s)"

lemmas loading_ops_defs = loading_show_def loading_hide_def loading_reset_def

subsection \<open>Lemmas\<close>

lemma loading_inv_init [simp]: "loading_inv loading_init"
  by (simp add: loading_inv_def loading_init_def)

lemma loading_inv_apply: "loading_inv s \<Longrightarrow> loading_inv (loading_apply s op)"
  by (cases op) (auto simp: loading_inv_def loading_ops_defs Let_def)

lemma loading_run_Cons [simp]: "loading_run s (op # ops) = loading_run (loading_apply s op) ops"
  by (simp add: loading_run_def)

lemma loading_run_Nil [simp]: "loading_run s [] = s"
  by (simp add: loading_run_def)

lemma loading_run_inv: "loading_inv s \<Longrightarrow> loading_inv (loading_run s ops)"
  by (induction ops arbitrary: s) (simp_all add: loading_inv_apply)

lemma loading_show_count [simp]: "loadingCount (loading_show s) = loadingCount s + 1"
  by (simp add: loading_show_def)

lemma loading_hide_count [simp]:
  "loadingCount (loading_hide s) = (if loadingCount s \<le> 1 then 0 else loadingCount s - 1)"
  by (simp add: loading_hide_def Let_def)

lemma loading_isLoading [simp]:
  "isLoading (loading_show s)"
  "isLoading (loading_hide s) = (if loadingCount s \<le> 1 then False else isLoading s)"
  "\<not> isLoading (loading_reset s)"
  "loadingCount (loading_reset s) = 0"
  by (simp_all add: loading_ops_defs Let_def)

subsection \<open>Properties\<close>

text \<open>C10. Whatever sequence of \<open>show\<close>, \<open>hide\<close> and \<open>reset\<close> calls the service
  receives from its initial state, balanced or not, the counter stays non-negative and the
  spinner is visible exactly when the counter is positive.\<close>

theorem loading_inv_siempre: "loading_inv (loading_run loading_init ops)"
  by (rule loading_run_inv) simp

text \<open>C13. Refinement: under the invariant, the service implements a counter of
  outstanding requests on the naturals. \<open>show\<close> adds one, \<open>hide\<close> subtracts one
  (stopping at zero), \<open>reset\<close> returns to zero, and the spinner shows exactly when the
  abstract counter is positive.\<close>

theorem loading_refina_contador:
  assumes "loading_inv s"
  shows "loading_abs (loading_show s) = Suc (loading_abs s) \<and>
         loading_abs (loading_hide s) = loading_abs s - 1 \<and>
         loading_abs (loading_reset s) = 0 \<and>
         (isLoading s \<longleftrightarrow> 0 < loading_abs s)"
  using assms by (auto simp: loading_abs_def loading_inv_def nat_diff_distrib)

theorem loading_refina_contador_witness:
  "loading_abs (loading_hide (loading_show (loading_show loading_init))) = 1 \<and>
   loading_abs (loading_show (loading_show (loading_show loading_init))) = 3"
proof -
  have i: "loading_inv (loading_show (loading_show loading_init))"
    using loading_inv_apply [of loading_init Show] loading_inv_apply [of "loading_show loading_init" Show]
    by simp
  have "loading_abs (loading_show (loading_show loading_init)) = 2"
    by (simp add: loading_abs_def loading_init_def)
  with loading_refina_contador [OF i] show ?thesis by simp
qed

end
