(* ===== verification/LoadingInterceptor.thy ===== *)
theory LoadingInterceptor
  imports Loading
begin

text \<open>
  The loading interceptor \<open>interceptors/loading.interceptor.ts\<close> wraps every HTTP request:
  it calls \<open>loadingService.show()\<close> when the request starts and
  \<open>loadingService.hide()\<close> in \<open>finalize\<close>, which runs once when the request completes,
  fails or is unsubscribed. Requests overlap: the browser's single thread interleaves the
  starts and completions of any number of them in any order, and each of these callbacks
  runs to completion before the next (so the read-modify-write of the counter is atomic).

  The system state \<open>http_sys\<close> is the service plus the list of requests in flight,
  by identifier. \<open>req_start\<close> and \<open>req_finish\<close> are the two halves of the interceptor;
  \<open>interceptor_step\<close> is the step relation whose interleavings are all the executions
  the interceptor allows, and \<open>reachable_http\<close> the states they reach from the start.
  \<open>reset_step\<close> adds the service's \<open>reset\<close> call at any moment, and \<open>reachable_reset\<close> the
  states reached with it.
\<close>

record http_sys =
  svc :: loading_service
  inflight :: "nat list"

definition http_init :: http_sys where
  "http_init = \<lparr>svc = loading_init, inflight = []\<rparr>"

definition req_start :: "nat \<Rightarrow> http_sys \<Rightarrow> http_sys" where
  "req_start r s = s\<lparr>svc := loading_show (svc s), inflight := r # inflight s\<rparr>"

definition req_finish :: "nat \<Rightarrow> http_sys \<Rightarrow> http_sys" where
  "req_finish r s = s\<lparr>svc := loading_hide (svc s), inflight := remove1 r (inflight s)\<rparr>"

inductive interceptor_step :: "http_sys \<Rightarrow> http_sys \<Rightarrow> bool" where
  start: "r \<notin> set (inflight s) \<Longrightarrow> interceptor_step s (req_start r s)"
| finish: "r \<in> set (inflight s) \<Longrightarrow> interceptor_step s (req_finish r s)"

inductive reset_step :: "http_sys \<Rightarrow> http_sys \<Rightarrow> bool" where
  intercept: "interceptor_step s t \<Longrightarrow> reset_step s t"
| reset: "reset_step s (s\<lparr>svc := loading_reset (svc s)\<rparr>)"

inductive reachable_http :: "http_sys \<Rightarrow> bool" where
  init: "reachable_http http_init"
| step: "reachable_http s \<Longrightarrow> interceptor_step s t \<Longrightarrow> reachable_http t"

inductive reachable_reset :: "http_sys \<Rightarrow> bool" where
  init: "reachable_reset http_init"
| step: "reachable_reset s \<Longrightarrow> reset_step s t \<Longrightarrow> reachable_reset t"

text \<open>The invariant of the interleavings: the counter is the number of requests in flight,
  they are distinct, and the spinner shows exactly while one of them is in flight.\<close>

definition http_inv :: "http_sys \<Rightarrow> bool" where
  "http_inv s \<longleftrightarrow> distinct (inflight s) \<and> loadingCount (svc s) = int (length (inflight s)) \<and>
                  (isLoading (svc s) \<longleftrightarrow> inflight s \<noteq> [])"

subsection \<open>Lemmas\<close>

inductive_cases interceptor_stepE: "interceptor_step s t"
inductive_cases reset_stepE: "reset_step s t"

lemma http_inv_init: "http_inv http_init"
  by (simp add: http_inv_def http_init_def loading_init_def)

lemma length_remove1_mem: "r \<in> set xs \<Longrightarrow> length (remove1 r xs) = length xs - 1"
  by (simp add: length_remove1)

lemma remove1_Nil_iff: "r \<in> set xs \<Longrightarrow> remove1 r xs = [] \<longleftrightarrow> length xs \<le> 1"
proof -
  assume "r \<in> set xs"
  then have "length (remove1 r xs) = length xs - 1" by (rule length_remove1_mem)
  then show ?thesis by (metis length_0_conv diff_is_0_eq)
qed

lemma interceptor_step_inv: "interceptor_step s t \<Longrightarrow> http_inv s \<Longrightarrow> http_inv t"
proof (induction rule: interceptor_step.induct)
  case (start r s)
  then show ?case by (simp add: http_inv_def req_start_def)
next
  case (finish r s)
  then have "inflight s \<noteq> []" by auto
  with finish show ?case
    by (auto simp: http_inv_def req_finish_def length_remove1_mem remove1_Nil_iff)
qed

lemma reachable_http_inv: "reachable_http s \<Longrightarrow> http_inv s"
proof (induction rule: reachable_http.induct)
  case init
  show ?case by (rule http_inv_init)
next
  case (step s t)
  then show ?case by (blast intro: interceptor_step_inv)
qed

lemma reachable_http_start:
  "reachable_http s \<Longrightarrow> r \<notin> set (inflight s) \<Longrightarrow> reachable_http (req_start r s)"
  by (blast intro: reachable_http.step interceptor_step.start)

lemma reachable_http_finish:
  "reachable_http s \<Longrightarrow> r \<in> set (inflight s) \<Longrightarrow> reachable_http (req_finish r s)"
  by (blast intro: reachable_http.step interceptor_step.finish)

lemma req_simps [simp]:
  "inflight (req_start r s) = r # inflight s"
  "inflight (req_finish r s) = remove1 r (inflight s)"
  "svc (req_start r s) = loading_show (svc s)"
  "svc (req_finish r s) = loading_hide (svc s)"
  by (simp_all add: req_start_def req_finish_def)

subsection \<open>Properties\<close>

text \<open>C11. In every interleaving of request starts and completions, the spinner is visible
  exactly while at least one request is in flight, and the counter equals the number of
  requests in flight.\<close>

theorem spinner_sii_peticiones:
  assumes "reachable_http s"
  shows "(isLoading (svc s) \<longleftrightarrow> inflight s \<noteq> []) \<and> loadingCount (svc s) = int (length (inflight s))"
  using reachable_http_inv [OF assms] by (simp add: http_inv_def)

theorem spinner_sii_peticiones_witness:
  "isLoading (svc (req_start 2 (req_start 1 http_init))) \<and>
   inflight (req_start 2 (req_start 1 http_init)) \<noteq> []"
proof -
  have r: "reachable_http (req_start 2 (req_start 1 http_init))"
    by (rule reachable_http_start [OF reachable_http_start [OF reachable_http.init]])
       (simp_all add: http_init_def)
  from spinner_sii_peticiones [OF r] show ?thesis by simp
qed

text \<open>C12. \<open>reset\<close> may be called at any moment (the service is injectable), and still
  the spinner never shows without a request in flight: in every interleaving of request
  starts, completions and resets, the requests in flight are distinct, the counter lies
  between zero and their number, and the flag says whether the counter is positive. A reset
  can hide the spinner too early (C22), never keep it on for nothing.\<close>

theorem spinner_nunca_sin_peticion:
  assumes "reachable_reset s"
  shows "distinct (inflight s) \<and> 0 \<le> loadingCount (svc s) \<and>
         loadingCount (svc s) \<le> int (length (inflight s)) \<and>
         (isLoading (svc s) \<longleftrightarrow> 0 < loadingCount (svc s)) \<and>
         (isLoading (svc s) \<longrightarrow> inflight s \<noteq> [])"
  using assms
proof (induction rule: reachable_reset.induct)
  case init
  show ?case by (simp add: http_init_def loading_init_def)
next
  case (step s t)
  from step.hyps(2) step.IH show ?case
    by (elim reset_stepE interceptor_stepE)
       (auto simp: req_start_def req_finish_def loading_ops_defs Let_def length_remove1_mem remove1_Nil_iff)
qed

theorem spinner_nunca_sin_peticion_witness:
  "\<not> isLoading (svc (req_finish 1 ((req_start 1 http_init)\<lparr>svc := loading_reset (svc (req_start 1 http_init))\<rparr>))) \<and>
   loadingCount (svc (req_finish 1 ((req_start 1 http_init)\<lparr>svc := loading_reset (svc (req_start 1 http_init))\<rparr>))) = 0"
proof -
  have "reachable_reset (req_finish 1 ((req_start 1 http_init)\<lparr>svc := loading_reset (svc (req_start 1 http_init))\<rparr>))"
    by (rule reachable_reset.step [OF reachable_reset.step [OF reachable_reset.step [OF reachable_reset.init
          reset_step.intercept [OF interceptor_step.start]] reset_step.reset]
          reset_step.intercept [OF interceptor_step.finish]])
       (simp_all add: http_init_def)
  from spinner_nunca_sin_peticion [OF this] show ?thesis
    by (simp add: http_init_def req_start_def req_finish_def loading_ops_defs loading_init_def)
qed

text \<open>C22. \<open>reset\<close> breaks the correspondence between the spinner and the requests in
  flight: after a reset during request 1, a request 2 starts, and request 1's completion
  hides the spinner while request 2 is still in flight. The specification's guarantee that
  the spinner does not hide before the last request finishes does not hold once
  \<open>reset\<close> has been used.\<close>

theorem reset_oculta_con_peticion_activa:
  "reset_step (req_start 1 http_init) ((req_start 1 http_init)\<lparr>svc := loading_reset (svc (req_start 1 http_init))\<rparr>) \<and>
   inflight (req_finish 1 (req_start 2 ((req_start 1 http_init)\<lparr>svc := loading_reset (svc (req_start 1 http_init))\<rparr>))) = [2] \<and>
   \<not> isLoading (svc (req_finish 1 (req_start 2 ((req_start 1 http_init)\<lparr>svc := loading_reset (svc (req_start 1 http_init))\<rparr>))))"
proof -
  have r: "reset_step (req_start 1 http_init) ((req_start 1 http_init)\<lparr>svc := loading_reset (svc (req_start 1 http_init))\<rparr>)"
    by (rule reset_step.reset)
  show ?thesis using r by (simp add: http_init_def loading_init_def)
qed

end
