(* ===== verification/Shell.thy ===== *)
theory Shell
  imports Loading
begin

text \<open>
  The application shell: the route table \<open>app.routes.ts\<close>, the root component
  \<open>app.component.ts\<close>, the home page \<open>components/home/home.component.ts\<close> and the
  global spinner \<open>components/shared/loading-spinner.component.ts\<close>.

  Navigation follows the Angular router on this table: a URL is a list of path segments;
  the routes are tried in order; a route with \<open>pathMatch: 'full'\<close> matches only the
  whole URL, one with the default \<open>'prefix'\<close> matches a prefix of it, but a component
  route without children must consume every segment; \<open>'**'\<close> matches anything. A
  matching redirect replaces the URL by its absolute target followed by the segments it did
  not consume, and matching starts again. A URL no route matches, and a chain of redirects
  that never reaches a component, are both navigation failures: \<open>navegar\<close> is a
  \<open>partial_function\<close> in the option monad, so that a redirect loop is the value
  \<open>None\<close> rather than an inconsistent equation.
\<close>

datatype pagina = HomeComponent | ClientesComponent | CuentasComponent | MovimientosComponent
  | ReportesComponent

datatype destino = Componente pagina | RedirigirA string

record ruta =
  path :: string
  pathMatch_full :: bool
  destino :: destino

definition routes :: "ruta list" where
  "routes =
     [\<lparr>path = [], pathMatch_full = True, destino = RedirigirA ''/home''\<rparr>,
      \<lparr>path = ''home'', pathMatch_full = False, destino = Componente HomeComponent\<rparr>,
      \<lparr>path = ''clientes'', pathMatch_full = False, destino = Componente ClientesComponent\<rparr>,
      \<lparr>path = ''cuentas'', pathMatch_full = False, destino = Componente CuentasComponent\<rparr>,
      \<lparr>path = ''movimientos'', pathMatch_full = False, destino = Componente MovimientosComponent\<rparr>,
      \<lparr>path = ''reportes'', pathMatch_full = False, destino = Componente ReportesComponent\<rparr>,
      \<lparr>path = ''**'', pathMatch_full = False, destino = RedirigirA ''/home''\<rparr>]"

text \<open>The segments of a URL path: the pieces between slashes, empty ones dropped.\<close>

definition segmentos :: "string \<Rightarrow> string list" where
  "segmentos u = filter (\<lambda>s. s \<noteq> []) (js_split CHR ''/'' u)"

text \<open>The segments a route leaves unconsumed when it matches the URL.\<close>

definition ruta_coincide :: "ruta \<Rightarrow> string list \<Rightarrow> string list option" where
  "ruta_coincide r u =
     (if path r = ''**'' then Some []
      else (let p = segmentos (path r) in
            if pathMatch_full r then (if u = p then Some [] else None)
            else if take (length p) u = p then
              (case destino r of
                 Componente _ \<Rightarrow> if length u = length p then Some [] else None
               | RedirigirA _ \<Rightarrow> Some (drop (length p) u))
            else None))"

fun primera_ruta :: "ruta list \<Rightarrow> string list \<Rightarrow> (destino \<times> string list) option" where
  "primera_ruta [] u = None"
| "primera_ruta (r # rs) u =
     (case ruta_coincide r u of Some resto \<Rightarrow> Some (destino r, resto) | None \<Rightarrow> primera_ruta rs u)"

partial_function (option) navegar :: "ruta list \<Rightarrow> string list \<Rightarrow> pagina option" where
  "navegar rs u =
     (case primera_ruta rs u of
        None \<Rightarrow> None
      | Some (Componente p, _) \<Rightarrow> Some p
      | Some (RedirigirA t, resto) \<Rightarrow> navegar rs (segmentos t @ resto))"

declare navegar.simps [code]

text \<open>The root component's only field, and the cards of the home page.\<close>

definition app_title :: string where
  "app_title = ''Sistema Bancario''"

record feature =
  icon :: string
  title :: string
  description :: string
  link :: string

definition features :: "feature list" where
  "features =
     [\<lparr>icon = ''group'', title = ''Clientes'',
       description = ''Gestiona la informaci'' @ [CHR 0xC3, CHR 0xB3] @ ''n de tus clientes de manera eficiente'',
       link = ''/clientes''\<rparr>,
      \<lparr>icon = ''account_balance'', title = ''Cuentas'',
       description = ''Administra cuentas de ahorro y corrientes'', link = ''/cuentas''\<rparr>,
      \<lparr>icon = ''swap_horiz'', title = ''Movimientos'',
       description = ''Realiza dep'' @ [CHR 0xC3, CHR 0xB3] @ ''sitos y retiros con control de l'' @ [CHR 0xC3, CHR 0xAD] @ ''mites'',
       link = ''/movimientos''\<rparr>,
      \<lparr>icon = ''assessment'', title = ''Reportes'',
       description = ''Genera reportes detallados y exporta a PDF'', link = ''/reportes''\<rparr>]"

text \<open>The spinner's template: the overlay is rendered while \<open>isLoading()\<close> holds.\<close>

definition spinner_visible :: "loading_service \<Rightarrow> bool" where
  "spinner_visible ls = isLoading ls"

subsection \<open>Lemmas\<close>

lemma segmentos_simps [simp]:
  "segmentos [] = []"
  "segmentos (CHR ''/'' # u) = segmentos u"
  by (simp_all add: segmentos_def)

lemma navegar_componente:
  "primera_ruta rs u = Some (Componente p, r) \<Longrightarrow> navegar rs u = Some p"
  by (subst navegar.simps) simp

lemma navegar_redirige:
  "primera_ruta rs u = Some (RedirigirA t, r) \<Longrightarrow> navegar rs u = navegar rs (segmentos t @ r)"
  by (subst navegar.simps) simp

lemma primera_ruta_routes:
  "primera_ruta routes u =
     (if u = [''home''] then Some (Componente HomeComponent, [])
      else if u = [''clientes''] then Some (Componente ClientesComponent, [])
      else if u = [''cuentas''] then Some (Componente CuentasComponent, [])
      else if u = [''movimientos''] then Some (Componente MovimientosComponent, [])
      else if u = [''reportes''] then Some (Componente ReportesComponent, [])
      else Some (RedirigirA ''/home'', []))"
proof (cases u)
  case Nil
  then show ?thesis by (simp add: routes_def ruta_coincide_def segmentos_def)
next
  case (Cons x xs)
  then show ?thesis
    by (cases xs) (auto simp: routes_def ruta_coincide_def segmentos_def Let_def)
qed

lemma segmentos_home [simp]: "segmentos ''home'' = [''home'']"
  by (simp add: segmentos_def)

subsection \<open>Properties\<close>

text \<open>C35. Navigation always ends on a view: for every URL the chain of redirects of the
  route table terminates (\<open>navegar\<close> is defined, not \<open>None\<close>), each of the four
  feature paths opens its view, and every other URL, the empty one and unknown or longer
  paths included, lands on the home page.\<close>

theorem navegar_total:
  "navegar routes u =
     Some (if u = [''clientes''] then ClientesComponent else if u = [''cuentas''] then CuentasComponent
           else if u = [''movimientos''] then MovimientosComponent
           else if u = [''reportes''] then ReportesComponent else HomeComponent)"
  by (cases "u = [''home'']") (simp_all add: navegar_redirige navegar_componente primera_ruta_routes)

text \<open>Every card of the home page links to the view its title names.\<close>

theorem features_enlazan:
  "map (\<lambda>f. (title f, navegar routes (segmentos (link f)))) features =
     [(''Clientes'', Some ClientesComponent), (''Cuentas'', Some CuentasComponent),
      (''Movimientos'', Some MovimientosComponent), (''Reportes'', Some ReportesComponent)]"
  by (simp add: features_def segmentos_def navegar_componente primera_ruta_routes)
end
