(* ===== verification/Session.thy ===== *)
theory Session
  imports ViewModel LoadingInterceptor Shell
begin

text \<open>
  A view in its environment: the view's state, the subscriptions it started that still
  await their response, and the HTTP layer of the loading interceptor (theory
  \<open>LoadingInterceptor\<close>). This is where the parts meet:
  \<^item> a handler of the view runs (\<open>ejecutar\<close>); each \<open>Subscribe c\<close> effect it started
    sends the request of \<open>c\<close> through the interceptors: the loading interceptor calls
    \<open>show()\<close> and the request is in flight under a fresh identifier (\<open>suscribir\<close>);
  \<^item> the response to any subscription in flight arrives, in any order (\<open>responder\<close>):
    a failure passes the error interceptor (\<open>errorInterceptor\<close>) and reaches the view's
    \<open>error\<close> callback as the normalised error, a success reaches its \<open>next\<close>
    callback; the callback runs, and the subscriptions it starts (the reload after a save)
    are sent, before the loading interceptor's \<open>finalize\<close> calls \<open>hide()\<close>, which is
    the order in which RxJS runs a subscriber's callback and the \<open>finalize\<close> of the
    source it subscribed to.
  The callbacks of a view are a parameter (\<open>'v callbacks\<close>: which callback handles the
  outcome of which call); the theory \<open>Dispatch\<close> gives those of the four views.
  \<open>sesion_paso\<close> lets any handler run; \<open>vista_paso\<close> only the handlers of the view's
  own events, and \<open>vista_alcanzable_llamadas\<close> is the interface through which a property
  of the view's calls becomes a property of every subscription in flight. Timers and
  downloads are not part of this model (theory \<open>ViewModel\<close> models the message timers).
\<close>

record 'v sesion =
  vista :: 'v
  en_curso :: "(nat \<times> api_call) list"
  red :: http_sys
  sig_req :: nat

type_synonym 'v callbacks = "api_call \<Rightarrow> normalized_error + api_response \<Rightarrow> 'v \<Rightarrow> 'v out"

definition sesion_init :: "'v \<Rightarrow> 'v sesion" where
  "sesion_init v = \<lparr>vista = v, en_curso = [], red = http_init, sig_req = 0\<rparr>"

definition suscribir :: "api_call \<Rightarrow> 'v sesion \<Rightarrow> 'v sesion" where
  "suscribir c s =
     s\<lparr>en_curso := en_curso s @ [(sig_req s, c)], red := req_start (sig_req s) (red s),
       sig_req := Suc (sig_req s)\<rparr>"

definition lanzar :: "effect list \<Rightarrow> 'v sesion \<Rightarrow> 'v sesion" where
  "lanzar es s = foldl (\<lambda>s c. suscribir c s) s (subscribes es)"

definition ejecutar :: "('v \<Rightarrow> 'v out) \<Rightarrow> 'v sesion \<Rightarrow> 'v sesion" where
  "ejecutar h s = (let (v, es) = h (vista s) in lanzar es (s\<lparr>vista := v\<rparr>))"

text \<open>The response to the \<open>k\<close>-th subscription in flight; \<open>None\<close> when there is no such
  subscription.\<close>

definition responder ::
  "'v callbacks \<Rightarrow> nat \<Rightarrow> http_error_response + api_response \<Rightarrow> 'v sesion \<Rightarrow> 'v sesion option" where
  "responder cb k res s =
     (if k < length (en_curso s) then
        (let (r, c) = en_curso s ! k;
             s1 = s\<lparr>en_curso := take k (en_curso s) @ drop (Suc k) (en_curso s)\<rparr>;
             (v, es) = cb c (errorInterceptor res) (vista s1);
             s2 = lanzar es (s1\<lparr>vista := v\<rparr>)
         in Some (s2\<lparr>red := req_finish r (red s2)\<rparr>))
      else None)"

inductive sesion_paso :: "'v callbacks \<Rightarrow> 'v sesion \<Rightarrow> 'v sesion \<Rightarrow> bool" for cb where
  usuario: "sesion_paso cb s (ejecutar h s)"
| respuesta: "responder cb k res s = Some t \<Longrightarrow> sesion_paso cb s t"

inductive sesion_alcanzable :: "'v callbacks \<Rightarrow> 'v sesion \<Rightarrow> bool" for cb where
  init: "sesion_alcanzable cb (sesion_init v)"
| paso: "sesion_alcanzable cb s \<Longrightarrow> sesion_paso cb s t \<Longrightarrow> sesion_alcanzable cb t"

text \<open>A view driven by its own events: \<open>hs e\<close> is the handler the view's template runs
  for the user event \<open>e\<close> (theory \<open>Dispatch\<close> gives the events of the four views), and
  the executions start from the view's initial state \<open>v0\<close>. Each is an execution of
  \<open>sesion_paso\<close>.\<close>

inductive vista_paso :: "('e \<Rightarrow> 'v \<Rightarrow> 'v out) \<Rightarrow> 'v callbacks \<Rightarrow> 'v sesion \<Rightarrow> 'v sesion \<Rightarrow> bool"
  for hs cb where
  evento: "vista_paso hs cb s (ejecutar (hs e) s)"
| respuesta: "responder cb k res s = Some t \<Longrightarrow> vista_paso hs cb s t"

inductive vista_alcanzable :: "('e \<Rightarrow> 'v \<Rightarrow> 'v out) \<Rightarrow> 'v callbacks \<Rightarrow> 'v \<Rightarrow> 'v sesion \<Rightarrow> bool"
  for hs cb v0 where
  init: "vista_alcanzable hs cb v0 (sesion_init v0)"
| paso: "vista_alcanzable hs cb v0 s \<Longrightarrow> vista_paso hs cb s t \<Longrightarrow> vista_alcanzable hs cb v0 t"

text \<open>The invariant linking the view's subscriptions to the interceptor's requests, while
  the requests of \<open>extra\<close> have been answered to the view but not yet finalised: the
  interceptor's state is one its own interleavings reach, its requests in flight are those
  of the subscriptions and of \<open>extra\<close>, all distinct and below the next fresh identifier.\<close>

definition sesion_inv_con :: "nat list \<Rightarrow> 'v sesion \<Rightarrow> bool" where
  "sesion_inv_con extra s \<longleftrightarrow>
     reachable_http (red s) \<and>
     set (inflight (red s)) = fst ` set (en_curso s) \<union> set extra \<and>
     distinct (map fst (en_curso s) @ extra) \<and>
     (\<forall>r \<in> fst ` set (en_curso s) \<union> set extra. r < sig_req s)"

abbreviation sesion_inv :: "'v sesion \<Rightarrow> bool" where
  "sesion_inv s \<equiv> sesion_inv_con [] s"

text \<open>An error response to the \<open>k\<close>-th subscription of \<open>s\<close>, giving \<open>t\<close>, is final:
  that subscription leaves and none takes its place, \<open>finalize\<close> hides once on the error
  path, and the spinner stays on exactly while another subscription awaits its response.\<close>

definition error_final :: "'v sesion \<Rightarrow> nat \<Rightarrow> 'v sesion \<Rightarrow> bool" where
  "error_final s k t \<longleftrightarrow>
     map snd (en_curso t) = map snd (take k (en_curso s) @ drop (Suc k) (en_curso s)) \<and>
     loadingCount (svc (red t)) = loadingCount (svc (red s)) - 1 \<and>
     (spinner_visible (svc (red t)) \<longleftrightarrow> 1 < length (en_curso s))"

subsection \<open>Lemmas\<close>

lemma sesion_inv_init: "sesion_inv (sesion_init v)"
proof -
  have "reachable_http http_init" by (rule reachable_http.init)
  then show ?thesis by (simp add: sesion_inv_con_def sesion_init_def) (simp add: http_init_def)
qed

lemma suscribir_inv: "sesion_inv_con extra s \<Longrightarrow> sesion_inv_con extra (suscribir c s)"
proof -
  assume inv: "sesion_inv_con extra s"
  let ?r = "sig_req s"
  have lt: "\<forall>r \<in> fst ` set (en_curso s) \<union> set extra. r < ?r"
    using inv by (simp add: sesion_inv_con_def)
  then have fresh: "?r \<notin> fst ` set (en_curso s) \<union> set extra" by blast
  with inv have "reachable_http (req_start ?r (red s))"
    by (simp add: sesion_inv_con_def reachable_http_start)
  moreover have "set (inflight (req_start ?r (red s))) = fst ` set (en_curso (suscribir c s)) \<union> set extra"
    using inv by (auto simp: sesion_inv_con_def suscribir_def)
  moreover have "distinct (map fst (en_curso (suscribir c s)) @ extra)"
    using inv fresh by (auto simp: sesion_inv_con_def suscribir_def)
  moreover have "\<forall>r \<in> fst ` set (en_curso (suscribir c s)) \<union> set extra. r < sig_req (suscribir c s)"
    using lt by (auto simp: suscribir_def intro: less_SucI dest: bspec [OF _ rev_image_eqI])
  ultimately show ?thesis by (simp add: sesion_inv_con_def suscribir_def)
qed

lemma lanzar_inv: "sesion_inv_con extra s \<Longrightarrow> sesion_inv_con extra (lanzar es s)"
proof -
  have "sesion_inv_con extra s \<Longrightarrow> sesion_inv_con extra (foldl (\<lambda>s c. suscribir c s) s cs)" for cs
    by (induction cs arbitrary: s) (simp_all add: suscribir_inv)
  then show "sesion_inv_con extra s \<Longrightarrow> sesion_inv_con extra (lanzar es s)"
    by (simp add: lanzar_def)
qed

lemma sesion_inv_vista [simp]: "sesion_inv_con extra (s\<lparr>vista := v\<rparr>) = sesion_inv_con extra s"
  by (simp add: sesion_inv_con_def)

lemma ejecutar_inv: "sesion_inv s \<Longrightarrow> sesion_inv (ejecutar h s)"
  by (simp add: ejecutar_def lanzar_inv split: prod.splits)

lemma finalizar_inv:
  assumes "sesion_inv_con [r] s"
  shows "sesion_inv (s\<lparr>red := req_finish r (red s)\<rparr>)"
proof -
  have rh: "reachable_http (red s)" and r: "r \<in> set (inflight (red s))"
    using assms by (auto simp: sesion_inv_con_def)
  then have "distinct (inflight (red s))"
    using reachable_http_inv by (simp add: http_inv_def)
  then have "set (inflight (req_finish r (red s))) = set (inflight (red s)) - {r}"
    by simp
  moreover have "r \<notin> fst ` set (en_curso s)"
    using assms by (auto simp: sesion_inv_con_def)
  ultimately have "set (inflight (req_finish r (red s))) = fst ` set (en_curso s)"
    using assms by (auto simp: sesion_inv_con_def)
  moreover have "reachable_http (req_finish r (red s))"
    using rh r by (rule reachable_http_finish)
  ultimately show ?thesis
    using assms by (simp add: sesion_inv_con_def)
qed

lemma quitar_inv:
  assumes "sesion_inv s" and "k < length (en_curso s)" and "en_curso s ! k = (r, c)"
  shows "sesion_inv_con [r] (s\<lparr>en_curso := take k (en_curso s) @ drop (Suc k) (en_curso s)\<rparr>)"
proof -
  let ?xs = "en_curso s"
  have xs: "?xs = take k ?xs @ (r, c) # drop (Suc k) ?xs"
    using assms(2,3) id_take_nth_drop by fastforce
  have m: "map fst ?xs = map fst (take k ?xs) @ r # map fst (drop (Suc k) ?xs)"
    by (subst xs) simp
  then have A: "insert r (fst ` set (take k ?xs) \<union> fst ` set (drop (Suc k) ?xs)) = fst ` set ?xs"
    by (metis Un_insert_right list.simps(15) list.set_map set_append)
  have "distinct (map fst ?xs)"
    using assms(1) by (simp add: sesion_inv_con_def)
  with m have B: "distinct (map fst (take k ?xs) @ map fst (drop (Suc k) ?xs) @ [r])"
    by (auto simp: distinct_append)
  have inv: "reachable_http (red s)" "set (inflight (red s)) = fst ` set ?xs"
    "\<forall>x \<in> fst ` set ?xs. x < sig_req s"
    using assms(1) by (auto simp: sesion_inv_con_def)
  let ?ys = "take k ?xs @ drop (Suc k) ?xs"
  have S: "fst ` set ?ys \<union> set [r] = fst ` set ?xs"
    using A by auto
  show ?thesis
    unfolding sesion_inv_con_def
  proof (intro conjI)
    show "reachable_http (red (s\<lparr>en_curso := ?ys\<rparr>))" using inv by simp
    show "set (inflight (red (s\<lparr>en_curso := ?ys\<rparr>))) = fst ` set (en_curso (s\<lparr>en_curso := ?ys\<rparr>)) \<union> set [r]"
      using inv S by simp
    show "distinct (map fst (en_curso (s\<lparr>en_curso := ?ys\<rparr>)) @ [r])"
      using B by simp
    show "\<forall>x \<in> fst ` set (en_curso (s\<lparr>en_curso := ?ys\<rparr>)) \<union> set [r]. x < sig_req (s\<lparr>en_curso := ?ys\<rparr>)"
      using inv(3) S by (metis ext_inject sesion.select_convs(4) sesion.surjective sesion.update_convs(2))
  qed
qed

lemma responder_inv: "sesion_inv s \<Longrightarrow> responder cb k res s = Some t \<Longrightarrow> sesion_inv t"
  by (auto simp: responder_def Let_def intro!: finalizar_inv lanzar_inv quitar_inv split: prod.splits if_splits)

lemma sesion_paso_inv: "sesion_paso cb s t \<Longrightarrow> sesion_inv s \<Longrightarrow> sesion_inv t"
  by (induction rule: sesion_paso.induct) (auto intro: ejecutar_inv responder_inv)

lemma sesion_alcanzable_inv: "sesion_alcanzable cb s \<Longrightarrow> sesion_inv s"
  by (induction rule: sesion_alcanzable.induct) (auto intro: sesion_inv_init sesion_paso_inv)

lemma length_en_curso:
  assumes "sesion_inv s"
  shows "length (inflight (red s)) = length (en_curso s)"
proof -
  have "distinct (inflight (red s))"
    using assms reachable_http_inv by (simp add: sesion_inv_con_def http_inv_def)
  then have "length (inflight (red s)) = card (fst ` set (en_curso s))"
    using assms by (simp add: sesion_inv_con_def flip: distinct_card)
  also have "\<dots> = length (en_curso s)"
    using assms distinct_card [of "map fst (en_curso s)"] by (simp add: sesion_inv_con_def)
  finally show ?thesis .
qed

inductive_cases vista_pasoE: "vista_paso hs cb s t"

lemma vista_alcanzable_sesion: "vista_alcanzable hs cb v0 s \<Longrightarrow> sesion_alcanzable cb s"
proof (induction rule: vista_alcanzable.induct)
  case init
  show ?case by (rule sesion_alcanzable.init)
next
  case (paso s t)
  from paso.hyps(2) have "sesion_paso cb s t"
    by (auto elim: vista_pasoE intro: sesion_paso.intros)
  with paso.IH show ?case by (rule sesion_alcanzable.paso)
qed

lemma en_curso_lanzar [simp]:
  "map snd (en_curso (lanzar es s)) = map snd (en_curso s) @ subscribes es"
proof -
  have "map snd (en_curso (foldl (\<lambda>s c. suscribir c s) s cs)) = map snd (en_curso s) @ cs" for cs
    by (induction cs arbitrary: s) (simp_all add: suscribir_def)
  then show ?thesis by (simp add: lanzar_def)
qed

lemma en_curso_ejecutar:
  "map snd (en_curso (ejecutar h s)) = map snd (en_curso s) @ subscribes (snd (h (vista s)))"
  by (simp add: ejecutar_def split: prod.splits)

lemma en_curso_responder:
  assumes "responder cb k res s = Some t"
  shows "k < length (en_curso s) \<and>
         map snd (en_curso t) = map snd (take k (en_curso s) @ drop (Suc k) (en_curso s)) @
           subscribes (snd (cb (snd (en_curso s ! k)) (errorInterceptor res) (vista s)))"
  using assms by (auto simp: responder_def Let_def split: prod.splits if_splits)

text \<open>A view whose error callbacks subscribe to nothing never retries: an error response
  leaves in flight exactly the other subscriptions.\<close>

lemma responder_error_final:
  assumes "\<And>c e v. subscribes (snd (cb c (Inl e) v)) = []"
    and "responder cb k (Inl h) s = Some t"
  shows "map snd (en_curso t) = map snd (take k (en_curso s) @ drop (Suc k) (en_curso s))"
  using en_curso_responder [OF assms(2)] assms(1) by (simp add: errorInterceptor_def)

text \<open>The interface between the session and a view: a property of calls that every
  handler's subscriptions have, and that the callbacks of a call with the property pass on,
  holds of every subscription in flight.\<close>

lemma vista_alcanzable_llamadas:
  assumes hs: "\<And>e v. list_all P (subscribes (snd (hs e v)))"
    and cb: "\<And>c r v. P c \<Longrightarrow> list_all P (subscribes (snd (cb c r v)))"
    and "vista_alcanzable hs cb v0 s"
  shows "list_all P (map snd (en_curso s))"
  using assms(3)
proof (induction rule: vista_alcanzable.induct)
  case init
  show ?case by (simp add: sesion_init_def)
next
  case (paso s t)
  from paso.hyps(2) show ?case
  proof (cases rule: vista_paso.cases)
    case (evento e)
    then show ?thesis using paso.IH hs by (simp add: en_curso_ejecutar)
  next
    case (respuesta k res)
    then have k: "k < length (en_curso s)" and t: "map snd (en_curso t) =
        map snd (take k (en_curso s) @ drop (Suc k) (en_curso s)) @
        subscribes (snd (cb (snd (en_curso s ! k)) (errorInterceptor res) (vista s)))"
      using en_curso_responder by blast+
    have "P (snd (en_curso s ! k))"
      using paso.IH k by (simp add: list_all_length)
    then have "list_all P (subscribes (snd (cb (snd (en_curso s ! k)) (errorInterceptor res) (vista s))))"
      by (rule cb)
    moreover have "list_all P (map snd (take k (en_curso s) @ drop (Suc k) (en_curso s)))"
      using paso.IH by (auto simp: list_all_iff dest: in_set_takeD in_set_dropD)
    ultimately show ?thesis using t by simp
  qed
qed

lemma sesion_alcanzable_spinner:
  assumes "sesion_alcanzable cb s"
  shows "(spinner_visible (svc (red s)) \<longleftrightarrow> en_curso s \<noteq> []) \<and>
         loadingCount (svc (red s)) = int (length (en_curso s))"
proof -
  have inv: "sesion_inv s" using assms by (rule sesion_alcanzable_inv)
  then have "http_inv (red s)"
    using reachable_http_inv by (simp add: sesion_inv_con_def)
  with length_en_curso [OF inv] show ?thesis
    by (auto simp: http_inv_def spinner_visible_def)
qed

lemma responder_recarga:
  assumes "sesion_alcanzable cb s" and "k < length (en_curso s)"
    and "L \<in> set (subscribes (snd (cb (snd (en_curso s ! k)) (errorInterceptor res) (vista s))))"
  shows "\<exists>t. responder cb k res s = Some t \<and> L \<in> snd ` set (en_curso t) \<and> spinner_visible (svc (red t))"
proof -
  have "responder cb k res s \<noteq> None"
    using assms(2) by (simp add: responder_def Let_def split: prod.split)
  then obtain t where t: "responder cb k res s = Some t" by blast
  then have "L \<in> set (map snd (en_curso t))"
    using en_curso_responder [OF t] assms(3) by simp
  then have L: "L \<in> snd ` set (en_curso t)" by simp
  have "sesion_alcanzable cb t"
    using assms(1) t by (blast intro: sesion_alcanzable.paso sesion_paso.respuesta)
  then have "spinner_visible (svc (red t))"
    using L sesion_alcanzable_spinner by fastforce
  with t L show ?thesis by blast
qed

lemma responder_error_sesion:
  assumes "\<And>c e v. subscribes (snd (cb c (Inl e) v)) = []"
    and "sesion_alcanzable cb s" and "responder cb k (Inl h) s = Some t"
  shows "error_final s k t"
proof -
  have m: "map snd (en_curso t) = map snd (take k (en_curso s) @ drop (Suc k) (en_curso s))"
    using assms(1,3) by (rule responder_error_final)
  have k: "k < length (en_curso s)"
    using en_curso_responder [OF assms(3)] by blast
  have len: "length (en_curso t) = length (en_curso s) - 1"
    using arg_cong [OF m, of length] k by simp
  then have ne: "en_curso t \<noteq> [] \<longleftrightarrow> 1 < length (en_curso s)"
    by (metis length_greater_0_conv zero_less_diff)
  have "sesion_alcanzable cb t"
    using assms(2,3) by (blast intro: sesion_alcanzable.paso sesion_paso.respuesta)
  then show ?thesis
    using m k len ne sesion_alcanzable_spinner [OF assms(2)] sesion_alcanzable_spinner [of cb t]
    by (auto simp: error_final_def of_nat_diff)
qed

lemma responder_ejecutar_inicio:
  assumes "subscribes (snd (h v)) = [c]"
  shows "\<exists>t. responder cb 0 res (ejecutar h (sesion_init v)) = Some t"
proof -
  have "map snd (en_curso (ejecutar h (sesion_init v))) = [c]"
    using assms by (simp add: en_curso_ejecutar sesion_init_def)
  then have "0 < length (en_curso (ejecutar h (sesion_init v)))"
    by (metis length_map length_greater_0_conv list.distinct(1))
  then have "responder cb 0 res (ejecutar h (sesion_init v)) \<noteq> None"
    by (simp add: responder_def Let_def split: prod.split)
  then show ?thesis by blast
qed

subsection \<open>Properties\<close>

text \<open>C38. The spinner tells the truth about the views: whatever handlers run and in
  whatever order the responses arrive, successes and failures alike, the global spinner is
  visible exactly while some subscription of the view awaits its response, and the loading
  counter is their number. A save's reload is subscribed inside its callback, before the
  \<open>finalize\<close> of the save, so the spinner does not flicker off between the two.\<close>

theorem spinner_sii_suscripciones:
  assumes "sesion_alcanzable cb s"
  shows "(spinner_visible (svc (red s)) \<longleftrightarrow> en_curso s \<noteq> []) \<and>
         loadingCount (svc (red s)) = int (length (en_curso s))"
  using assms by (rule sesion_alcanzable_spinner)

end
