(* ===== verification/Movimientos.thy ===== *)
theory Movimientos
  imports ViewModel
begin

text \<open>
  The movements view \<open>components/movimientos/movimientos.component.ts\<close>
  (class \<open>MovimientosComponent\<close>): the list of movements, the active accounts offered in
  the form, the search box and the form \<open>nuevoMovimiento\<close>. The record
  \<open>movimientos_vm\<close> is the class's fields; each method is one definition below, in the
  order of the source, with the \<open>next\<close>/\<open>error\<close> callbacks of its subscription as
  \<open>_next\<close>/\<open>_error\<close> handlers.

  The sign rule of the form (\<open>onTipoMovimientoChange\<close>) and the submit guard
  (\<open>realizarMovimiento\<close>) are the logic the specification singles out; their abstract
  contract is \<open>signo_esperado\<close>: withdrawals and debits are negative, deposits and
  credits positive. The form's input events (\<open>seleccionarTipo\<close>, \<open>ingresarValor\<close>)
  are the two-way bindings of the template, which is not among the sources: the model
  follows the specification, which says the sign rule runs whenever the type changes.
\<close>

record movimientos_vm = vm_msg +
  movimientos :: "movimiento list"
  cuentas :: "cuenta list"
  busqueda :: string
  nuevoMovimiento :: movimiento

definition movimiento_vacio :: movimiento where
  "movimiento_vacio =
     \<lparr>mov_id = None, fecha = None, tipoMovimiento = [], valor = 0, saldo = None,
      mov_numeroCuenta = []\<rparr>"

definition movimientos_init :: movimientos_vm where
  "movimientos_init =
     \<lparr>mensaje = [], mensajeTipo = MsgSuccess, movimientos = [], cuentas = [], busqueda = [],
      nuevoMovimiento = movimiento_vacio\<rparr>"

subsection \<open>Loading\<close>

definition cargarMovimientos :: "movimientos_vm \<Rightarrow> movimientos_vm out" where
  "cargarMovimientos s = (s, [Subscribe GetMovimientos])"

definition cargarMovimientos_next :: "movimiento list \<Rightarrow> movimientos_vm \<Rightarrow> movimientos_vm out" where
  "cargarMovimientos_next data s = (s\<lparr>movimientos := data\<rparr>, [])"

definition cargarMovimientos_error :: "normalized_error \<Rightarrow> movimientos_vm \<Rightarrow> movimientos_vm out" where
  "cargarMovimientos_error e s = mostrarMensaje ''Error al cargar movimientos'' MsgError s"

definition cargarCuentas_movimientos :: "movimientos_vm \<Rightarrow> movimientos_vm out" where
  "cargarCuentas_movimientos s = (s, [Subscribe GetCuentas])"

definition cargarCuentas_movimientos_next :: "cuenta list \<Rightarrow> movimientos_vm \<Rightarrow> movimientos_vm out" where
  "cargarCuentas_movimientos_next data s = (s\<lparr>cuentas := filter cuenta_estado data\<rparr>, [])"

definition cargarCuentas_movimientos_error :: "normalized_error \<Rightarrow> movimientos_vm \<Rightarrow> movimientos_vm out" where
  "cargarCuentas_movimientos_error e s = mostrarMensaje ''Error al cargar cuentas'' MsgError s"

definition ngOnInit_movimientos :: "movimientos_vm \<Rightarrow> movimientos_vm out" where
  "ngOnInit_movimientos s = andThen (cargarMovimientos s) cargarCuentas_movimientos"

subsection \<open>Search\<close>

definition movimientosFiltrados :: "movimientos_vm \<Rightarrow> movimiento list" where
  "movimientosFiltrados s =
     (if busqueda s = [] then movimientos s
      else (let termino = js_toLowerCase (busqueda s)
            in filter (\<lambda>m. js_includes (mov_numeroCuenta m) termino \<or>
                           js_includes (js_toLowerCase (tipoMovimiento m)) termino)
                 (movimientos s)))"

subsection \<open>Submitting a movement\<close>

definition limpiarFormulario :: "movimientos_vm \<Rightarrow> movimientos_vm" where
  "limpiarFormulario s = s\<lparr>nuevoMovimiento := movimiento_vacio\<rparr>"

definition realizarMovimiento :: "movimientos_vm \<Rightarrow> movimientos_vm out" where
  "realizarMovimiento s =
     (let m = nuevoMovimiento s in
      if \<not> js_truthy_str (mov_numeroCuenta m) \<or> \<not> js_truthy_str (tipoMovimiento m)
      then mostrarMensaje ''Complete todos los campos'' MsgError s
      else if valor m = 0
      then mostrarMensaje ''El valor no puede ser cero'' MsgError s
      else (s, [Subscribe (CreateMovimiento (movimiento_json m))]))"

definition realizarMovimiento_next :: "movimientos_vm \<Rightarrow> movimientos_vm out" where
  "realizarMovimiento_next s =
     andThen (andThen (mostrarMensaje ''Movimiento realizado exitosamente'' MsgSuccess s)
                      cargarMovimientos)
             (pure_step limpiarFormulario)"

definition realizarMovimiento_error :: "normalized_error \<Rightarrow> movimientos_vm \<Rightarrow> movimientos_vm out" where
  "realizarMovimiento_error e s = mostrarError ''Error: '' e s"

subsection \<open>The sign rule\<close>

definition onTipoMovimientoChange :: "movimientos_vm \<Rightarrow> movimientos_vm" where
  "onTipoMovimientoChange s =
     (let m = nuevoMovimiento s in
      if tipoMovimiento m = ''Retiro'' \<or> tipoMovimiento m = ''Debito''
      then s\<lparr>nuevoMovimiento := m\<lparr>valor := \<bar>valor m\<bar> * -1\<rparr>\<rparr>
      else if tipoMovimiento m = ''Deposito'' \<or> tipoMovimiento m = ''Credito''
      then s\<lparr>nuevoMovimiento := m\<lparr>valor := \<bar>valor m\<bar>\<rparr>\<rparr>
      else s)"

subsection \<open>Deleting a movement\<close>

definition eliminarMovimiento :: "int \<Rightarrow> bool \<Rightarrow> movimientos_vm \<Rightarrow> movimientos_vm out" where
  "eliminarMovimiento i confirmado s =
     (if confirmado then (s, [Subscribe (DeleteMovimiento i)]) else (s, []))"

definition eliminarMovimiento_next :: "movimientos_vm \<Rightarrow> movimientos_vm out" where
  "eliminarMovimiento_next s =
     andThen (mostrarMensaje ''Movimiento eliminado'' MsgSuccess s) cargarMovimientos"

definition eliminarMovimiento_error :: "normalized_error \<Rightarrow> movimientos_vm \<Rightarrow> movimientos_vm out" where
  "eliminarMovimiento_error e s = mostrarError ''Error: '' e s"

subsection \<open>Form input (template bindings)\<close>

definition seleccionarTipo :: "string \<Rightarrow> movimientos_vm \<Rightarrow> movimientos_vm" where
  "seleccionarTipo t s =
     onTipoMovimientoChange (s\<lparr>nuevoMovimiento := (nuevoMovimiento s)\<lparr>tipoMovimiento := t\<rparr>\<rparr>)"

definition ingresarValor :: "js_number \<Rightarrow> movimientos_vm \<Rightarrow> movimientos_vm" where
  "ingresarValor v s = s\<lparr>nuevoMovimiento := (nuevoMovimiento s)\<lparr>valor := v\<rparr>\<rparr>"

definition ingresarCuenta :: "string \<Rightarrow> movimientos_vm \<Rightarrow> movimientos_vm" where
  "ingresarCuenta a s = s\<lparr>nuevoMovimiento := (nuevoMovimiento s)\<lparr>mov_numeroCuenta := a\<rparr>\<rparr>"

subsection \<open>Abstract contract of the sign rule\<close>

text \<open>The sign a movement of a given type must carry (specification, section 4.1).\<close>

definition signo_esperado :: "string \<Rightarrow> int option" where
  "signo_esperado t =
     (if t = ''Retiro'' \<or> t = ''Debito'' then Some (-1)
      else if t = ''Deposito'' \<or> t = ''Credito'' then Some 1 else None)"

definition signo_correcto :: "movimiento \<Rightarrow> bool" where
  "signo_correcto m =
     (case signo_esperado (tipoMovimiento m) of None \<Rightarrow> True | Some \<sigma> \<Rightarrow> sgn (valor m) = \<sigma>)"

declare cargarMovimientos_def [vm_defs] cargarMovimientos_next_def [vm_defs]
  cargarCuentas_movimientos_def [vm_defs] cargarCuentas_movimientos_next_def [vm_defs] limpiarFormulario_def [vm_defs]
  realizarMovimiento_next_def [vm_defs] eliminarMovimiento_def [vm_defs]
  eliminarMovimiento_next_def [vm_defs] ingresarValor_def [vm_defs] ingresarCuenta_def [vm_defs]

subsection \<open>Lemmas\<close>

lemma signo_esperado_TIPOS:
  "t \<in> set TIPOS_MOVIMIENTO \<longleftrightarrow> signo_esperado t \<noteq> None"
  by (auto simp: TIPOS_MOVIMIENTO_def signo_esperado_def)

text \<open>The value after the sign rule, by the abstract sign.\<close>

lemma onTipoMovimientoChange_valor:
  "valor (nuevoMovimiento (onTipoMovimientoChange s)) =
     (case signo_esperado (tipoMovimiento (nuevoMovimiento s)) of
        None \<Rightarrow> valor (nuevoMovimiento s)
      | Some \<sigma> \<Rightarrow> \<sigma> * \<bar>valor (nuevoMovimiento s)\<bar>)"
  by (simp add: onTipoMovimientoChange_def signo_esperado_def Let_def)

lemma onTipoMovimientoChange_frame:
  "tipoMovimiento (nuevoMovimiento (onTipoMovimientoChange s)) = tipoMovimiento (nuevoMovimiento s)"
  "mov_numeroCuenta (nuevoMovimiento (onTipoMovimientoChange s)) = mov_numeroCuenta (nuevoMovimiento s)"
  "movimientos (onTipoMovimientoChange s) = movimientos s"
  by (simp_all add: onTipoMovimientoChange_def Let_def)

lemma sgn_signed_abs:
  "\<sigma> \<in> {-1, 1} \<Longrightarrow> v \<noteq> 0 \<Longrightarrow> sgn (\<sigma> * \<bar>v::int\<bar>) = \<sigma> \<and> \<bar>\<sigma> * \<bar>v\<bar>\<bar> = \<bar>v\<bar>"
  by (auto simp: sgn_mult abs_mult)

lemma signo_esperado_range: "signo_esperado t = Some \<sigma> \<Longrightarrow> \<sigma> \<in> {-1, 1}"
  by (auto simp: signo_esperado_def split: if_splits)

lemma realizarMovimiento_cases:
  "realizarMovimiento s =
     (if mov_numeroCuenta (nuevoMovimiento s) = [] \<or> tipoMovimiento (nuevoMovimiento s) = []
      then mostrarMensaje ''Complete todos los campos'' MsgError s
      else if valor (nuevoMovimiento s) = 0
      then mostrarMensaje ''El valor no puede ser cero'' MsgError s
      else (s, [Subscribe (CreateMovimiento (movimiento_json (nuevoMovimiento s)))]))"
  by (simp add: realizarMovimiento_def Let_def)

subsection \<open>Properties\<close>

text \<open>C1. The sign rule: when the selected type is a withdrawal or a debit (a deposit or a
  credit), \<open>onTipoMovimientoChange\<close> turns any non-zero value into a strictly negative
  (strictly positive) value of the same magnitude.\<close>

theorem onTipoMovimientoChange_sign:
  assumes "signo_esperado (tipoMovimiento (nuevoMovimiento s)) = Some \<sigma>"
    and "valor (nuevoMovimiento s) \<noteq> 0"
  shows "sgn (valor (nuevoMovimiento (onTipoMovimientoChange s))) = \<sigma> \<and>
         \<bar>valor (nuevoMovimiento (onTipoMovimientoChange s))\<bar> = \<bar>valor (nuevoMovimiento s)\<bar>"
proof -
  have "\<sigma> \<in> {-1, 1}" using assms(1) by (rule signo_esperado_range)
  then show ?thesis
    using assms sgn_signed_abs by (simp add: onTipoMovimientoChange_valor)
qed

theorem onTipoMovimientoChange_sign_witness:
  "signo_esperado ''Retiro'' = Some (-1) \<and>
   sgn (valor (nuevoMovimiento (onTipoMovimientoChange
     (movimientos_init\<lparr>nuevoMovimiento := movimiento_vacio\<lparr>tipoMovimiento := ''Retiro'', valor := 250\<rparr>\<rparr>)))) = -1"
  using onTipoMovimientoChange_sign
    [of "movimientos_init\<lparr>nuevoMovimiento := movimiento_vacio\<lparr>tipoMovimiento := ''Retiro'', valor := 250\<rparr>\<rparr>" "-1"]
  by (simp add: signo_esperado_def)

text \<open>C2. A movement whose value is zero is never sent: \<open>realizarMovimiento\<close> starts no
  request, whatever the type and the account, and shows an error message.\<close>

theorem realizarMovimiento_rejects_zero:
  assumes "valor (nuevoMovimiento s) = 0"
  shows "subscribes (snd (realizarMovimiento s)) = [] \<and>
         mensajeTipo (fst (realizarMovimiento s)) = MsgError"
  using assms by (simp add: realizarMovimiento_cases)

theorem realizarMovimiento_rejects_zero_witness:
  "valor (nuevoMovimiento (ingresarCuenta ''478758'' (seleccionarTipo ''Deposito'' movimientos_init))) = 0 \<and>
   subscribes (snd (realizarMovimiento (ingresarCuenta ''478758'' (seleccionarTipo ''Deposito'' movimientos_init)))) = []"
  using realizarMovimiento_rejects_zero
    [of "ingresarCuenta ''478758'' (seleccionarTipo ''Deposito'' movimientos_init)"]
  by (simp add: ingresarCuenta_def seleccionarTipo_def onTipoMovimientoChange_def
      movimientos_init_def movimiento_vacio_def)

text \<open>C3. A complete form with a non-zero value is posted as it is: \<open>realizarMovimiento\<close>
  leaves the view unchanged and starts exactly one request, the creation of the movement
  in the form.\<close>

theorem realizarMovimiento_sends:
  assumes "mov_numeroCuenta (nuevoMovimiento s) \<noteq> []" and "tipoMovimiento (nuevoMovimiento s) \<noteq> []"
    and "valor (nuevoMovimiento s) \<noteq> 0"
  shows "realizarMovimiento s = (s, [Subscribe (CreateMovimiento (movimiento_json (nuevoMovimiento s)))])"
  using assms by (simp add: realizarMovimiento_cases)

theorem realizarMovimiento_sends_witness:
  "realizarMovimiento (movimientos_init\<lparr>nuevoMovimiento := movimiento_vacio\<lparr>tipoMovimiento := ''Credito'',
      valor := 40, mov_numeroCuenta := ''225487''\<rparr>\<rparr>)
   = (movimientos_init\<lparr>nuevoMovimiento := movimiento_vacio\<lparr>tipoMovimiento := ''Credito'',
      valor := 40, mov_numeroCuenta := ''225487''\<rparr>\<rparr>,
      [Subscribe (CreateMovimiento (movimiento_json (movimiento_vacio\<lparr>tipoMovimiento := ''Credito'',
      valor := 40, mov_numeroCuenta := ''225487''\<rparr>)))])"
  using realizarMovimiento_sends [of "movimientos_init\<lparr>nuevoMovimiento := movimiento_vacio\<lparr>tipoMovimiento := ''Credito'',
      valor := 40, mov_numeroCuenta := ''225487''\<rparr>\<rparr>"]
  by simp

text \<open>C14. Filling the form in the order account, value, type and submitting it posts a
  movement whose value has the sign its type demands, with the magnitude entered.\<close>

theorem formulario_signo_correcto:
  assumes "a \<noteq> []" and "t \<in> set TIPOS_MOVIMIENTO" and "v \<noteq> 0"
  shows "subscribes (snd (realizarMovimiento (seleccionarTipo t (ingresarValor v (ingresarCuenta a s))))) =
           [CreateMovimiento (movimiento_json (nuevoMovimiento (seleccionarTipo t (ingresarValor v (ingresarCuenta a s)))))] \<and>
         signo_correcto (nuevoMovimiento (seleccionarTipo t (ingresarValor v (ingresarCuenta a s)))) \<and>
         \<bar>valor (nuevoMovimiento (seleccionarTipo t (ingresarValor v (ingresarCuenta a s))))\<bar> = \<bar>v\<bar>"
proof -
  let ?s = "(ingresarValor v (ingresarCuenta a s))\<lparr>nuevoMovimiento := (nuevoMovimiento (ingresarValor v (ingresarCuenta a s)))\<lparr>tipoMovimiento := t\<rparr>\<rparr>"
  obtain \<sigma> where \<sigma>: "signo_esperado t = Some \<sigma>"
    using assms(2) signo_esperado_TIPOS by blast
  then have r: "\<sigma> \<in> {-1, 1}" by (rule signo_esperado_range)
  have t_ne: "t \<noteq> []" using assms(2) by (auto simp: TIPOS_MOVIMIENTO_def)
  have val: "valor (nuevoMovimiento (seleccionarTipo t (ingresarValor v (ingresarCuenta a s)))) = \<sigma> * \<bar>v\<bar>"
    using \<sigma> by (simp add: seleccionarTipo_def onTipoMovimientoChange_valor vm_defs)
  have nz: "\<sigma> * \<bar>v\<bar> \<noteq> 0" using r assms(3) by auto
  have frame: "tipoMovimiento (nuevoMovimiento (seleccionarTipo t (ingresarValor v (ingresarCuenta a s)))) = t"
    "mov_numeroCuenta (nuevoMovimiento (seleccionarTipo t (ingresarValor v (ingresarCuenta a s)))) = a"
    by (simp_all add: seleccionarTipo_def onTipoMovimientoChange_frame vm_defs)
  show ?thesis
    using val nz frame assms(1) t_ne \<sigma> r sgn_signed_abs [OF r assms(3)]
    by (simp add: realizarMovimiento_cases signo_correcto_def)
qed

theorem formulario_signo_correcto_witness:
  "subscribes (snd (realizarMovimiento (seleccionarTipo ''Retiro'' (ingresarValor 100 (ingresarCuenta ''478758'' movimientos_init))))) =
     [CreateMovimiento (movimiento_json (nuevoMovimiento (seleccionarTipo ''Retiro'' (ingresarValor 100 (ingresarCuenta ''478758'' movimientos_init)))))] \<and>
   signo_correcto (nuevoMovimiento (seleccionarTipo ''Retiro'' (ingresarValor 100 (ingresarCuenta ''478758'' movimientos_init))))"
  using formulario_signo_correcto [of "''478758''" "''Retiro''" 100 movimientos_init]
  by (simp add: TIPOS_MOVIMIENTO_def)

text \<open>After the backend accepts a movement, the view shows a success message, reloads
  the whole list of movements (no local merge) and clears the form.\<close>

theorem realizarMovimiento_next_recarga:
  "realizarMovimiento_next s =
     (s\<lparr>mensaje := ''Movimiento realizado exitosamente'', mensajeTipo := MsgSuccess,
        nuevoMovimiento := movimiento_vacio\<rparr>,
      [ClearMensajeAfter DURACION_MENSAJE, Subscribe GetMovimientos])"
  by (simp add: vm_defs)

text \<open>C19. The sign rule runs only when the type changes. A user who selects the type
  first and then types the amount posts a withdrawal with a positive value: the state the
  form submits violates the sign contract, contrary to the specification's statement that
  the value always carries the forced sign before submission.\<close>

theorem retiro_positivo_enviado:
  "subscribes (snd (realizarMovimiento (ingresarValor 100 (seleccionarTipo ''Retiro'' (ingresarCuenta ''478758'' movimientos_init))))) =
     [CreateMovimiento [(''tipoMovimiento'', JStr ''Retiro''), (''valor'', JNum 100),
                        (''numeroCuenta'', JStr ''478758'')]] \<and>
   \<not> signo_correcto (nuevoMovimiento (ingresarValor 100 (seleccionarTipo ''Retiro'' (ingresarCuenta ''478758'' movimientos_init))))"
  by (simp add: realizarMovimiento_cases seleccionarTipo_def onTipoMovimientoChange_def vm_defs
      movimientos_init_def movimiento_vacio_def movimiento_json_def opt_field_def
      signo_correcto_def signo_esperado_def)

end
