(* ===== verification/Reportes.thy ===== *)
theory Reportes
  imports ViewModel
begin

text \<open>
  The report view \<open>components/reportes/reportes.component.ts\<close> (class
  \<open>ReportesComponent\<close>): the active customers, the selected customer, the two dates of
  the range, the fetched rows \<open>reporteData\<close>, and the totals and exports computed from
  them.

  Dates. The two date inputs hold \<open>'YYYY-MM-DD'\<close> strings or \<open>''\<close>; the model holds
  the day number of the date, \<open>None\<close> for the empty string. The view compares dates
  through JavaScript \<open>Date\<close> objects, and the browser reads the two forms of string
  differently: \<open>new Date('YYYY-MM-DD')\<close> is midnight UTC of that day
  (\<open>date_only_instant\<close>), while \<open>new Date('YYYY-MM-DDThh:mm:ss')\<close> is that time of
  day in the local time zone (\<open>local_instant\<close>). \<open>hoy.setHours(0,0,0,0)\<close> is local
  midnight of today (\<open>inicio_dia_local\<close>) and \<open>toISOString().split('T')[0]\<close> is the
  UTC date of an instant (\<open>formatearFecha\<close>). The local time zone is a fixed offset
  \<open>tz\<close> in milliseconds (local time = UTC + \<open>tz\<close>); daylight-saving changes are not
  modelled. The clock \<open>now\<close> is an argument of the handlers that read it.
\<close>

record reportes_vm = vm_msg +
  clientes :: "cliente list"
  reporteData :: "reporteMovimiento list"
  clienteSeleccionado :: "int option"
  fechaInicio :: "day option"
  fechaFin :: "day option"
  cargando :: bool

definition reportes_init :: reportes_vm where
  "reportes_init =
     \<lparr>mensaje = [], mensajeTipo = MsgSuccess, clientes = [], reporteData = [],
      clienteSeleccionado = None, fechaInicio = None, fechaFin = None, cargando = False\<rparr>"

subsection \<open>Dates as the browser reads them\<close>

definition MS_PER_DAY :: int where
  "MS_PER_DAY = 86400000"

definition date_only_instant :: "day \<Rightarrow> instant" where
  "date_only_instant d = d * MS_PER_DAY"

definition local_instant :: "day \<Rightarrow> int \<Rightarrow> int \<Rightarrow> instant" where
  "local_instant d secs tz = d * MS_PER_DAY + secs * 1000 - tz"

definition inicio_dia_local :: "instant \<Rightarrow> int \<Rightarrow> instant" where
  "inicio_dia_local now tz = ((now + tz) div MS_PER_DAY) * MS_PER_DAY - tz"

text \<open>The local calendar day of an instant (a spec-level notion, used to state claims).\<close>

definition dia_local :: "instant \<Rightarrow> int \<Rightarrow> day" where
  "dia_local now tz = (now + tz) div MS_PER_DAY"

definition formatearFecha :: "instant \<Rightarrow> day" where
  "formatearFecha t = t div MS_PER_DAY"

subsection \<open>Initialisation\<close>

definition setFechasPorDefecto :: "instant \<Rightarrow> reportes_vm \<Rightarrow> reportes_vm" where
  "setFechasPorDefecto now s =
     (let hoy = now; hace30Dias = now - 30 * MS_PER_DAY
      in s\<lparr>fechaFin := Some (formatearFecha hoy), fechaInicio := Some (formatearFecha hace30Dias)\<rparr>)"

definition cargarClientes_reportes :: "reportes_vm \<Rightarrow> reportes_vm out" where
  "cargarClientes_reportes s = (s, [Subscribe GetClientes])"

definition cargarClientes_reportes_next :: "cliente list \<Rightarrow> reportes_vm \<Rightarrow> reportes_vm out" where
  "cargarClientes_reportes_next data s = (s\<lparr>clientes := filter estado data\<rparr>, [])"

definition cargarClientes_reportes_error :: "normalized_error \<Rightarrow> reportes_vm \<Rightarrow> reportes_vm out" where
  "cargarClientes_reportes_error e s = mostrarMensaje ''Error al cargar clientes'' MsgError s"

definition ngOnInit_reportes :: "instant \<Rightarrow> reportes_vm \<Rightarrow> reportes_vm out" where
  "ngOnInit_reportes now s = andThen (cargarClientes_reportes s) (pure_step (setFechasPorDefecto now))"

subsection \<open>Generating the report\<close>

definition generarReporte :: "instant \<Rightarrow> int \<Rightarrow> reportes_vm \<Rightarrow> reportes_vm out" where
  "generarReporte now tz s =
     (case (clienteSeleccionado s, fechaInicio s, fechaFin s) of
        (Some c, Some ini, Some fin) \<Rightarrow>
          if c = 0 then mostrarMensaje ''Por favor complete todos los campos'' MsgError s
          else if date_only_instant ini > date_only_instant fin
          then mostrarMensaje ''La fecha de inicio no puede ser posterior a la fecha de fin'' MsgError s
          else (let hoy = inicio_dia_local now tz in
                if date_only_instant ini > hoy \<or> date_only_instant fin > hoy
                then mostrarMensaje ''Las fechas no pueden ser futuras'' MsgError s
                else (let fechaInicioISO = local_instant ini 0 tz;
                          fechaFinISO = local_instant fin (23 * 3600 + 59 * 60 + 59) tz
                      in (s\<lparr>cargando := True\<rparr>,
                          [Subscribe (GetReporte c fechaInicioISO fechaFinISO)])))
      | _ \<Rightarrow> mostrarMensaje ''Por favor complete todos los campos'' MsgError s)"

definition generarReporte_next :: "reporteMovimiento list \<Rightarrow> reportes_vm \<Rightarrow> reportes_vm out" where
  "generarReporte_next data s =
     (let s1 = s\<lparr>reporteData := data, cargando := False\<rparr>
      in if data = []
         then mostrarMensaje ''No se encontraron movimientos en el rango de fechas especificado'' MsgError s1
         else mostrarMensaje ''Reporte generado exitosamente'' MsgSuccess s1)"

definition generarReporte_error :: "normalized_error \<Rightarrow> reportes_vm \<Rightarrow> reportes_vm out" where
  "generarReporte_error e s = mostrarError ''Error al generar reporte: '' e (s\<lparr>cargando := False\<rparr>)"

subsection \<open>Totals\<close>

definition totalCreditos :: "reportes_vm \<Rightarrow> js_number" where
  "totalCreditos s =
     foldl (\<lambda>sum r. sum + movimiento r) 0 (filter (\<lambda>r. movimiento r > 0) (reporteData s))"

definition totalDebitos :: "reportes_vm \<Rightarrow> js_number" where
  "totalDebitos s =
     foldl (\<lambda>sum r. sum + \<bar>movimiento r\<bar>) 0 (filter (\<lambda>r. movimiento r < 0) (reporteData s))"

subsection \<open>Exports\<close>

definition cliente_reporte :: "reportes_vm \<Rightarrow> cliente option" where
  "cliente_reporte s =
     find (\<lambda>c. clienteId c = Some (case clienteSeleccionado s of None \<Rightarrow> 0 | Some n \<Rightarrow> n)) (clientes s)"

definition exportarPDF :: "reportes_vm \<Rightarrow> reportes_vm out" where
  "exportarPDF s =
     (if reporteData s = [] then mostrarMensaje ''No hay datos para exportar'' MsgError s
      else
        (let cli = cliente_reporte s;
             doc = \<lparr>pdf_cliente =
                      (case cli of Some c \<Rightarrow> if nombre c \<noteq> [] then nombre c else ''N/A'' | None \<Rightarrow> ''N/A''),
                    pdf_periodo = (fechaInicio s, fechaFin s),
                    pdf_filas = reporteData s,
                    pdf_totales = (totalCreditos s, totalDebitos s, totalCreditos s - totalDebitos s),
                    pdf_archivo_cliente = (case cli of Some c \<Rightarrow> nombre c | None \<Rightarrow> ''undefined'')\<rparr>
         in andThen (s, [DownloadPdf doc]) (mostrarMensaje ''PDF descargado exitosamente'' MsgSuccess)))"

definition exportarJSON :: "reportes_vm \<Rightarrow> reportes_vm out" where
  "exportarJSON s =
     (if reporteData s = [] then mostrarMensaje ''No hay datos para exportar'' MsgError s
      else andThen (s, [DownloadJson (reporteData s)])
                   (mostrarMensaje ''JSON descargado exitosamente'' MsgSuccess))"

declare cargarClientes_reportes_def [vm_defs] cargarClientes_reportes_next_def [vm_defs] setFechasPorDefecto_def [vm_defs]
  ngOnInit_reportes_def [vm_defs]

text \<open>A report row with the given movement value (the other columns do not matter to the totals).\<close>

definition fila :: "js_number \<Rightarrow> reporteMovimiento" where
  "fila v =
     \<lparr>rep_fecha = ''2025-12-01'', rep_cliente = ''Jose Lema'', rep_numeroCuenta = ''478758'', tipo = ''Ahorros'',
      rep_saldoInicial = 0, rep_estado = True, movimiento = v, saldoDisponible = 0\<rparr>"

subsection \<open>Lemmas\<close>

lemma totalCreditos_sum: "totalCreditos s = sum_list (map movimiento (filter (\<lambda>r. movimiento r > 0) (reporteData s)))"
  by (simp add: totalCreditos_def foldl_add_sum_list)

lemma totalDebitos_sum:
  "totalDebitos s = - sum_list (map movimiento (filter (\<lambda>r. movimiento r < 0) (reporteData s)))"
  by (simp add: totalDebitos_def foldl_add_sum_list sum_list_abs_neg)

lemma generarReporte_incompleto:
  "\<not> js_truthy_opt (clienteSeleccionado s) \<or> fechaInicio s = None \<or> fechaFin s = None \<Longrightarrow>
   generarReporte now tz s = mostrarMensaje ''Por favor complete todos los campos'' MsgError s"
  by (auto simp: generarReporte_def split: option.splits)

lemma generarReporte_completo:
  "clienteSeleccionado s = Some c \<Longrightarrow> c \<noteq> 0 \<Longrightarrow> fechaInicio s = Some i \<Longrightarrow> fechaFin s = Some f \<Longrightarrow>
   generarReporte now tz s =
     (if f < i then mostrarMensaje ''La fecha de inicio no puede ser posterior a la fecha de fin'' MsgError s
      else if i * MS_PER_DAY > inicio_dia_local now tz \<or> f * MS_PER_DAY > inicio_dia_local now tz
      then mostrarMensaje ''Las fechas no pueden ser futuras'' MsgError s
      else (s\<lparr>cargando := True\<rparr>,
            [Subscribe (GetReporte c (local_instant i 0 tz) (local_instant f 86399 tz))]))"
  by (simp add: generarReporte_def date_only_instant_def MS_PER_DAY_def Let_def)

lemma inicio_dia_local_dia_local:
  "inicio_dia_local now tz = dia_local now tz * MS_PER_DAY - tz"
  by (simp add: inicio_dia_local_def dia_local_def)

subsection \<open>Properties\<close>

text \<open>The totals on the specification's example: for movements 100, -40, 25 and -10 the
  credits total 125, the debits 50, and the balance printed in the PDF is 75.\<close>

theorem totales_ejemplo:
  "totalCreditos (reportes_init\<lparr>reporteData := map fila [100, -40, 25, -10]\<rparr>) = 125 \<and>
   totalDebitos (reportes_init\<lparr>reporteData := map fila [100, -40, 25, -10]\<rparr>) = 50 \<and>
   totalCreditos (reportes_init\<lparr>reporteData := map fila [100, -40, 25, -10]\<rparr>) -
   totalDebitos (reportes_init\<lparr>reporteData := map fila [100, -40, 25, -10]\<rparr>) = 75"
  by (simp add: totalCreditos_def totalDebitos_def fila_def)

text \<open>C5. The balance the PDF prints, credits minus debits, is the net sum of all movement
  values of the report: the two filtered reductions together compute the plain sum.\<close>

theorem balance_suma_neta:
  "totalCreditos s - totalDebitos s = sum_list (map movimiento (reporteData s))"
proof -
  have "sum_list (map movimiento (reporteData s)) =
          sum_list (map movimiento (filter (\<lambda>r. movimiento r > 0) (reporteData s))) +
          sum_list (map movimiento (filter (\<lambda>r. movimiento r < 0) (reporteData s)))"
    using sum_list_filter_split [of movimiento "reporteData s" "\<lambda>r. movimiento r > 0"]
    by (simp add: sum_list_filter_not_pos)
  then show ?thesis by (simp add: totalCreditos_sum totalDebitos_sum)
qed

text \<open>C6. Both totals are non-negative, and together they are the turnover of the report,
  the sum of the absolute values of all movements.\<close>

theorem totales_no_negativos:
  "0 \<le> totalCreditos s \<and> 0 \<le> totalDebitos s \<and>
   totalCreditos s + totalDebitos s = sum_list (map (\<lambda>r. \<bar>movimiento r\<bar>) (reporteData s))"
proof -
  have c: "0 \<le> totalCreditos s"
    unfolding totalCreditos_sum by (rule sum_list_filter_nonneg) simp
  have d: "0 \<le> totalDebitos s"
    unfolding totalDebitos_def foldl_add_sum_list by (simp, rule sum_list_filter_nonneg) simp
  have "sum_list (map (\<lambda>r. \<bar>movimiento r\<bar>) (reporteData s)) =
          sum_list (map (\<lambda>r. \<bar>movimiento r\<bar>) (filter (\<lambda>r. movimiento r > 0) (reporteData s))) +
          sum_list (map (\<lambda>r. \<bar>movimiento r\<bar>) (filter (\<lambda>r. \<not> movimiento r > 0) (reporteData s)))"
    by (rule sum_list_filter_split)
  also have "sum_list (map (\<lambda>r. \<bar>movimiento r\<bar>) (filter (\<lambda>r. movimiento r > 0) (reporteData s))) =
               totalCreditos s"
    by (simp add: totalCreditos_sum sum_list_abs_pos)
  also have "sum_list (map (\<lambda>r. \<bar>movimiento r\<bar>) (filter (\<lambda>r. \<not> movimiento r > 0) (reporteData s))) =
               totalDebitos s"
    by (simp add: totalDebitos_def foldl_add_sum_list sum_list_filter_not_pos)
  finally show ?thesis using c d by simp
qed

text \<open>C7. The pre-fetch validation rejects a range whose start is after its end (the
  specification's example: 2026-02-01 to 2026-01-01) with its own message and sends no
  request.\<close>

theorem generarReporte_inicio_posterior:
  assumes "clienteSeleccionado s = Some c" and "c \<noteq> 0"
    and "fechaInicio s = Some i" and "fechaFin s = Some f" and "f < i"
  shows "subscribes (snd (generarReporte now tz s)) = [] \<and>
         mensaje (fst (generarReporte now tz s)) = ''La fecha de inicio no puede ser posterior a la fecha de fin'' \<and>
         mensajeTipo (fst (generarReporte now tz s)) = MsgError"
  using assms by (simp add: generarReporte_completo)

theorem generarReporte_inicio_posterior_witness:
  "subscribes (snd (generarReporte 1773190800000 0
     (reportes_init\<lparr>clienteSeleccionado := Some 1, fechaInicio := Some 20485, fechaFin := Some 20454\<rparr>))) = []"
  using generarReporte_inicio_posterior
    [of "reportes_init\<lparr>clienteSeleccionado := Some 1, fechaInicio := Some 20485, fechaFin := Some 20454\<rparr>"
        1 20485 20454 1773190800000 0]
  by simp

text \<open>C8. The validation rejects an end date later than the user's local today (for any
  time zone less than a day west of UTC), with the "future dates" message and no request.\<close>

theorem generarReporte_fecha_futura:
  assumes "clienteSeleccionado s = Some c" and "c \<noteq> 0"
    and "fechaInicio s = Some i" and "fechaFin s = Some f" and "i \<le> f"
    and "dia_local now tz < f" and "- MS_PER_DAY < tz"
  shows "subscribes (snd (generarReporte now tz s)) = [] \<and>
         mensaje (fst (generarReporte now tz s)) = ''Las fechas no pueden ser futuras''"
proof -
  have "(dia_local now tz + 1) * MS_PER_DAY \<le> f * MS_PER_DAY"
    using assms(6) by (simp add: MS_PER_DAY_def)
  then have "f * MS_PER_DAY > inicio_dia_local now tz"
    using assms(7) by (simp add: inicio_dia_local_dia_local algebra_simps)
  then show ?thesis
    using assms(1-5) by (simp add: generarReporte_completo)
qed

theorem generarReporte_fecha_futura_witness:
  "dia_local 1773190800000 0 = 20523 \<and>
   mensaje (fst (generarReporte 1773190800000 0
     (reportes_init\<lparr>clienteSeleccionado := Some 1, fechaInicio := Some 20500, fechaFin := Some 20524\<rparr>)))
   = ''Las fechas no pueden ser futuras''"
  using generarReporte_fecha_futura
    [of "reportes_init\<lparr>clienteSeleccionado := Some 1, fechaInicio := Some 20500, fechaFin := Some 20524\<rparr>"
        1 20500 20524 1773190800000 0]
  by (simp add: dia_local_def MS_PER_DAY_def)

text \<open>C9. When the validation passes, the one request sent asks for the selected customer
  from local midnight of the start day to 23:59:59 local time of the end day, so that both
  boundary days are included, and the view is marked as loading.\<close>

theorem generarReporte_rango_inclusivo:
  assumes "generarReporte now tz s = (s', [Subscribe (GetReporte c ini fin)])"
  shows "\<exists>i f. clienteSeleccionado s = Some c \<and> fechaInicio s = Some i \<and> fechaFin s = Some f \<and> i \<le> f \<and>
           dia_local ini tz = i \<and> inicio_dia_local ini tz = ini \<and>
           dia_local fin tz = f \<and> fin = inicio_dia_local fin tz + 86399000 \<and> cargando s'"
  using assms
  by (auto simp: generarReporte_def Let_def mostrarMensaje_def date_only_instant_def local_instant_def
      dia_local_def inicio_dia_local_def MS_PER_DAY_def split: option.splits if_splits)

theorem generarReporte_rango_inclusivo_witness:
  "generarReporte 1773190800000 (-18000000)
     (reportes_init\<lparr>clienteSeleccionado := Some 1, fechaInicio := Some 20500, fechaFin := Some 20520\<rparr>)
   = (reportes_init\<lparr>clienteSeleccionado := Some 1, fechaInicio := Some 20500, fechaFin := Some 20520, cargando := True\<rparr>,
      [Subscribe (GetReporte 1 1771218000000 1773032399000)]) \<and>
   dia_local 1773032399000 (-18000000) = 20520"
proof -
  have g: "generarReporte 1773190800000 (-18000000)
     (reportes_init\<lparr>clienteSeleccionado := Some 1, fechaInicio := Some 20500, fechaFin := Some 20520\<rparr>)
   = (reportes_init\<lparr>clienteSeleccionado := Some 1, fechaInicio := Some 20500, fechaFin := Some 20520, cargando := True\<rparr>,
      [Subscribe (GetReporte 1 1771218000000 1773032399000)])"
    by (simp add: generarReporte_completo local_instant_def inicio_dia_local_def MS_PER_DAY_def)
  from generarReporte_rango_inclusivo [OF g] have "dia_local 1773032399000 (-18000000) = 20520"
    by (auto simp: reportes_init_def)
  with g show ?thesis by simp
qed

text \<open>C16. An empty result is not treated as a failed request: the rows are replaced, the
  loading flag is cleared and the view shows its own "no movements found" message, distinct
  from the request-failure path. The code gives that message the error style.\<close>

theorem generarReporte_next_vacio:
  "generarReporte_next [] s =
     (s\<lparr>reporteData := [], cargando := False,
        mensaje := ''No se encontraron movimientos en el rango de fechas especificado'',
        mensajeTipo := MsgError\<rparr>,
      [ClearMensajeAfter DURACION_MENSAJE])"
  by (simp add: generarReporte_next_def)

text \<open>C17. Both exports refuse an empty result set: they show "no data to export" and
  produce no file.\<close>

theorem exportar_vacio_rechazado:
  assumes "reporteData s = []"
  shows "exportarPDF s = mostrarMensaje ''No hay datos para exportar'' MsgError s \<and>
         exportarJSON s = mostrarMensaje ''No hay datos para exportar'' MsgError s"
  using assms by (simp add: exportarPDF_def exportarJSON_def)

theorem exportar_vacio_rechazado_witness:
  "exportarPDF reportes_init = mostrarMensaje ''No hay datos para exportar'' MsgError reportes_init \<and>
   snd (exportarJSON reportes_init) = [ClearMensajeAfter DURACION_MENSAJE]"
  using exportar_vacio_rechazado [of reportes_init] by (simp add: reportes_init_def)

text \<open>C20. In every time zone east of UTC, today's date can never be the end of a report
  range: \<open>new Date(fechaFin)\<close> is midnight UTC of that day, which lies after local
  midnight, so the view rejects it as a future date.\<close>

theorem hoy_rechazado_al_este_de_UTC:
  assumes "0 < tz" and "clienteSeleccionado s = Some c" and "c \<noteq> 0"
    and "fechaInicio s = Some i" and "i \<le> dia_local now tz" and "fechaFin s = Some (dia_local now tz)"
  shows "subscribes (snd (generarReporte now tz s)) = [] \<and>
         mensaje (fst (generarReporte now tz s)) = ''Las fechas no pueden ser futuras''"
proof -
  have "dia_local now tz * MS_PER_DAY > inicio_dia_local now tz"
    using assms(1) by (simp add: inicio_dia_local_dia_local)
  then show ?thesis
    using assms(2-6) by (simp add: generarReporte_completo)
qed

theorem hoy_rechazado_al_este_de_UTC_witness:
  "mensaje (fst (generarReporte 1773190800000 7200000
     (reportes_init\<lparr>clienteSeleccionado := Some 1, fechaInicio := Some 20500,
                     fechaFin := Some (dia_local 1773190800000 7200000)\<rparr>)))
   = ''Las fechas no pueden ser futuras''"
  using hoy_rechazado_al_este_de_UTC
    [of 7200000 "reportes_init\<lparr>clienteSeleccionado := Some 1, fechaInicio := Some 20500,
                     fechaFin := Some (dia_local 1773190800000 7200000)\<rparr>" 1 20500 1773190800000]
  by (simp add: dia_local_def MS_PER_DAY_def)

text \<open>C21. The default range the view fills in is rejected in the evening west of UTC:
  at 20:00 on 2026-03-10 in UTC-5, \<open>setFechasPorDefecto\<close> sets the end date to the UTC date,
  2026-03-11, and generating the report with these defaults fails with "dates cannot be in
  the future".\<close>

theorem fechas_por_defecto_rechazadas:
  "dia_local 1773190800000 (-18000000) = 20522 \<and>
   fechaFin (fst (ngOnInit_reportes 1773190800000 reportes_init)) = Some 20523 \<and>
   generarReporte 1773190800000 (-18000000)
     ((fst (ngOnInit_reportes 1773190800000 reportes_init))\<lparr>clienteSeleccionado := Some 1\<rparr>)
   = mostrarMensaje ''Las fechas no pueden ser futuras'' MsgError
       ((fst (ngOnInit_reportes 1773190800000 reportes_init))\<lparr>clienteSeleccionado := Some 1\<rparr>)"
  by (simp add: vm_defs formatearFecha_def dia_local_def MS_PER_DAY_def reportes_init_def
      generarReporte_completo inicio_dia_local_def)

end
