(* ===== verification/Clientes.thy ===== *)
theory Clientes
  imports ViewModel
begin

text \<open>
  The customers view \<open>components/clientes/clientes.component.ts\<close> (class
  \<open>ClientesComponent\<close>): the customer list, the selected customer and edit mode, the
  search box and the form \<open>nuevoCliente\<close>. Each method is one definition, in the order
  of the source; the callbacks of a subscription are \<open>_next\<close>/\<open>_error\<close> handlers.
  \<open>guardarCliente\<close> subscribes to an update or to a create, with different callbacks for
  each, so each has its own pair of handlers.

  The update payload is the form object with its \<open>contrasena\<close> property deleted when the
  field is empty or blank (\<open>cliente_actualizado\<close>); JSON payloads are association lists
  (theory \<open>Models\<close>), so "the property is absent" is \<open>''contrasena'' \<notin> json_keys p\<close>.
\<close>

record clientes_vm = vm_msg +
  clientes :: "cliente list"
  clienteSeleccionado :: "cliente option"
  modoEdicion :: bool
  busqueda :: string
  nuevoCliente :: cliente

definition inicializarCliente :: cliente where
  "inicializarCliente =
     \<lparr>clienteId = None, nombre = [], genero = [], edad = 0, identificacion = [], direccion = [],
      telefono = [], contrasena = [], estado = True\<rparr>"

definition clientes_init :: clientes_vm where
  "clientes_init =
     \<lparr>mensaje = [], mensajeTipo = MsgSuccess, clientes = [], clienteSeleccionado = None,
      modoEdicion = False, busqueda = [], nuevoCliente = inicializarCliente\<rparr>"

subsection \<open>Loading and search\<close>

definition cargarClientes_clientes :: "clientes_vm \<Rightarrow> clientes_vm out" where
  "cargarClientes_clientes s = (s, [Subscribe GetClientes])"

definition cargarClientes_clientes_next :: "cliente list \<Rightarrow> clientes_vm \<Rightarrow> clientes_vm out" where
  "cargarClientes_clientes_next data s = (s\<lparr>clientes := data\<rparr>, [])"

definition cargarClientes_clientes_error :: "normalized_error \<Rightarrow> clientes_vm \<Rightarrow> clientes_vm out" where
  "cargarClientes_clientes_error e s =
     mostrarMensaje (''Error al cargar clientes: '' @ ne_message e) MsgError s"

definition ngOnInit_clientes :: "clientes_vm \<Rightarrow> clientes_vm out" where
  "ngOnInit_clientes s = cargarClientes_clientes s"

definition clientesFiltrados :: "clientes_vm \<Rightarrow> cliente list" where
  "clientesFiltrados s =
     (if busqueda s = [] then clientes s
      else (let termino = js_toLowerCase (busqueda s)
            in filter (\<lambda>c. js_includes (js_toLowerCase (nombre c)) termino \<or>
                           js_includes (identificacion c) termino \<or>
                           js_includes (telefono c) termino)
                 (clientes s)))"

subsection \<open>Editing and saving\<close>

definition seleccionarCliente :: "cliente \<Rightarrow> clientes_vm \<Rightarrow> clientes_vm" where
  "seleccionarCliente c s =
     s\<lparr>clienteSeleccionado := Some c, modoEdicion := True, nuevoCliente := c\<lparr>contrasena := []\<rparr>\<rparr>"

definition cancelar_clientes :: "clientes_vm \<Rightarrow> clientes_vm" where
  "cancelar_clientes s =
     s\<lparr>nuevoCliente := inicializarCliente, clienteSeleccionado := None, modoEdicion := False\<rparr>"

text \<open>\<open>validarCliente()\<close> returns a boolean and, when it is false, has shown a message.\<close>

definition validarCliente :: "clientes_vm \<Rightarrow> bool \<times> clientes_vm out" where
  "validarCliente s =
     (let c = nuevoCliente s in
      if \<not> js_truthy_str (nombre c) \<or> \<not> js_truthy_str (identificacion c) \<or> \<not> js_truthy_str (telefono c)
      then (False, mostrarMensaje ''Por favor complete todos los campos obligatorios'' MsgError s)
      else if \<not> modoEdicion s \<and> \<not> js_truthy_str (contrasena c)
      then (False, mostrarMensaje (''La contrase'' @ [CHR 0xC3, CHR 0xB1] @ ''a es obligatoria para crear un cliente'') MsgError s)
      else (True, (s, [])))"

definition cliente_actualizado :: "cliente \<Rightarrow> json_obj" where
  "cliente_actualizado c =
     (let obj = cliente_json c
      in if \<not> js_truthy_str (contrasena c) \<or> js_trim (contrasena c) = []
         then json_delete ''contrasena'' obj else obj)"

definition id_seleccionado :: "clientes_vm \<Rightarrow> int option" where
  "id_seleccionado s =
     (case clienteSeleccionado s of
        Some c \<Rightarrow> (case clienteId c of Some i \<Rightarrow> if i \<noteq> 0 then Some i else None | None \<Rightarrow> None)
      | None \<Rightarrow> None)"

definition guardarCliente :: "clientes_vm \<Rightarrow> clientes_vm out" where
  "guardarCliente s =
     (let (ok, r) = validarCliente s in
      if \<not> ok then r
      else (case (modoEdicion s, id_seleccionado s) of
              (True, Some i) \<Rightarrow> (s, [Subscribe (UpdateCliente i (cliente_actualizado (nuevoCliente s)))])
            | _ \<Rightarrow> (s, [Subscribe (CreateCliente (cliente_json (nuevoCliente s)))])))"

definition guardarCliente_update_next :: "clientes_vm \<Rightarrow> clientes_vm out" where
  "guardarCliente_update_next s =
     andThen (andThen (mostrarMensaje ''Cliente actualizado exitosamente'' MsgSuccess s) cargarClientes_clientes)
             (pure_step cancelar_clientes)"

definition guardarCliente_update_error :: "normalized_error \<Rightarrow> clientes_vm \<Rightarrow> clientes_vm out" where
  "guardarCliente_update_error e s = mostrarError ''Error al actualizar: '' e s"

definition guardarCliente_create_next :: "clientes_vm \<Rightarrow> clientes_vm out" where
  "guardarCliente_create_next s =
     andThen (andThen (mostrarMensaje ''Cliente creado exitosamente'' MsgSuccess s) cargarClientes_clientes)
             (pure_step cancelar_clientes)"

definition guardarCliente_create_error :: "normalized_error \<Rightarrow> clientes_vm \<Rightarrow> clientes_vm out" where
  "guardarCliente_create_error e s = mostrarError ''Error al crear: '' e s"

subsection \<open>Deleting\<close>

definition eliminarCliente :: "int \<Rightarrow> bool \<Rightarrow> clientes_vm \<Rightarrow> clientes_vm out" where
  "eliminarCliente i confirmado s =
     (if confirmado then (s, [Subscribe (DeleteCliente i)]) else (s, []))"

definition eliminarCliente_next :: "clientes_vm \<Rightarrow> clientes_vm out" where
  "eliminarCliente_next s =
     andThen (mostrarMensaje ''Cliente eliminado exitosamente'' MsgSuccess s) cargarClientes_clientes"

definition eliminarCliente_error :: "normalized_error \<Rightarrow> clientes_vm \<Rightarrow> clientes_vm out" where
  "eliminarCliente_error e s = mostrarError ''Error al eliminar: '' e s"

text \<open>A loaded customer, as the backend returns it (used by the witnesses).\<close>

definition juan :: cliente where
  "juan =
     \<lparr>clienteId = Some 1, nombre = ''Juan Perez'', genero = ''Masculino'', edad = 30,
      identificacion = ''1234567890'', direccion = ''Calle 123'', telefono = ''0987654321'',
      contrasena = ''pass123'', estado = True\<rparr>"

subsection \<open>Lemmas\<close>

lemma validarCliente_ok:
  "fst (validarCliente s) \<longleftrightarrow>
     nombre (nuevoCliente s) \<noteq> [] \<and> identificacion (nuevoCliente s) \<noteq> [] \<and>
     telefono (nuevoCliente s) \<noteq> [] \<and> (modoEdicion s \<or> contrasena (nuevoCliente s) \<noteq> [])"
  by (auto simp: validarCliente_def Let_def)

lemma validarCliente_ok_state: "fst (validarCliente s) \<Longrightarrow> snd (validarCliente s) = (s, [])"
  by (auto simp: validarCliente_def Let_def split: if_splits)

lemma guardarCliente_cases:
  "guardarCliente s =
     (if \<not> fst (validarCliente s) then snd (validarCliente s)
      else if modoEdicion s \<and> id_seleccionado s \<noteq> None
      then (s, [Subscribe (UpdateCliente (the (id_seleccionado s)) (cliente_actualizado (nuevoCliente s)))])
      else (s, [Subscribe (CreateCliente (cliente_json (nuevoCliente s)))]))"
  by (auto simp: guardarCliente_def validarCliente_def Let_def split: option.splits bool.splits)

lemma js_trim_Nil_of_Nil [simp]: "js_trim [] = []"
  by (simp add: js_trim_def)

lemma cliente_actualizado_keys:
  "json_keys (cliente_actualizado c) =
     (if js_trim (contrasena c) = [] then json_keys (cliente_json c) - {''contrasena''}
      else json_keys (cliente_json c))"
  by (auto simp: cliente_actualizado_def Let_def)

lemma cliente_actualizado_contrasena:
  "js_trim (contrasena c) \<noteq> [] \<Longrightarrow> map_of (cliente_actualizado c) ''contrasena'' = Some (JStr (contrasena c))"
  by (cases "contrasena c = []") (auto simp: cliente_actualizado_def cliente_json_contrasena)

subsection \<open>Properties\<close>

text \<open>C26. Updating a customer sends its password only when the password field is not blank:
  with an empty or blank field the \<open>contrasena\<close> property is absent from the payload (not
  an empty string), so the backend keeps the stored credential; otherwise it carries the
  field's value.\<close>

theorem guardarCliente_omite_contrasena:
  assumes "modoEdicion s" and "id_seleccionado s = Some i"
    and "nombre (nuevoCliente s) \<noteq> []" and "identificacion (nuevoCliente s) \<noteq> []"
    and "telefono (nuevoCliente s) \<noteq> []"
  shows "\<exists>p. guardarCliente s = (s, [Subscribe (UpdateCliente i p)]) \<and>
             (''contrasena'' \<in> json_keys p \<longleftrightarrow> js_trim (contrasena (nuevoCliente s)) \<noteq> []) \<and>
             (js_trim (contrasena (nuevoCliente s)) \<noteq> [] \<longrightarrow>
                map_of p ''contrasena'' = Some (JStr (contrasena (nuevoCliente s))))"
proof -
  have ok: "fst (validarCliente s)" using assms by (simp add: validarCliente_ok)
  then have "guardarCliente s = (s, [Subscribe (UpdateCliente i (cliente_actualizado (nuevoCliente s)))])"
    using assms(1,2) by (simp add: guardarCliente_cases)
  then show ?thesis
    by (auto simp: cliente_actualizado_keys contrasena_in_cliente_json cliente_actualizado_contrasena)
qed

theorem guardarCliente_omite_contrasena_witness:
  "guardarCliente (clientes_init\<lparr>modoEdicion := True, clienteSeleccionado := Some juan,
                                nuevoCliente := juan\<lparr>contrasena := ''   ''\<rparr>\<rparr>)
   = (clientes_init\<lparr>modoEdicion := True, clienteSeleccionado := Some juan,
                    nuevoCliente := juan\<lparr>contrasena := ''   ''\<rparr>\<rparr>,
      [Subscribe (UpdateCliente 1 (json_delete ''contrasena'' (cliente_json (juan\<lparr>contrasena := ''   ''\<rparr>))))]) \<and>
   ''contrasena'' \<notin> json_keys (json_delete ''contrasena'' (cliente_json (juan\<lparr>contrasena := ''   ''\<rparr>)))"
proof -
  let ?s = "clientes_init\<lparr>modoEdicion := True, clienteSeleccionado := Some juan,
                          nuevoCliente := juan\<lparr>contrasena := ''   ''\<rparr>\<rparr>"
  have id: "id_seleccionado ?s = Some 1" by (simp add: id_seleccionado_def juan_def)
  obtain p where p: "guardarCliente ?s = (?s, [Subscribe (UpdateCliente 1 p)])"
    and k: "''contrasena'' \<in> json_keys p \<longleftrightarrow> js_trim ''   '' \<noteq> []"
    using guardarCliente_omite_contrasena [of ?s 1] id by (auto simp: juan_def)
  have t: "js_trim ''   '' = []" by (simp add: js_trim_Nil_iff js_is_space_def)
  have "p = json_delete ''contrasena'' (cliente_json (juan\<lparr>contrasena := ''   ''\<rparr>))"
    using p id t by (simp add: guardarCliente_cases validarCliente_ok juan_def cliente_actualizado_def)
  with p k t show ?thesis by simp
qed

text \<open>Selecting a loaded customer and saving it without typing a password sends an
  update whose payload is the customer's fields with the password property removed: the view
  clears the field on selection, so an edit never overwrites the stored credential by
  accident.\<close>

theorem seleccionar_y_guardar_sin_contrasena:
  assumes "clienteId c = Some i" and "i \<noteq> 0"
    and "nombre c \<noteq> []" and "identificacion c \<noteq> []" and "telefono c \<noteq> []"
  shows "guardarCliente (seleccionarCliente c s) =
           (seleccionarCliente c s,
            [Subscribe (UpdateCliente i (json_delete ''contrasena'' (cliente_json c)))])"
proof -
  have ok: "fst (validarCliente (seleccionarCliente c s))"
    using assms by (simp add: validarCliente_ok seleccionarCliente_def)
  have id: "id_seleccionado (seleccionarCliente c s) = Some i"
    using assms by (simp add: id_seleccionado_def seleccionarCliente_def)
  have "cliente_actualizado (c\<lparr>contrasena := []\<rparr>) = json_delete ''contrasena'' (cliente_json c)"
    by (simp add: cliente_actualizado_def cliente_json_def opt_field_def split: option.splits)
  with ok id show ?thesis
    by (simp add: guardarCliente_cases seleccionarCliente_def)
qed

theorem seleccionar_y_guardar_sin_contrasena_witness:
  "guardarCliente (seleccionarCliente juan clientes_init) =
     (seleccionarCliente juan clientes_init,
      [Subscribe (UpdateCliente 1 (json_delete ''contrasena'' (cliente_json juan)))])"
  using seleccionar_y_guardar_sin_contrasena [of juan 1 clientes_init] by (simp add: juan_def)

text \<open>C28. The save is refused, with an error message and no request, when the name, the
  identification or the phone is empty, or when a new customer (not in edit mode) has no
  password.\<close>

theorem guardarCliente_validacion:
  assumes "nombre (nuevoCliente s) = [] \<or> identificacion (nuevoCliente s) = [] \<or>
           telefono (nuevoCliente s) = [] \<or> (\<not> modoEdicion s \<and> contrasena (nuevoCliente s) = [])"
  shows "subscribes (snd (guardarCliente s)) = [] \<and> mensajeTipo (fst (guardarCliente s)) = MsgError"
proof -
  have "\<not> fst (validarCliente s)" using assms by (auto simp: validarCliente_ok)
  then show ?thesis
    by (auto simp: guardarCliente_cases validarCliente_def Let_def split: if_splits)
qed

theorem guardarCliente_validacion_witness:
  "subscribes (snd (guardarCliente (clientes_init\<lparr>nuevoCliente := juan\<lparr>contrasena := []\<rparr>\<rparr>))) = []"
  using guardarCliente_validacion [of "clientes_init\<lparr>nuevoCliente := juan\<lparr>contrasena := []\<rparr>\<rparr>"]
  by (simp add: clientes_init_def)

text \<open>C29. Validation and dispatch disagree on what "editing" means: the password is
  optional whenever the view is in edit mode, but the update is chosen only when the selected
  customer has a truthy id. Editing a customer record without an id therefore creates a new
  customer with an empty password, which the create path is supposed to refuse.\<close>

theorem crear_sin_contrasena_en_edicion:
  "guardarCliente (seleccionarCliente (juan\<lparr>clienteId := None\<rparr>) clientes_init) =
     (seleccionarCliente (juan\<lparr>clienteId := None\<rparr>) clientes_init,
      [Subscribe (CreateCliente (cliente_json (juan\<lparr>clienteId := None, contrasena := []\<rparr>)))]) \<and>
   map_of (cliente_json (juan\<lparr>clienteId := None, contrasena := []\<rparr>)) ''contrasena'' = Some (JStr [])"
  by (simp add: guardarCliente_cases validarCliente_ok seleccionarCliente_def id_seleccionado_def
      juan_def cliente_json_contrasena)

text \<open>C30. The search lower-cases the search term but not the identification it is matched
  against: a customer whose identification contains capital letters is never found by
  typing those letters, although the name search ignores case (the spec test's 'juan' finds
  'Juan Perez').\<close>

theorem busqueda_identificacion_mayusculas:
  "clientesFiltrados (clientes_init\<lparr>clientes := [juan\<lparr>identificacion := ''AB-1234567''\<rparr>], busqueda := ''AB-123''\<rparr>) = [] \<and>
   clientesFiltrados (clientes_init\<lparr>clientes := [juan\<lparr>identificacion := ''AB-1234567''\<rparr>], busqueda := ''juan''\<rparr>) =
     [juan\<lparr>identificacion := ''AB-1234567''\<rparr>]"
proof -
  have l: "js_toLowerCase ''AB-123'' = ''ab-123''" "js_toLowerCase ''Juan Perez'' = ''juan perez''"
    "js_toLowerCase ''juan'' = ''juan''"
    by code_simp+
  have i: "\<not> js_includes ''juan perez'' ''ab-123''" "\<not> js_includes ''AB-1234567'' ''ab-123''"
    "\<not> js_includes ''0987654321'' ''ab-123''" "js_includes ''juan perez'' ''juan''"
    by code_simp+
  show ?thesis
    using l i by (simp add: clientesFiltrados_def clientes_init_def juan_def)
qed

text \<open>C40. The customer form applies none of the limits that \<open>VALIDACIONES\<close> declares: a
  new customer aged 8, with a 3-digit phone, a 2-character identification and a
  1-character password, passes \<open>validarCliente\<close> and is posted as it is. The form's own
  messages are literals that happen to equal the entries of \<open>MENSAJES.ERROR\<close>, which the
  view does not read either.\<close>

theorem validaciones_no_aplicadas:
  "let c = juan\<lparr>clienteId := None, edad := 8, telefono := ''123'', identificacion := ''12'', contrasena := ''x''\<rparr>
   in edad c < EDAD_MINIMA VALIDACIONES \<and>
      int (length (telefono c)) < TELEFONO_MIN_LENGTH VALIDACIONES \<and>
      int (length (identificacion c)) < IDENTIFICACION_MIN_LENGTH VALIDACIONES \<and>
      int (length (contrasena c)) < PASSWORD_MIN_LENGTH VALIDACIONES \<and>
      guardarCliente (clientes_init\<lparr>nuevoCliente := c\<rparr>) =
        (clientes_init\<lparr>nuevoCliente := c\<rparr>, [Subscribe (CreateCliente (cliente_json c))]) \<and>
      mensaje (fst (snd (validarCliente (clientes_init\<lparr>nuevoCliente := c\<lparr>telefono := []\<rparr>\<rparr>)))) =
        CAMPOS_REQUERIDOS (ERROR MENSAJES) \<and>
      mensaje (fst (snd (validarCliente (clientes_init\<lparr>nuevoCliente := c\<lparr>contrasena := []\<rparr>\<rparr>)))) =
        PASSWORD_REQUERIDA (ERROR MENSAJES)"
  by (simp add: guardarCliente_def validarCliente_def clientes_init_def juan_def VALIDACIONES_def
      MENSAJES_def id_seleccionado_def Let_def)

end
