(* ===== verification/Cuentas.thy ===== *)
theory Cuentas
  imports ViewModel
begin

text \<open>
  The accounts view \<open>components/cuentas/cuentas.component.ts\<close> (class
  \<open>CuentasComponent\<close>): the account list, the active customers offered in the form, the
  selected account and edit mode, the search box and the form \<open>nuevaCuenta\<close>. Each
  method is one definition, in the order of the source, with the callbacks of its
  subscriptions as \<open>_next\<close>/\<open>_error\<close> handlers.
\<close>

record cuentas_vm = vm_msg +
  cuentas :: "cuenta list"
  clientes :: "cliente list"
  cuentaSeleccionada :: "cuenta option"
  modoEdicion :: bool
  busqueda :: string
  nuevaCuenta :: cuenta

definition inicializarCuenta :: cuenta where
  "inicializarCuenta =
     \<lparr>cuenta_id = None, numeroCuenta = [], tipoCuenta = [], saldoInicial = 0, cuenta_estado = True,
      cuenta_clienteId = 0, clienteNombre = None\<rparr>"

definition cuentas_init :: cuentas_vm where
  "cuentas_init =
     \<lparr>mensaje = [], mensajeTipo = MsgSuccess, cuentas = [], clientes = [], cuentaSeleccionada = None,
      modoEdicion = False, busqueda = [], nuevaCuenta = inicializarCuenta\<rparr>"

subsection \<open>Loading and search\<close>

definition cargarCuentas_cuentas :: "cuentas_vm \<Rightarrow> cuentas_vm out" where
  "cargarCuentas_cuentas s = (s, [Subscribe GetCuentas])"

definition cargarCuentas_cuentas_next :: "cuenta list \<Rightarrow> cuentas_vm \<Rightarrow> cuentas_vm out" where
  "cargarCuentas_cuentas_next data s = (s\<lparr>cuentas := data\<rparr>, [])"

definition cargarCuentas_cuentas_error :: "normalized_error \<Rightarrow> cuentas_vm \<Rightarrow> cuentas_vm out" where
  "cargarCuentas_cuentas_error e s =
     mostrarMensaje (''Error al cargar cuentas: '' @ ne_message e) MsgError s"

definition cargarClientes_cuentas :: "cuentas_vm \<Rightarrow> cuentas_vm out" where
  "cargarClientes_cuentas s = (s, [Subscribe GetClientes])"

definition cargarClientes_cuentas_next :: "cliente list \<Rightarrow> cuentas_vm \<Rightarrow> cuentas_vm out" where
  "cargarClientes_cuentas_next data s = (s\<lparr>clientes := filter estado data\<rparr>, [])"

definition cargarClientes_cuentas_error :: "normalized_error \<Rightarrow> cuentas_vm \<Rightarrow> cuentas_vm out" where
  "cargarClientes_cuentas_error e s = mostrarMensaje ''Error al cargar clientes'' MsgError s"

definition ngOnInit_cuentas :: "cuentas_vm \<Rightarrow> cuentas_vm out" where
  "ngOnInit_cuentas s = andThen (cargarCuentas_cuentas s) cargarClientes_cuentas"

definition cuentasFiltradas :: "cuentas_vm \<Rightarrow> cuenta list" where
  "cuentasFiltradas s =
     (if busqueda s = [] then cuentas s
      else (let termino = js_toLowerCase (busqueda s)
            in filter (\<lambda>c. js_includes (numeroCuenta c) termino \<or>
                           (case clienteNombre c of None \<Rightarrow> False
                            | Some n \<Rightarrow> js_includes (js_toLowerCase n) termino) \<or>
                           js_includes (js_toLowerCase (tipoCuenta c)) termino)
                 (cuentas s)))"

subsection \<open>Editing and saving\<close>

definition seleccionarCuenta :: "cuenta \<Rightarrow> cuentas_vm \<Rightarrow> cuentas_vm" where
  "seleccionarCuenta c s = s\<lparr>cuentaSeleccionada := Some c, modoEdicion := True, nuevaCuenta := c\<rparr>"

definition cancelar_cuentas :: "cuentas_vm \<Rightarrow> cuentas_vm" where
  "cancelar_cuentas s =
     s\<lparr>nuevaCuenta := inicializarCuenta, cuentaSeleccionada := None, modoEdicion := False\<rparr>"

definition id_cuenta_seleccionada :: "cuentas_vm \<Rightarrow> int option" where
  "id_cuenta_seleccionada s =
     (case cuentaSeleccionada s of
        Some c \<Rightarrow> (case cuenta_id c of Some i \<Rightarrow> if i \<noteq> 0 then Some i else None | None \<Rightarrow> None)
      | None \<Rightarrow> None)"

definition guardarCuenta :: "cuentas_vm \<Rightarrow> cuentas_vm out" where
  "guardarCuenta s =
     (let a = nuevaCuenta s in
      if \<not> js_truthy_str (numeroCuenta a) \<or> \<not> js_truthy_str (tipoCuenta a) \<or>
         \<not> js_truthy_num (cuenta_clienteId a)
      then mostrarMensaje ''Complete todos los campos obligatorios'' MsgError s
      else (case (modoEdicion s, id_cuenta_seleccionada s) of
              (True, Some i) \<Rightarrow> (s, [Subscribe (UpdateCuenta i (cuenta_json a))])
            | _ \<Rightarrow> (s, [Subscribe (CreateCuenta (cuenta_json a))])))"

definition guardarCuenta_update_next :: "cuentas_vm \<Rightarrow> cuentas_vm out" where
  "guardarCuenta_update_next s =
     andThen (andThen (mostrarMensaje ''Cuenta actualizada exitosamente'' MsgSuccess s) cargarCuentas_cuentas)
             (pure_step cancelar_cuentas)"

definition guardarCuenta_create_next :: "cuentas_vm \<Rightarrow> cuentas_vm out" where
  "guardarCuenta_create_next s =
     andThen (andThen (mostrarMensaje ''Cuenta creada exitosamente'' MsgSuccess s) cargarCuentas_cuentas)
             (pure_step cancelar_cuentas)"

definition guardarCuenta_error :: "normalized_error \<Rightarrow> cuentas_vm \<Rightarrow> cuentas_vm out" where
  "guardarCuenta_error e s = mostrarError ''Error: '' e s"

subsection \<open>Deleting\<close>

definition eliminarCuenta :: "int \<Rightarrow> bool \<Rightarrow> cuentas_vm \<Rightarrow> cuentas_vm out" where
  "eliminarCuenta i confirmado s =
     (if confirmado then (s, [Subscribe (DeleteCuenta i)]) else (s, []))"

definition eliminarCuenta_next :: "cuentas_vm \<Rightarrow> cuentas_vm out" where
  "eliminarCuenta_next s =
     andThen (mostrarMensaje ''Cuenta eliminada exitosamente'' MsgSuccess s) cargarCuentas_cuentas"

definition eliminarCuenta_error :: "normalized_error \<Rightarrow> cuentas_vm \<Rightarrow> cuentas_vm out" where
  "eliminarCuenta_error e s = mostrarError ''Error: '' e s"

text \<open>A loaded account, as the backend returns it (used by the witnesses).\<close>

definition cuenta_ejemplo :: cuenta where
  "cuenta_ejemplo =
     \<lparr>cuenta_id = Some 7, numeroCuenta = ''478758'', tipoCuenta = ''Ahorros'', saldoInicial = 2000,
      cuenta_estado = True, cuenta_clienteId = 1, clienteNombre = Some ''Jose Lema''\<rparr>"

subsection \<open>Properties\<close>

text \<open>C31. Saving an account without a number, a type or an owning customer (id 0, the
  form's initial value) is refused with the "complete the required fields" message and no
  request.\<close>

theorem guardarCuenta_validacion:
  assumes "numeroCuenta (nuevaCuenta s) = [] \<or> tipoCuenta (nuevaCuenta s) = [] \<or>
           cuenta_clienteId (nuevaCuenta s) = 0"
  shows "guardarCuenta s = mostrarMensaje ''Complete todos los campos obligatorios'' MsgError s \<and>
         subscribes (snd (guardarCuenta s)) = []"
  using assms by (simp add: guardarCuenta_def Let_def)

theorem guardarCuenta_validacion_witness:
  "subscribes (snd (guardarCuenta (cuentas_init\<lparr>nuevaCuenta := cuenta_ejemplo\<lparr>cuenta_clienteId := 0\<rparr>\<rparr>))) = []"
  using guardarCuenta_validacion [of "cuentas_init\<lparr>nuevaCuenta := cuenta_ejemplo\<lparr>cuenta_clienteId := 0\<rparr>\<rparr>"]
  by simp

text \<open>C32. Editing a loaded account sends the customer name back to the backend: the form is
  a copy of the listed account, display-only \<open>clienteNombre\<close> included, and the update
  posts the whole form, although the model declares the field "only for display, not sent to
  the backend".\<close>

theorem actualizar_cuenta_envia_clienteNombre:
  assumes "cuenta_id c = Some i" and "i \<noteq> 0" and "numeroCuenta c \<noteq> []" and "tipoCuenta c \<noteq> []"
    and "cuenta_clienteId c \<noteq> 0" and "clienteNombre c = Some n"
  shows "guardarCuenta (seleccionarCuenta c s) =
           (seleccionarCuenta c s, [Subscribe (UpdateCuenta i (cuenta_json c))]) \<and>
         map_of (cuenta_json c) ''clienteNombre'' = Some (JStr n)"
  using assms
  by (simp add: guardarCuenta_def seleccionarCuenta_def id_cuenta_seleccionada_def Let_def
      cuenta_json_def opt_field_def split: option.splits)

theorem actualizar_cuenta_envia_clienteNombre_witness:
  "subscribes (snd (guardarCuenta (seleccionarCuenta cuenta_ejemplo cuentas_init))) =
     [UpdateCuenta 7 (cuenta_json cuenta_ejemplo)] \<and>
   map_of (cuenta_json cuenta_ejemplo) ''clienteNombre'' = Some (JStr ''Jose Lema'')"
  using actualizar_cuenta_envia_clienteNombre [of cuenta_ejemplo 7 "''Jose Lema''" cuentas_init]
  by (simp add: cuenta_ejemplo_def)

text \<open>C33. The initial balance is not validated: an account with a negative initial balance
  is posted to the backend, although the constants declare a minimum balance of 0
  (\<open>VALIDACIONES.SALDO_MINIMO\<close>), which no view applies.\<close>

theorem saldo_inicial_negativo_enviado:
  "guardarCuenta (cuentas_init\<lparr>nuevaCuenta := cuenta_ejemplo\<lparr>cuenta_id := None, saldoInicial := -500, clienteNombre := None\<rparr>\<rparr>) =
     (cuentas_init\<lparr>nuevaCuenta := cuenta_ejemplo\<lparr>cuenta_id := None, saldoInicial := -500, clienteNombre := None\<rparr>\<rparr>,
      [Subscribe (CreateCuenta [(''numeroCuenta'', JStr ''478758''), (''tipoCuenta'', JStr ''Ahorros''),
         (''saldoInicial'', JNum (-500)), (''estado'', JBool True), (''clienteId'', JNum 1)])])"
  by (simp add: guardarCuenta_def Let_def cuentas_init_def cuenta_ejemplo_def cuenta_json_def
      opt_field_def id_cuenta_seleccionada_def)

end
