(* ===== verification/Dispatch.thy ===== *)
theory Dispatch
  imports Session Movimientos Reportes Clientes Cuentas
begin

text \<open>
  The four views in their environment (theory \<open>Session\<close>):
  \<^item> the subscriptions of each view wired to its callbacks: which \<open>next\<close> and \<open>error\<close>
    callback handles the outcome of each call the view subscribes to (the
    \<open>subscribe({next, error})\<close> blocks of the components). A success of another shape
    than the call's type, which the typed \<open>HttpClient\<close> of a conforming backend never
    delivers, and a call the view never makes, leave the view unchanged;
  \<^item> the user events of each view (\<open>evento_movimientos\<close> ... \<open>evento_reportes\<close>) and the
    handler each runs (\<open>manejar_movimientos\<close> ...), so that \<open>vista_alcanzable\<close> is
    the set of states the view reaches by its own events and any responses;
  \<^item> the types of the request bodies, and the properties across views: the spinner and the
    report race (C38, C39), the reload after a save (C27), the body types (C36), and that a
    failed call is final, in the callbacks (C15) and in every execution (C4).
\<close>

text \<open>The outcome of a call whose callbacks are \<open>next\<close> and \<open>error\<close>.\<close>

definition segun :: "('r \<Rightarrow> 'v \<Rightarrow> 'v out) \<Rightarrow> (normalized_error \<Rightarrow> 'v \<Rightarrow> 'v out) \<Rightarrow>
    normalized_error + 'r \<Rightarrow> 'v \<Rightarrow> 'v out" where
  "segun nxt err r = (case r of Inl e \<Rightarrow> err e | Inr x \<Rightarrow> nxt x)"

definition movimientos_callbacks :: "movimientos_vm callbacks" where
  "movimientos_callbacks c r =
     (case c of
        GetMovimientos \<Rightarrow> segun (\<lambda>x. case x of RMovimientos d \<Rightarrow> cargarMovimientos_next d | _ \<Rightarrow> pure_step id)
                                cargarMovimientos_error r
      | GetCuentas \<Rightarrow> segun (\<lambda>x. case x of RCuentas d \<Rightarrow> cargarCuentas_movimientos_next d | _ \<Rightarrow> pure_step id)
                            cargarCuentas_movimientos_error r
      | CreateMovimiento _ \<Rightarrow> segun (\<lambda>_. realizarMovimiento_next) realizarMovimiento_error r
      | DeleteMovimiento _ \<Rightarrow> segun (\<lambda>_. eliminarMovimiento_next) eliminarMovimiento_error r
      | _ \<Rightarrow> pure_step id)"

definition reportes_callbacks :: "reportes_vm callbacks" where
  "reportes_callbacks c r =
     (case c of
        GetClientes \<Rightarrow> segun (\<lambda>x. case x of RClientes d \<Rightarrow> cargarClientes_reportes_next d | _ \<Rightarrow> pure_step id)
                             cargarClientes_reportes_error r
      | GetReporte _ _ _ \<Rightarrow> segun (\<lambda>x. case x of RReporte d \<Rightarrow> generarReporte_next d | _ \<Rightarrow> pure_step id)
                                 generarReporte_error r
      | _ \<Rightarrow> pure_step id)"

definition clientes_callbacks :: "clientes_vm callbacks" where
  "clientes_callbacks c r =
     (case c of
        GetClientes \<Rightarrow> segun (\<lambda>x. case x of RClientes d \<Rightarrow> cargarClientes_clientes_next d | _ \<Rightarrow> pure_step id)
                             cargarClientes_clientes_error r
      | UpdateCliente _ _ \<Rightarrow> segun (\<lambda>_. guardarCliente_update_next) guardarCliente_update_error r
      | CreateCliente _ \<Rightarrow> segun (\<lambda>_. guardarCliente_create_next) guardarCliente_create_error r
      | DeleteCliente _ \<Rightarrow> segun (\<lambda>_. eliminarCliente_next) eliminarCliente_error r
      | _ \<Rightarrow> pure_step id)"

definition cuentas_callbacks :: "cuentas_vm callbacks" where
  "cuentas_callbacks c r =
     (case c of
        GetCuentas \<Rightarrow> segun (\<lambda>x. case x of RCuentas d \<Rightarrow> cargarCuentas_cuentas_next d | _ \<Rightarrow> pure_step id)
                            cargarCuentas_cuentas_error r
      | GetClientes \<Rightarrow> segun (\<lambda>x. case x of RClientes d \<Rightarrow> cargarClientes_cuentas_next d | _ \<Rightarrow> pure_step id)
                             cargarClientes_cuentas_error r
      | UpdateCuenta _ _ \<Rightarrow> segun (\<lambda>_. guardarCuenta_update_next) guardarCuenta_error r
      | CreateCuenta _ \<Rightarrow> segun (\<lambda>_. guardarCuenta_create_next) guardarCuenta_error r
      | DeleteCuenta _ \<Rightarrow> segun (\<lambda>_. eliminarCuenta_next) eliminarCuenta_error r
      | _ \<Rightarrow> pure_step id)"

subsection \<open>The user events of the views\<close>

text \<open>What the template of each view can do (the templates are not in the repository;
  these follow the components' public methods and the specification): call a method of the
  component, or, through \<open>[(ngModel)]\<close>, change a field of the form or the search box.
  A row of a list is selected by its position in the filtered list the table shows; the
  forms edit every field of the record except the identifier (and, for accounts, the
  display-only customer name).\<close>

datatype evento_movimientos = MovInicio | MovRealizar | MovEliminar int bool | MovTipo string
  | MovValor js_number | MovCuenta string | MovBuscar string

definition manejar_movimientos :: "evento_movimientos \<Rightarrow> movimientos_vm \<Rightarrow> movimientos_vm out" where
  "manejar_movimientos e s =
     (case e of
        MovInicio \<Rightarrow> ngOnInit_movimientos s
      | MovRealizar \<Rightarrow> realizarMovimiento s
      | MovEliminar i ok \<Rightarrow> eliminarMovimiento i ok s
      | MovTipo t \<Rightarrow> (seleccionarTipo t s, [])
      | MovValor v \<Rightarrow> (ingresarValor v s, [])
      | MovCuenta a \<Rightarrow> (ingresarCuenta a s, [])
      | MovBuscar q \<Rightarrow> (s\<lparr>movimientos_vm.busqueda := q\<rparr>, []))"

datatype evento_clientes = ClInicio | ClSeleccionar nat | ClGuardar | ClEliminar int bool
  | ClCancelar | ClEditar cliente | ClBuscar string

definition manejar_clientes :: "evento_clientes \<Rightarrow> clientes_vm \<Rightarrow> clientes_vm out" where
  "manejar_clientes e s =
     (case e of
        ClInicio \<Rightarrow> ngOnInit_clientes s
      | ClSeleccionar n \<Rightarrow>
          (if n < length (clientesFiltrados s) then seleccionarCliente (clientesFiltrados s ! n) s else s, [])
      | ClGuardar \<Rightarrow> guardarCliente s
      | ClEliminar i ok \<Rightarrow> eliminarCliente i ok s
      | ClCancelar \<Rightarrow> (cancelar_clientes s, [])
      | ClEditar c \<Rightarrow> (s\<lparr>nuevoCliente := c\<lparr>clienteId := clienteId (nuevoCliente s)\<rparr>\<rparr>, [])
      | ClBuscar q \<Rightarrow> (s\<lparr>clientes_vm.busqueda := q\<rparr>, []))"

datatype evento_cuentas = CuInicio | CuSeleccionar nat | CuGuardar | CuEliminar int bool
  | CuCancelar | CuEditar cuenta | CuBuscar string

definition manejar_cuentas :: "evento_cuentas \<Rightarrow> cuentas_vm \<Rightarrow> cuentas_vm out" where
  "manejar_cuentas e s =
     (case e of
        CuInicio \<Rightarrow> ngOnInit_cuentas s
      | CuSeleccionar n \<Rightarrow>
          (if n < length (cuentasFiltradas s) then seleccionarCuenta (cuentasFiltradas s ! n) s else s, [])
      | CuGuardar \<Rightarrow> guardarCuenta s
      | CuEliminar i ok \<Rightarrow> eliminarCuenta i ok s
      | CuCancelar \<Rightarrow> (cancelar_cuentas s, [])
      | CuEditar a \<Rightarrow>
          (s\<lparr>nuevaCuenta := a\<lparr>cuenta_id := cuenta_id (nuevaCuenta s), clienteNombre := clienteNombre (nuevaCuenta s)\<rparr>\<rparr>, [])
      | CuBuscar q \<Rightarrow> (s\<lparr>cuentas_vm.busqueda := q\<rparr>, []))"

datatype evento_reportes = RepInicio instant | RepCliente "int option" | RepFechas "day option" "day option"
  | RepGenerar instant int | RepPDF | RepJSON

definition manejar_reportes :: "evento_reportes \<Rightarrow> reportes_vm \<Rightarrow> reportes_vm out" where
  "manejar_reportes e s =
     (case e of
        RepInicio now \<Rightarrow> ngOnInit_reportes now s
      | RepCliente c \<Rightarrow> (s\<lparr>reportes_vm.clienteSeleccionado := c\<rparr>, [])
      | RepFechas i f \<Rightarrow> (s\<lparr>fechaInicio := i, fechaFin := f\<rparr>, [])
      | RepGenerar now tz \<Rightarrow> generarReporte now tz s
      | RepPDF \<Rightarrow> exportarPDF s
      | RepJSON \<Rightarrow> exportarJSON s)"

subsection \<open>Types of the request bodies\<close>

text \<open>The type a body actually has: the declared parameter type of the method, except for
  the customer update, whose payload is built by \<open>delete (clienteActualizado as any)
  .contrasena\<close>, a cast that lets the required \<open>contrasena\<close> of \<open>Cliente\<close> be absent.\<close>

definition tipo_efectivo :: "api_call \<Rightarrow> interfaz option" where
  "tipo_efectivo c =
     (case c of UpdateCliente _ _ \<Rightarrow> Some (hacer_opcional ''contrasena'' Cliente_tipo) | _ \<Rightarrow> cuerpo_declarado c)"

definition bien_tipada :: "api_call \<Rightarrow> bool" where
  "bien_tipada c = cuerpo_bien_tipado (tipo_efectivo c) (request_of c)"

text \<open>The calls each view makes, read off the \<open>apiService\<close> calls of its methods.\<close>

definition llamada_movimientos :: "api_call \<Rightarrow> bool" where
  "llamada_movimientos c =
     (case c of GetMovimientos \<Rightarrow> True | GetCuentas \<Rightarrow> True | CreateMovimiento _ \<Rightarrow> True
      | DeleteMovimiento _ \<Rightarrow> True | _ \<Rightarrow> False)"

definition llamada_clientes :: "api_call \<Rightarrow> bool" where
  "llamada_clientes c =
     (case c of GetClientes \<Rightarrow> True | CreateCliente _ \<Rightarrow> True | UpdateCliente _ _ \<Rightarrow> True
      | DeleteCliente _ \<Rightarrow> True | _ \<Rightarrow> False)"

definition llamada_cuentas :: "api_call \<Rightarrow> bool" where
  "llamada_cuentas c =
     (case c of GetCuentas \<Rightarrow> True | GetClientes \<Rightarrow> True | CreateCuenta _ \<Rightarrow> True
      | UpdateCuenta _ _ \<Rightarrow> True | DeleteCuenta _ \<Rightarrow> True | _ \<Rightarrow> False)"

text \<open>A report view with customer 1 and the range 2025-11-08 to 2025-12-08 (day numbers
  20400 and 20430) chosen, at noon UTC of 2025-12-09.\<close>

definition reportes_rango :: reportes_vm where
  "reportes_rango = reportes_init\<lparr>reportes_vm.clienteSeleccionado := Some 1, fechaInicio := Some 20400, fechaFin := Some 20430\<rparr>"

definition ahora :: instant where
  "ahora = 20431 * 86400000 + 43200000"

text \<open>A server failure whose JSON body has no \<open>message\<close>.\<close>

definition fallo500 :: http_error_response where
  "fallo500 = \<lparr>http_status = 500, http_message = ''Internal Server Error'', http_error = ObjectBody None\<rparr>"

subsection \<open>Lemmas\<close>

lemma bien_tipada_simps [simp]:
  "bien_tipada GetClientes" "bien_tipada GetCuentas" "bien_tipada GetMovimientos"
  "bien_tipada (GetReporte n ini fin)" "bien_tipada (DeleteCliente i)" "bien_tipada (DeleteCuenta i)"
  "bien_tipada (DeleteMovimiento i)"
  "bien_tipada (CreateMovimiento (movimiento_json m))" "bien_tipada (CreateCliente (cliente_json cl))"
  "bien_tipada (CreateCuenta (cuenta_json a))" "bien_tipada (UpdateCuenta i (cuenta_json a))"
  "bien_tipada (UpdateCliente i (cliente_actualizado cl))"
  by (simp_all add: bien_tipada_def tipo_efectivo_def cuerpo_declarado_def cuerpo_bien_tipado_def
      api_methods http_builders movimiento_json_conforme cliente_json_conforme cuenta_json_conforme
      cliente_actualizado_def Let_def conforme_delete conforme_hacer_opcional)

lemmas vistas_defs = ngOnInit_movimientos_def cargarMovimientos_def cargarCuentas_movimientos_def
  realizarMovimiento_def eliminarMovimiento_def ngOnInit_clientes_def cargarClientes_clientes_def
  guardarCliente_def validarCliente_def eliminarCliente_def ngOnInit_cuentas_def cargarCuentas_cuentas_def
  cargarClientes_cuentas_def guardarCuenta_def eliminarCuenta_def ngOnInit_reportes_def
  cargarClientes_reportes_def generarReporte_def exportarPDF_def exportarJSON_def

lemma manejar_movimientos_tipos: "list_all bien_tipada (subscribes (snd (manejar_movimientos e s)))"
  by (cases e) (simp_all add: manejar_movimientos_def vistas_defs Let_def)

lemma manejar_clientes_tipos: "list_all bien_tipada (subscribes (snd (manejar_clientes e s)))"
  by (cases e) (simp_all add: manejar_clientes_def vistas_defs Let_def split: prod.splits option.splits bool.splits)

lemma manejar_cuentas_tipos: "list_all bien_tipada (subscribes (snd (manejar_cuentas e s)))"
  by (cases e) (simp_all add: manejar_cuentas_def vistas_defs Let_def split: prod.splits option.splits bool.splits)

lemma manejar_reportes_tipos: "list_all bien_tipada (subscribes (snd (manejar_reportes e s)))"
  by (cases e) (simp_all add: manejar_reportes_def vistas_defs Let_def split: prod.splits option.splits)

lemmas callbacks_defs = segun_def cargarMovimientos_next_def cargarMovimientos_error_def
  cargarCuentas_movimientos_next_def cargarCuentas_movimientos_error_def realizarMovimiento_next_def
  realizarMovimiento_error_def eliminarMovimiento_next_def eliminarMovimiento_error_def
  cargarClientes_reportes_next_def cargarClientes_reportes_error_def generarReporte_next_def
  generarReporte_error_def cargarClientes_clientes_next_def cargarClientes_clientes_error_def
  guardarCliente_update_next_def guardarCliente_update_error_def guardarCliente_create_next_def
  guardarCliente_create_error_def eliminarCliente_next_def eliminarCliente_error_def
  cargarCuentas_cuentas_next_def cargarCuentas_cuentas_error_def cargarClientes_cuentas_next_def
  cargarClientes_cuentas_error_def guardarCuenta_update_next_def guardarCuenta_create_next_def
  guardarCuenta_error_def eliminarCuenta_next_def eliminarCuenta_error_def
  cargarMovimientos_def cargarClientes_clientes_def cargarCuentas_cuentas_def Let_def

lemma cargando_mostrarError [simp]: "cargando (fst (mostrarError p e s)) = cargando s"
  by (simp add: mostrarError_def split: sum.split)

lemma movimientos_callbacks_subs: "set (subscribes (snd (movimientos_callbacks c r v))) \<subseteq> {GetMovimientos}"
  by (simp add: movimientos_callbacks_def callbacks_defs split: api_call.split sum.split api_response.split)

lemma clientes_callbacks_subs: "set (subscribes (snd (clientes_callbacks c r v))) \<subseteq> {GetClientes}"
  by (simp add: clientes_callbacks_def callbacks_defs split: api_call.split sum.split api_response.split)

lemma cuentas_callbacks_subs: "set (subscribes (snd (cuentas_callbacks c r v))) \<subseteq> {GetCuentas}"
  by (simp add: cuentas_callbacks_def callbacks_defs split: api_call.split sum.split api_response.split)

lemma reportes_callbacks_subs: "subscribes (snd (reportes_callbacks c r v)) = []"
  by (simp add: reportes_callbacks_def callbacks_defs split: api_call.split sum.split api_response.split)

lemma manejar_movimientos_llamadas: "list_all llamada_movimientos (subscribes (snd (manejar_movimientos e s)))"
  by (cases e) (simp_all add: manejar_movimientos_def vistas_defs llamada_movimientos_def Let_def)

lemma manejar_clientes_llamadas: "list_all llamada_clientes (subscribes (snd (manejar_clientes e s)))"
  by (cases e) (simp_all add: manejar_clientes_def vistas_defs llamada_clientes_def Let_def
      split: prod.splits option.splits bool.splits)

lemma manejar_cuentas_llamadas: "list_all llamada_cuentas (subscribes (snd (manejar_cuentas e s)))"
  by (cases e) (simp_all add: manejar_cuentas_def vistas_defs llamada_cuentas_def Let_def
      split: prod.splits option.splits bool.splits)

lemma callbacks_error_sin_suscripciones:
  "subscribes (snd (movimientos_callbacks c (Inl e) v)) = []"
  "subscribes (snd (clientes_callbacks c (Inl e) w)) = []"
  "subscribes (snd (cuentas_callbacks c (Inl e) u)) = []"
  "subscribes (snd (reportes_callbacks c (Inl e) r)) = []"
  by (simp_all add: movimientos_callbacks_def clientes_callbacks_def cuentas_callbacks_def
      reportes_callbacks_def callbacks_defs split: api_call.split)

text \<open>In every view an error response is final at the session level (with
  \<open>responder_error_final\<close>): the failed subscription leaves and none is added.\<close>

lemmas respuestas_error_finales =
  responder_error_final [where cb = movimientos_callbacks, OF callbacks_error_sin_suscripciones(1)]
  responder_error_final [where cb = clientes_callbacks, OF callbacks_error_sin_suscripciones(2)]
  responder_error_final [where cb = cuentas_callbacks, OF callbacks_error_sin_suscripciones(3)]
  responder_error_final [where cb = reportes_callbacks, OF callbacks_error_sin_suscripciones(4)]

lemma movimientos_recarga:
  "llamada_movimientos c \<Longrightarrow> is_mutation c \<Longrightarrow>
     GetMovimientos \<in> set (subscribes (snd (movimientos_callbacks c (Inr x) v)))"
  by (cases c) (simp_all add: llamada_movimientos_def movimientos_callbacks_def callbacks_defs)

lemma clientes_recarga:
  "llamada_clientes c \<Longrightarrow> is_mutation c \<Longrightarrow>
     GetClientes \<in> set (subscribes (snd (clientes_callbacks c (Inr x) v)))"
  by (cases c) (simp_all add: llamada_clientes_def clientes_callbacks_def callbacks_defs)

lemma cuentas_recarga:
  "llamada_cuentas c \<Longrightarrow> is_mutation c \<Longrightarrow>
     GetCuentas \<in> set (subscribes (snd (cuentas_callbacks c (Inr x) v)))"
  by (cases c) (simp_all add: llamada_cuentas_def cuentas_callbacks_def callbacks_defs)

subsection \<open>Properties\<close>

theorem spinner_sii_suscripciones_witness:
  "spinner_visible (svc (red (ejecutar (generarReporte ahora 0) (sesion_init reportes_rango)))) \<and>
   loadingCount (svc (red (ejecutar (generarReporte ahora 0) (sesion_init reportes_rango)))) = 1"
proof -
  have r: "sesion_alcanzable reportes_callbacks (ejecutar (generarReporte ahora 0) (sesion_init reportes_rango))"
    by (rule sesion_alcanzable.paso [OF sesion_alcanzable.init sesion_paso.usuario])
  have "en_curso (ejecutar (generarReporte ahora 0) (sesion_init reportes_rango)) =
          [(0, GetReporte 1 (local_instant 20400 0 0) (local_instant 20430 86399 0))]"
    by (simp add: sesion_init_def ejecutar_def lanzar_def suscribir_def generarReporte_def
        reportes_rango_def reportes_init_def ahora_def date_only_instant_def inicio_dia_local_def
        MS_PER_DAY_def Let_def)
  with spinner_sii_suscripciones [OF r] show ?thesis by simp
qed

text \<open>C15. A failed call is final: for every call of every view and every error, the error
  callback subscribes to nothing (no retry, no reload) and changes the view only in its message
  (and, in the report view, the \<open>cargando\<close> flag it resets).\<close>

theorem errores_terminales:
  "subscribes (snd (movimientos_callbacks c (Inl e) v)) = [] \<and>
   solo_mensaje v (fst (movimientos_callbacks c (Inl e) v)) \<and>
   subscribes (snd (clientes_callbacks c (Inl e) w)) = [] \<and>
   solo_mensaje w (fst (clientes_callbacks c (Inl e) w)) \<and>
   subscribes (snd (cuentas_callbacks c (Inl e) u)) = [] \<and>
   solo_mensaje u (fst (cuentas_callbacks c (Inl e) u)) \<and>
   subscribes (snd (reportes_callbacks c (Inl e) r)) = [] \<and>
   solo_mensaje (r\<lparr>cargando := cargando (fst (reportes_callbacks c (Inl e) r))\<rparr>)
     (fst (reportes_callbacks c (Inl e) r))"
  by (cases c) (simp_all add: movimientos_callbacks_def clientes_callbacks_def cuentas_callbacks_def
      reportes_callbacks_def callbacks_defs)

text \<open>C4. In every execution of every view, an error response is final: the failed
  subscription leaves and no request takes its place (no retry, no reload), the loading
  counter drops by exactly one (\<open>finalize\<close> runs on the error path, after the error
  interceptor), and the spinner stays on exactly while another subscription awaits its
  response.\<close>

theorem respuesta_error_final:
  "(sesion_alcanzable movimientos_callbacks sm \<and> responder movimientos_callbacks km (Inl hm) sm = Some tm
      \<longrightarrow> error_final sm km tm) \<and>
   (sesion_alcanzable clientes_callbacks sc \<and> responder clientes_callbacks kc (Inl hc) sc = Some tc
      \<longrightarrow> error_final sc kc tc) \<and>
   (sesion_alcanzable cuentas_callbacks su \<and> responder cuentas_callbacks ku (Inl hu) su = Some tu
      \<longrightarrow> error_final su ku tu) \<and>
   (sesion_alcanzable reportes_callbacks sr \<and> responder reportes_callbacks kr (Inl hr) sr = Some tr
      \<longrightarrow> error_final sr kr tr)"
proof -
  have m: "subscribes (snd (movimientos_callbacks c (Inl e) v)) = []" for c e v
    by (simp add: movimientos_callbacks_def callbacks_defs split: api_call.split)
  have c: "subscribes (snd (clientes_callbacks c (Inl e) w)) = []" for c e w
    by (simp add: clientes_callbacks_def callbacks_defs split: api_call.split)
  have u: "subscribes (snd (cuentas_callbacks c (Inl e) u)) = []" for c e u
    by (simp add: cuentas_callbacks_def callbacks_defs split: api_call.split)
  have r: "subscribes (snd (reportes_callbacks c (Inl e) r)) = []" for c e r
    by (simp add: reportes_callbacks_def callbacks_defs split: api_call.split)
  show ?thesis
    using responder_error_sesion [of movimientos_callbacks, OF m]
      responder_error_sesion [of clientes_callbacks, OF c]
      responder_error_sesion [of cuentas_callbacks, OF u]
      responder_error_sesion [of reportes_callbacks, OF r]
    by blast
qed

theorem respuesta_error_final_witness:
  "(\<exists>t. responder movimientos_callbacks 0 (Inl fallo500)
          (ejecutar cargarMovimientos (sesion_init movimientos_init)) = Some t \<and>
        error_final (ejecutar cargarMovimientos (sesion_init movimientos_init)) 0 t) \<and>
   (\<exists>t. responder clientes_callbacks 0 (Inl fallo500)
          (ejecutar cargarClientes_clientes (sesion_init clientes_init)) = Some t \<and>
        error_final (ejecutar cargarClientes_clientes (sesion_init clientes_init)) 0 t) \<and>
   (\<exists>t. responder cuentas_callbacks 0 (Inl fallo500)
          (ejecutar cargarCuentas_cuentas (sesion_init cuentas_init)) = Some t \<and>
        error_final (ejecutar cargarCuentas_cuentas (sesion_init cuentas_init)) 0 t) \<and>
   (\<exists>t. responder reportes_callbacks 0 (Inl fallo500)
          (ejecutar cargarClientes_reportes (sesion_init reportes_init)) = Some t \<and>
        error_final (ejecutar cargarClientes_reportes (sesion_init reportes_init)) 0 t)"
proof -
  have a: "sesion_alcanzable cb (ejecutar h (sesion_init v))" for cb h and v :: "'v"
    by (rule sesion_alcanzable.paso [OF sesion_alcanzable.init sesion_paso.usuario])
  obtain tm where tm: "responder movimientos_callbacks 0 (Inl fallo500)
      (ejecutar cargarMovimientos (sesion_init movimientos_init)) = Some tm"
    using responder_ejecutar_inicio [of cargarMovimientos movimientos_init GetMovimientos movimientos_callbacks "Inl fallo500"]
    by (auto simp: cargarMovimientos_def)
  obtain tc where tc: "responder clientes_callbacks 0 (Inl fallo500)
      (ejecutar cargarClientes_clientes (sesion_init clientes_init)) = Some tc"
    using responder_ejecutar_inicio [of cargarClientes_clientes clientes_init GetClientes clientes_callbacks "Inl fallo500"]
    by (auto simp: cargarClientes_clientes_def)
  obtain tu where tu: "responder cuentas_callbacks 0 (Inl fallo500)
      (ejecutar cargarCuentas_cuentas (sesion_init cuentas_init)) = Some tu"
    using responder_ejecutar_inicio [of cargarCuentas_cuentas cuentas_init GetCuentas cuentas_callbacks "Inl fallo500"]
    by (auto simp: cargarCuentas_cuentas_def)
  obtain tr where tr: "responder reportes_callbacks 0 (Inl fallo500)
      (ejecutar cargarClientes_reportes (sesion_init reportes_init)) = Some tr"
    using responder_ejecutar_inicio [of cargarClientes_reportes reportes_init GetClientes reportes_callbacks "Inl fallo500"]
    by (auto simp: cargarClientes_reportes_def)
  show ?thesis
    using respuesta_error_final [of "ejecutar cargarMovimientos (sesion_init movimientos_init)"
        0 fallo500 tm "ejecutar cargarClientes_clientes (sesion_init clientes_init)" 0 fallo500 tc
        "ejecutar cargarCuentas_cuentas (sesion_init cuentas_init)" 0 fallo500 tu
        "ejecutar cargarClientes_reportes (sesion_init reportes_init)" 0 fallo500 tr]
      a [of movimientos_callbacks cargarMovimientos movimientos_init]
      a [of clientes_callbacks cargarClientes_clientes clientes_init]
      a [of cuentas_callbacks cargarCuentas_cuentas cuentas_init]
      a [of reportes_callbacks cargarClientes_reportes reportes_init] tm tc tu tr
    by blast
qed

text \<open>C39. A report answered late overwrites a newer one: the view neither cancels nor
  tags its report requests. The user generates the report for 2025-11-08..2025-12-08, moves
  the start to 2025-11-28 and generates again; the backend answers the second request first
  and the first one last. In between, the view's own \<open>cargando\<close> flag is already off
  while a report request is still in flight; at the end the view shows, and exports to PDF
  under the period 2025-11-28..2025-12-08, the rows of the first request.\<close>

theorem reporte_respuesta_obsoleta:
  "let s2 = ejecutar (generarReporte ahora 0)
              (ejecutar (pure_step (\<lambda>v. v\<lparr>fechaInicio := Some 20420\<rparr>))
                (ejecutar (generarReporte ahora 0) (sesion_init reportes_rango)))
   in \<exists>t1 t2.
        responder reportes_callbacks 1 (Inr (RReporte [fila (-40)])) s2 = Some t1 \<and>
        \<not> cargando (vista t1) \<and> en_curso t1 \<noteq> [] \<and>
        responder reportes_callbacks 0 (Inr (RReporte [fila 100])) t1 = Some t2 \<and>
        en_curso t2 = [] \<and> reporteData (vista t2) = [fila 100] \<and>
        (fechaInicio (vista t2), fechaFin (vista t2)) = (Some 20420, Some 20430) \<and>
        (\<exists>doc. DownloadPdf doc \<in> set (snd (exportarPDF (vista t2))) \<and>
               pdf_periodo doc = (Some 20420, Some 20430) \<and> pdf_filas doc = [fila 100])"
  by (simp add: sesion_init_def ejecutar_def lanzar_def suscribir_def responder_def generarReporte_def
      reportes_rango_def reportes_init_def ahora_def date_only_instant_def inicio_dia_local_def
      MS_PER_DAY_def Let_def generarReporte_next_def exportarPDF_def errorInterceptor_def reportes_callbacks_def segun_def)

text \<open>C27. After every successful save or delete of the customers, accounts and movements
  views, whatever the interleaving that led there, the view's list reload is in flight and
  the spinner stays on: the reload is subscribed in the callback, before the
  \<open>finalize\<close> of the save hides its own request. Only calls the view itself makes can be
  in flight, so every mutation in flight is one whose callback reloads.\<close>

theorem recarga_tras_mutacion:
  "(vista_alcanzable manejar_movimientos movimientos_callbacks movimientos_init sm \<and>
    km < length (en_curso sm) \<and> is_mutation (snd (en_curso sm ! km)) \<longrightarrow>
      (\<exists>t. responder movimientos_callbacks km (Inr xm) sm = Some t \<and>
           GetMovimientos \<in> snd ` set (en_curso t) \<and> spinner_visible (svc (red t)))) \<and>
   (vista_alcanzable manejar_clientes clientes_callbacks clientes_init sl \<and>
    kl < length (en_curso sl) \<and> is_mutation (snd (en_curso sl ! kl)) \<longrightarrow>
      (\<exists>t. responder clientes_callbacks kl (Inr xl) sl = Some t \<and>
           GetClientes \<in> snd ` set (en_curso t) \<and> spinner_visible (svc (red t)))) \<and>
   (vista_alcanzable manejar_cuentas cuentas_callbacks cuentas_init sc \<and>
    kc < length (en_curso sc) \<and> is_mutation (snd (en_curso sc ! kc)) \<longrightarrow>
      (\<exists>t. responder cuentas_callbacks kc (Inr xc) sc = Some t \<and>
           GetCuentas \<in> snd ` set (en_curso t) \<and> spinner_visible (svc (red t))))"
proof (intro conjI impI; elim conjE)
  assume r: "vista_alcanzable manejar_movimientos movimientos_callbacks movimientos_init sm"
    and k: "km < length (en_curso sm)" and m: "is_mutation (snd (en_curso sm ! km))"
  have "list_all llamada_movimientos (map snd (en_curso sm))"
    using manejar_movimientos_llamadas list_all_unica [OF movimientos_callbacks_subs] r
    by (rule vista_alcanzable_llamadas) (simp add: llamada_movimientos_def)
  with k have "llamada_movimientos (snd (en_curso sm ! km))" by (simp add: list_all_length)
  with m show "\<exists>t. responder movimientos_callbacks km (Inr xm) sm = Some t \<and>
           GetMovimientos \<in> snd ` set (en_curso t) \<and> spinner_visible (svc (red t))"
    by (intro responder_recarga [OF vista_alcanzable_sesion [OF r] k])
      (simp add: movimientos_recarga errorInterceptor_def)
next
  assume r: "vista_alcanzable manejar_clientes clientes_callbacks clientes_init sl"
    and k: "kl < length (en_curso sl)" and m: "is_mutation (snd (en_curso sl ! kl))"
  have "list_all llamada_clientes (map snd (en_curso sl))"
    using manejar_clientes_llamadas list_all_unica [OF clientes_callbacks_subs] r
    by (rule vista_alcanzable_llamadas) (simp add: llamada_clientes_def)
  with k have "llamada_clientes (snd (en_curso sl ! kl))" by (simp add: list_all_length)
  with m show "\<exists>t. responder clientes_callbacks kl (Inr xl) sl = Some t \<and>
           GetClientes \<in> snd ` set (en_curso t) \<and> spinner_visible (svc (red t))"
    by (intro responder_recarga [OF vista_alcanzable_sesion [OF r] k])
      (simp add: clientes_recarga errorInterceptor_def)
next
  assume r: "vista_alcanzable manejar_cuentas cuentas_callbacks cuentas_init sc"
    and k: "kc < length (en_curso sc)" and m: "is_mutation (snd (en_curso sc ! kc))"
  have "list_all llamada_cuentas (map snd (en_curso sc))"
    using manejar_cuentas_llamadas list_all_unica [OF cuentas_callbacks_subs] r
    by (rule vista_alcanzable_llamadas) (simp add: llamada_cuentas_def)
  with k have "llamada_cuentas (snd (en_curso sc ! kc))" by (simp add: list_all_length)
  with m show "\<exists>t. responder cuentas_callbacks kc (Inr xc) sc = Some t \<and>
           GetCuentas \<in> snd ` set (en_curso t) \<and> spinner_visible (svc (red t))"
    by (intro responder_recarga [OF vista_alcanzable_sesion [OF r] k])
      (simp add: cuentas_recarga errorInterceptor_def)
qed

theorem recarga_tras_mutacion_witness:
  "(\<exists>t. responder movimientos_callbacks 0 (Inr RVoid)
          (ejecutar (manejar_movimientos (MovEliminar 3 True)) (sesion_init movimientos_init)) = Some t \<and>
        GetMovimientos \<in> snd ` set (en_curso t) \<and> spinner_visible (svc (red t))) \<and>
   (\<exists>t. responder clientes_callbacks 0 (Inr RVoid)
          (ejecutar (manejar_clientes (ClEliminar 1 True)) (sesion_init clientes_init)) = Some t \<and>
        GetClientes \<in> snd ` set (en_curso t) \<and> spinner_visible (svc (red t))) \<and>
   (\<exists>t. responder cuentas_callbacks 0 (Inr RVoid)
          (ejecutar (manejar_cuentas (CuEliminar 7 True)) (sesion_init cuentas_init)) = Some t \<and>
        GetCuentas \<in> snd ` set (en_curso t) \<and> spinner_visible (svc (red t)))"
proof -
  have r1: "vista_alcanzable manejar_movimientos movimientos_callbacks movimientos_init
              (ejecutar (manejar_movimientos (MovEliminar 3 True)) (sesion_init movimientos_init))"
    by (rule vista_alcanzable.paso [OF vista_alcanzable.init vista_paso.evento])
  have r2: "vista_alcanzable manejar_clientes clientes_callbacks clientes_init
              (ejecutar (manejar_clientes (ClEliminar 1 True)) (sesion_init clientes_init))"
    by (rule vista_alcanzable.paso [OF vista_alcanzable.init vista_paso.evento])
  have r3: "vista_alcanzable manejar_cuentas cuentas_callbacks cuentas_init
              (ejecutar (manejar_cuentas (CuEliminar 7 True)) (sesion_init cuentas_init))"
    by (rule vista_alcanzable.paso [OF vista_alcanzable.init vista_paso.evento])
  have e: "en_curso (ejecutar (manejar_movimientos (MovEliminar 3 True)) (sesion_init movimientos_init)) = [(0, DeleteMovimiento 3)]"
    "en_curso (ejecutar (manejar_clientes (ClEliminar 1 True)) (sesion_init clientes_init)) = [(0, DeleteCliente 1)]"
    "en_curso (ejecutar (manejar_cuentas (CuEliminar 7 True)) (sesion_init cuentas_init)) = [(0, DeleteCuenta 7)]"
    by (simp_all add: manejar_movimientos_def manejar_clientes_def manejar_cuentas_def vistas_defs
        ejecutar_def lanzar_def suscribir_def sesion_init_def)
  from recarga_tras_mutacion [where km = 0 and xm = RVoid and kl = 0 and xl = RVoid and kc = 0 and xc = RVoid and
      sm = "ejecutar (manejar_movimientos (MovEliminar 3 True)) (sesion_init movimientos_init)" and
      sl = "ejecutar (manejar_clientes (ClEliminar 1 True)) (sesion_init clientes_init)" and
      sc = "ejecutar (manejar_cuentas (CuEliminar 7 True)) (sesion_init cuentas_init)"] r1 r2 r3 e
  show ?thesis by simp
qed

text \<open>C36. Every request a view has in flight carries a body of the type its method
  declares (\<open>Cliente\<close>, \<open>Cuenta\<close>, \<open>Movimiento\<close> of \<open>models.ts\<close>), or none when
  the method takes none, in every execution of each of the four views driven by its own
  events and any responses. The one exception is the type-cast of the customer update: its
  body may lack the property \<open>contrasena\<close> that the interface requires, as it does after
  selecting a loaded customer and saving.\<close>

theorem cuerpos_bien_tipados:
  assumes "vista_alcanzable manejar_movimientos movimientos_callbacks movimientos_init s1"
    and "vista_alcanzable manejar_clientes clientes_callbacks clientes_init s2"
    and "vista_alcanzable manejar_cuentas cuentas_callbacks cuentas_init s3"
    and "vista_alcanzable manejar_reportes reportes_callbacks reportes_init s4"
  shows "list_all bien_tipada (map snd (en_curso s1)) \<and> list_all bien_tipada (map snd (en_curso s2)) \<and>
         list_all bien_tipada (map snd (en_curso s3)) \<and> list_all bien_tipada (map snd (en_curso s4))"
proof (intro conjI)
  show "list_all bien_tipada (map snd (en_curso s1))"
    using manejar_movimientos_tipos list_all_unica [OF movimientos_callbacks_subs] assms(1)
    by (rule vista_alcanzable_llamadas) simp
  show "list_all bien_tipada (map snd (en_curso s2))"
    using manejar_clientes_tipos list_all_unica [OF clientes_callbacks_subs] assms(2)
    by (rule vista_alcanzable_llamadas) simp
  show "list_all bien_tipada (map snd (en_curso s3))"
    using manejar_cuentas_tipos list_all_unica [OF cuentas_callbacks_subs] assms(3)
    by (rule vista_alcanzable_llamadas) simp
  show "list_all bien_tipada (map snd (en_curso s4))"
    by (rule vista_alcanzable_llamadas [OF manejar_reportes_tipos _ assms(4)])
      (simp add: reportes_callbacks_subs)
qed

theorem cuerpos_bien_tipados_witness:
  "map snd (en_curso (ejecutar (manejar_clientes ClGuardar) (ejecutar (manejar_clientes (ClSeleccionar 0))
      (the (responder clientes_callbacks 0 (Inr (RClientes [juan]))
        (ejecutar (manejar_clientes ClInicio) (sesion_init clientes_init))))))) =
     [UpdateCliente 1 (cliente_actualizado (juan\<lparr>contrasena := []\<rparr>))] \<and>
   bien_tipada (UpdateCliente 1 (cliente_actualizado (juan\<lparr>contrasena := []\<rparr>))) \<and>
   \<not> conforme Cliente_tipo (cliente_actualizado (juan\<lparr>contrasena := []\<rparr>))"
proof -
  define s1 where "s1 = ejecutar (manejar_clientes ClInicio) (sesion_init clientes_init)"
  define s2 where "s2 = the (responder clientes_callbacks 0 (Inr (RClientes [juan])) s1)"
  define s3 where "s3 = ejecutar (manejar_clientes ClGuardar) (ejecutar (manejar_clientes (ClSeleccionar 0)) s2)"
  have r1: "vista_alcanzable manejar_clientes clientes_callbacks clientes_init s1"
    unfolding s1_def by (rule vista_alcanzable.paso [OF vista_alcanzable.init vista_paso.evento])
  have "responder clientes_callbacks 0 (Inr (RClientes [juan])) s1 = Some s2"
    by (simp add: s1_def s2_def responder_def manejar_clientes_def vistas_defs sesion_init_def
        ejecutar_def lanzar_def suscribir_def clientes_callbacks_def callbacks_defs errorInterceptor_def)
  then have r2: "vista_alcanzable manejar_clientes clientes_callbacks clientes_init s2"
    by (rule vista_alcanzable.paso [OF r1 vista_paso.respuesta])
  have r3: "vista_alcanzable manejar_clientes clientes_callbacks clientes_init s3"
    unfolding s3_def
    by (rule vista_alcanzable.paso [OF vista_alcanzable.paso [OF r2 vista_paso.evento] vista_paso.evento])
  have e: "map snd (en_curso s3) = [UpdateCliente 1 (cliente_actualizado (juan\<lparr>contrasena := []\<rparr>))]"
    by (simp add: s1_def s2_def s3_def responder_def manejar_clientes_def vistas_defs sesion_init_def
        ejecutar_def lanzar_def suscribir_def clientes_callbacks_def callbacks_defs errorInterceptor_def
        clientes_init_def clientesFiltrados_def seleccionarCliente_def id_seleccionado_def juan_def)
  have "\<not> conforme Cliente_tipo (cliente_actualizado (juan\<lparr>contrasena := []\<rparr>))"
    by (simp add: conforme_def Cliente_tipo_def cliente_actualizado_def cliente_json_def juan_def opt_field_def json_delete_def)
  with cuerpos_bien_tipados [OF vista_alcanzable.init r2 vista_alcanzable.init vista_alcanzable.init] e
  show ?thesis
    by (simp add: s1_def s2_def s3_def)
qed

end
