(* ===== verification/Tests.thy ===== *)
theory Tests
  imports Dispatch
begin

text \<open>
  The repository's unit tests run on the model. The component tests
  (\<open>clientes.component.spec.ts\<close>, \<open>cuentas.component.spec.ts\<close>) replace
  \<open>ApiService\<close> by a Jest mock whose methods return \<open>of(x)\<close> or
  \<open>throwError(() => new Error(m))\<close>, and \<open>setup-jest.ts\<close> replaces \<open>confirm\<close> by a
  function returning \<open>true\<close>. Such an observable calls its subscriber synchronously, so a
  handler's subscriptions are answered at once and in order, the callbacks' own
  subscriptions first (\<open>sincrono\<close>). The HTTP interceptors are not on this path: the
  error a callback receives is the thrown \<open>Error\<close> itself (\<open>jsError\<close>). The
  handlers of the model start their subscriptions after their other statements, where the
  code's synchronous mock runs them in between; in every handler the statements after a
  \<open>subscribe\<close> and its callback write disjoint fields, so the order does not change the
  state. The \<open>ApiService\<close> tests check the requests of \<open>request_of\<close>.
\<close>

text \<open>The value a mocked method returns: \<open>of(x)\<close> or \<open>throwError(() => new Error(m))\<close>.\<close>

datatype mock_resp = Of api_response | ThrowError string

text \<open>The name of the \<open>ApiService\<close> method a call goes through: a Jest mock answers
  by method, whatever the arguments.\<close>

definition metodo :: "api_call \<Rightarrow> string" where
  "metodo c =
     (case c of
        GetClientes \<Rightarrow> ''getClientes'' | GetCliente _ \<Rightarrow> ''getCliente''
      | CreateCliente _ \<Rightarrow> ''createCliente'' | UpdateCliente _ _ \<Rightarrow> ''updateCliente''
      | DeleteCliente _ \<Rightarrow> ''deleteCliente'' | GetCuentas \<Rightarrow> ''getCuentas''
      | GetCuenta _ \<Rightarrow> ''getCuenta'' | GetCuentasByCliente _ \<Rightarrow> ''getCuentasByCliente''
      | CreateCuenta _ \<Rightarrow> ''createCuenta'' | UpdateCuenta _ _ \<Rightarrow> ''updateCuenta''
      | DeleteCuenta _ \<Rightarrow> ''deleteCuenta'' | GetMovimientos \<Rightarrow> ''getMovimientos''
      | GetMovimiento _ \<Rightarrow> ''getMovimiento'' | GetMovimientosByCuenta _ \<Rightarrow> ''getMovimientosByCuenta''
      | CreateMovimiento _ \<Rightarrow> ''createMovimiento'' | UpdateMovimiento _ _ \<Rightarrow> ''updateMovimiento''
      | DeleteMovimiento _ \<Rightarrow> ''deleteMovimiento'' | GetReporte _ _ _ \<Rightarrow> ''getReporte'')"

text \<open>A mock: the value each mocked method returns (\<open>mockReturnValue\<close>); \<open>None\<close>
  for a method given no value, whose \<open>jest.fn()\<close> returns \<open>undefined\<close>, so that
  subscribing to it throws.\<close>

type_synonym api_mock = "api_call \<Rightarrow> mock_resp option"

definition mock_de :: "(string \<times> mock_resp) list \<Rightarrow> api_mock" where
  "mock_de xs c = map_of xs (metodo c)"

text \<open>\<open>new Error(m)\<close> seen by an error callback: \<open>error.message\<close> is \<open>m\<close>,
  \<open>error.error\<close> is undefined, so \<open>error.error.message\<close> throws; no callback reads a
  status.\<close>

definition jsError :: "string \<Rightarrow> normalized_error" where
  "jsError m = \<lparr>ne_status = 0, ne_message = m, ne_error = NullBody\<rparr>"

definition respuesta_mock :: "mock_resp \<Rightarrow> normalized_error + api_response" where
  "respuesta_mock r = (case r of Of x \<Rightarrow> Inr x | ThrowError m \<Rightarrow> Inl (jsError m))"

text \<open>\<open>global.confirm = jest.fn(() => true)\<close>.\<close>

definition confirm_mock :: bool where
  "confirm_mock = True"

text \<open>Synchronous delivery: each subscription in order calls its mocked method (logged as
  in \<open>jest.fn\<close>), its callback runs at once, and the subscriptions the callback starts are
  answered before the next one. The fuel bounds the depth of nested subscriptions
  (\<open>None\<close> when it runs out); two levels suffice for every view
  (\<open>sincrono_dos_niveles\<close>).\<close>

fun sincrono :: "nat \<Rightarrow> api_mock \<Rightarrow> 'v callbacks \<Rightarrow> api_call list \<Rightarrow> 'v \<Rightarrow> ('v \<times> api_call list) option" where
  "sincrono n m cb [] v = Some (v, [])"
| "sincrono 0 m cb (c # cs) v = None"
| "sincrono (Suc n) m cb (c # cs) v =
     (case m c of
        None \<Rightarrow> None
      | Some r \<Rightarrow>
          (case cb c (respuesta_mock r) v of (v1, es) \<Rightarrow>
            (case sincrono n m cb (subscribes es) v1 of
               None \<Rightarrow> None
             | Some (v2, l2) \<Rightarrow>
                 (case sincrono (Suc n) m cb cs v2 of
                    None \<Rightarrow> None
                  | Some (v3, l3) \<Rightarrow> Some (v3, c # l2 @ l3)))))"

text \<open>A test step: the method under test on the component's state, its subscriptions
  answered by the mock.\<close>

definition correr :: "api_mock \<Rightarrow> 'v callbacks \<Rightarrow> ('v \<Rightarrow> 'v out) \<Rightarrow> 'v \<Rightarrow> ('v \<times> api_call list) option" where
  "correr m cb h v = (case h v of (v1, es) \<Rightarrow> sincrono 2 m cb (subscribes es) v1)"

text \<open>The test completes and its expectations hold of the final state and the call log.\<close>

definition espera :: "('v \<times> api_call list) option \<Rightarrow> ('v \<Rightarrow> api_call list \<Rightarrow> bool) \<Rightarrow> bool" where
  "espera r p = (case r of None \<Rightarrow> False | Some (v, l) \<Rightarrow> p v l)"

subsection \<open>Fixtures of the tests\<close>

definition juan_perez :: string where
  "juan_perez = ''Juan P'' @ [CHR 0xC3, CHR 0xA9] @ ''rez''"

text \<open>\<open>mockClientes\<close> of \<open>clientes.component.spec.ts\<close>.\<close>

definition mockClientes :: "cliente list" where
  "mockClientes =
     [\<lparr>clienteId = Some 1, nombre = juan_perez, genero = ''Masculino'', edad = 30,
       identificacion = ''1234567890'', direccion = ''Calle 123'', telefono = ''0987654321'',
       contrasena = ''pass123'', estado = True\<rparr>,
      \<lparr>clienteId = Some 2, nombre = ''Mar'' @ [CHR 0xC3, CHR 0xAD] @ ''a L'' @ [CHR 0xC3, CHR 0xB3] @ ''pez'',
       genero = ''Femenino'', edad = 25, identificacion = ''0987654321'', direccion = ''Avenida 456'',
       telefono = ''0123456789'', contrasena = ''pass456'', estado = True\<rparr>]"

definition newCliente :: cliente where
  "newCliente =
     \<lparr>clienteId = None, nombre = ''Carlos G'' @ [CHR 0xC3, CHR 0xB3] @ ''mez'', genero = ''Masculino'',
      edad = 35, identificacion = ''1111111111'', direccion = ''Plaza 789'', telefono = ''0999999999'',
      contrasena = ''pass789'', estado = True\<rparr>"

definition updatedCliente :: cliente where
  "updatedCliente = (hd mockClientes)\<lparr>nombre := ''Juan Carlos P'' @ [CHR 0xC3, CHR 0xA9] @ ''rez''\<rparr>"

text \<open>\<open>mockClientes\<close> of \<open>cuentas.component.spec.ts\<close> is a partial object
  (\<open>as any\<close>) with \<open>clienteId\<close>, \<open>nombre\<close> and \<open>estado\<close>; the other fields, which
  the accounts view never reads, are those of an empty form.\<close>

definition clienteParcial :: cliente where
  "clienteParcial = inicializarCliente\<lparr>clienteId := Some 1, nombre := juan_perez, estado := True\<rparr>"

definition mockCuentas :: "cuenta list" where
  "mockCuentas =
     [\<lparr>cuenta_id = Some 1, numeroCuenta = ''12345678'', tipoCuenta = ''Ahorro'', saldoInicial = 1000,
       cuenta_estado = True, cuenta_clienteId = 1, clienteNombre = Some juan_perez\<rparr>,
      \<lparr>cuenta_id = Some 2, numeroCuenta = ''87654321'', tipoCuenta = ''Corriente'', saldoInicial = 2000,
       cuenta_estado = True, cuenta_clienteId = 1, clienteNombre = Some juan_perez\<rparr>]"

definition newCuenta :: cuenta where
  "newCuenta =
     \<lparr>cuenta_id = None, numeroCuenta = ''11111111'', tipoCuenta = ''Ahorro'', saldoInicial = 500,
      cuenta_estado = True, cuenta_clienteId = 1, clienteNombre = None\<rparr>"

definition cuentaIncompleta :: cuenta where
  "cuentaIncompleta =
     \<lparr>cuenta_id = None, numeroCuenta = [], tipoCuenta = [], saldoInicial = 0,
      cuenta_estado = True, cuenta_clienteId = 0, clienteNombre = None\<rparr>"

definition updatedCuenta :: cuenta where
  "updatedCuenta = (hd mockCuentas)\<lparr>saldoInicial := 1500\<rparr>"

subsection \<open>Lemmas\<close>

lemma sincrono_hoja:
  assumes "\<And>r v. subscribes (snd (cb L r v)) = []" and "m L \<noteq> None" and "set cs \<subseteq> {L}"
  shows "sincrono (Suc n) m cb cs v \<noteq> None"
  using assms(3)
proof (induction cs arbitrary: v)
  case Nil
  then show ?case by simp
next
  case (Cons c cs)
  then have c: "c = L" and cs: "set cs \<subseteq> {L}" by auto
  obtain r where r: "m L = Some r" using assms(2) by auto
  obtain v3 l3 where "sincrono (Suc n) m cb cs (fst (cb L (respuesta_mock r) v)) = Some (v3, l3)"
    using Cons.IH [OF cs] by fastforce
  then show ?case using c r assms(1) by (simp add: prod.case_eq_if)
qed

text \<open>Two levels of nesting suffice for a view whose callbacks subscribe only to one list
  load, whose callbacks subscribe to nothing.\<close>

lemma sincrono_dos_niveles:
  assumes "\<And>c r v. set (subscribes (snd (cb c r v))) \<subseteq> {L}"
    and "\<And>r v. subscribes (snd (cb L r v)) = []" and "m L \<noteq> None"
    and "list_all (\<lambda>c. m c \<noteq> None) cs"
  shows "sincrono (Suc (Suc n)) m cb cs v \<noteq> None"
  using assms(4)
proof (induction cs arbitrary: v)
  case Nil
  then show ?case by simp
next
  case (Cons c cs)
  obtain r where r: "m c = Some r" using Cons.prems by auto
  have "sincrono (Suc n) m cb (subscribes (snd (cb c (respuesta_mock r) v)))
      (fst (cb c (respuesta_mock r) v)) \<noteq> None"
    by (rule sincrono_hoja [where L = L]) (use assms(1-3) in auto)
  then obtain v2 l2 where v2: "sincrono (Suc n) m cb (subscribes (snd (cb c (respuesta_mock r) v)))
      (fst (cb c (respuesta_mock r) v)) = Some (v2, l2)" by fastforce
  obtain v3 l3 where "sincrono (Suc (Suc n)) m cb cs v2 = Some (v3, l3)"
    using Cons.IH Cons.prems by fastforce
  with r v2 show ?case by (simp add: prod.case_eq_if)
qed

lemma clientes_callbacks_carga: "subscribes (snd (clientes_callbacks GetClientes r v)) = []"
  by (simp add: clientes_callbacks_def callbacks_defs split: sum.split api_response.split)

lemma cuentas_callbacks_carga: "subscribes (snd (cuentas_callbacks GetCuentas r v)) = []"
  by (simp add: cuentas_callbacks_def callbacks_defs split: sum.split api_response.split)

text \<open>The harness never runs out of fuel on the customers and accounts views, whatever the
  method under test, as long as the mock answers every call it makes.\<close>

lemma correr_clientes_total:
  assumes "m GetClientes \<noteq> None" and "list_all (\<lambda>c. m c \<noteq> None) (subscribes (snd (h v)))"
  shows "correr m clientes_callbacks h v \<noteq> None"
  unfolding correr_def prod.case_eq_if numeral_2_eq_2
  by (rule sincrono_dos_niveles [where L = GetClientes])
     (use assms in \<open>simp_all add: clientes_callbacks_subs clientes_callbacks_carga\<close>)

lemma correr_cuentas_total:
  assumes "m GetCuentas \<noteq> None" and "list_all (\<lambda>c. m c \<noteq> None) (subscribes (snd (h v)))"
  shows "correr m cuentas_callbacks h v \<noteq> None"
  unfolding correr_def prod.case_eq_if numeral_2_eq_2
  by (rule sincrono_dos_niveles [where L = GetCuentas])
     (use assms in \<open>simp_all add: cuentas_callbacks_subs cuentas_callbacks_carga\<close>)

lemmas pruebas_defs = espera_def correr_def mock_de_def metodo_def respuesta_mock_def numeral_2_eq_2

text \<open>\<open>api.service.spec.ts\<close>: the verb and URL of each request the tests expect, the body
  of the create, and the \<open>clienteId\<close> parameter of the report (instants of
  2026-01-01T00:00:00.000Z and 2026-01-07T23:59:59.999Z).\<close>

lemma pruebas_api:
  "req_method (request_of GetClientes) = GET \<and> req_url (request_of GetClientes) = ''/api/clientes'' \<and>
   req_method (request_of (CreateCliente (cliente_json newCliente))) = POST \<and>
   req_url (request_of (CreateCliente (cliente_json newCliente))) = ''/api/clientes'' \<and>
   req_body (request_of (CreateCliente (cliente_json newCliente))) = Some (cliente_json newCliente) \<and>
   req_method (request_of (UpdateCliente 1 (cliente_json updatedCliente))) = PUT \<and>
   req_url (request_of (UpdateCliente 1 (cliente_json updatedCliente))) = ''/api/clientes/1'' \<and>
   req_method (request_of (DeleteCliente 1)) = DELETE \<and> req_url (request_of (DeleteCliente 1)) = ''/api/clientes/1'' \<and>
   req_method (request_of GetCuentas) = GET \<and> req_url (request_of GetCuentas) = ''/api/cuentas'' \<and>
   req_method (request_of GetMovimientos) = GET \<and> req_url (request_of GetMovimientos) = ''/api/movimientos'' \<and>
   req_method (request_of (GetReporte 1 1767225600000 1767830399999)) = GET \<and>
   js_includes (req_url (request_of (GetReporte 1 1767225600000 1767830399999))) ''/reportes'' \<and>
   map_of (req_params (request_of (GetReporte 1 1767225600000 1767830399999))) ''clienteId'' = Some (QText ''1'')"
  by code_simp

subsection \<open>The component suites\<close>

text \<open>The model passes the repository's component tests: every expectation of
  \<open>clientes.component.spec.ts\<close> and \<open>cuentas.component.spec.ts\<close> (loading on init,
  search, create, update, validation, load error, delete with \<open>confirm\<close> mocked to true)
  holds of the model's view state and of the calls made to the mocked \<open>ApiService\<close>, and
  every test runs to completion.\<close>

lemma pruebas_componentes:
  "espera (correr (mock_de [(''getClientes'', Of (RClientes mockClientes))])
            clientes_callbacks ngOnInit_clientes clientes_init)
     (\<lambda>v l. GetClientes \<in> set l \<and> clientes_vm.clientes v = mockClientes) \<and>
   length (clientesFiltrados (clientes_init\<lparr>clientes_vm.clientes := mockClientes, clientes_vm.busqueda := ''juan''\<rparr>)) = 1 \<and>
   nombre (hd (clientesFiltrados (clientes_init\<lparr>clientes_vm.clientes := mockClientes, clientes_vm.busqueda := ''juan''\<rparr>))) = juan_perez \<and>
   espera (correr (mock_de [(''createCliente'', Of (RCliente (newCliente\<lparr>clienteId := Some 3\<rparr>))),
              (''getClientes'', Of (RClientes (mockClientes @ [newCliente\<lparr>clienteId := Some 3\<rparr>])))])
            clientes_callbacks guardarCliente (clientes_init\<lparr>nuevoCliente := newCliente\<rparr>))
     (\<lambda>v l. CreateCliente (cliente_json newCliente) \<in> set l \<and> js_includes (mensaje v) ''exitosamente'' \<and>
            mensajeTipo v = MsgSuccess) \<and>
   espera (correr (mock_de [(''updateCliente'', Of (RCliente updatedCliente)), (''getClientes'', Of (RClientes mockClientes))])
            clientes_callbacks guardarCliente (clientes_init\<lparr>clientes_vm.modoEdicion := True,
              clienteSeleccionado := Some updatedCliente, nuevoCliente := updatedCliente\<rparr>))
     (\<lambda>v l. UpdateCliente 1 (cliente_json updatedCliente) \<in> set l \<and> js_includes (mensaje v) ''actualizado'') \<and>
   espera (correr (mock_de [(''getClientes'', ThrowError ''Network error'')])
            clientes_callbacks cargarClientes_clientes clientes_init)
     (\<lambda>v l. mensajeTipo v = MsgError \<and> js_includes (mensaje v) ''Error'') \<and>
   espera (correr (mock_de [(''deleteCliente'', Of RVoid), (''getClientes'', Of (RClientes [mockClientes ! 1]))])
            clientes_callbacks (eliminarCliente 1 confirm_mock) clientes_init)
     (\<lambda>v l. DeleteCliente 1 \<in> set l) \<and>
   espera (correr (mock_de [(''getCuentas'', Of (RCuentas mockCuentas)), (''getClientes'', Of (RClientes [clienteParcial]))])
            cuentas_callbacks ngOnInit_cuentas cuentas_init)
     (\<lambda>v l. GetCuentas \<in> set l \<and> GetClientes \<in> set l \<and> cuentas v = mockCuentas \<and>
            cuentas_vm.clientes v = [clienteParcial]) \<and>
   length (cuentasFiltradas (cuentas_init\<lparr>cuentas := mockCuentas, cuentas_vm.busqueda := ''12345678''\<rparr>)) = 1 \<and>
   numeroCuenta (hd (cuentasFiltradas (cuentas_init\<lparr>cuentas := mockCuentas, cuentas_vm.busqueda := ''12345678''\<rparr>))) = ''12345678'' \<and>
   espera (correr (mock_de [(''createCuenta'', Of (RCuenta (newCuenta\<lparr>cuenta_id := Some 3\<rparr>))),
              (''getCuentas'', Of (RCuentas (mockCuentas @ [newCuenta\<lparr>cuenta_id := Some 3, clienteNombre := Some juan_perez\<rparr>])))])
            cuentas_callbacks guardarCuenta (cuentas_init\<lparr>nuevaCuenta := newCuenta\<rparr>))
     (\<lambda>v l. CreateCuenta (cuenta_json newCuenta) \<in> set l \<and> js_includes (mensaje v) ''exitosamente'' \<and>
            mensajeTipo v = MsgSuccess) \<and>
   espera (correr (mock_de []) cuentas_callbacks guardarCuenta (cuentas_init\<lparr>nuevaCuenta := cuentaIncompleta\<rparr>))
     (\<lambda>v l. mensajeTipo v = MsgError \<and> js_includes (mensaje v) ''campos'') \<and>
   espera (correr (mock_de [(''updateCuenta'', Of (RCuenta updatedCuenta)), (''getCuentas'', Of (RCuentas mockCuentas))])
            cuentas_callbacks guardarCuenta (cuentas_init\<lparr>cuentas_vm.modoEdicion := True,
              cuentaSeleccionada := Some updatedCuenta, nuevaCuenta := updatedCuenta\<rparr>))
     (\<lambda>v l. UpdateCuenta 1 (cuenta_json updatedCuenta) \<in> set l \<and> js_includes (mensaje v) ''actualizada'') \<and>
   espera (correr (mock_de [(''deleteCuenta'', Of RVoid), (''getCuentas'', Of (RCuentas [mockCuentas ! 1]))])
            cuentas_callbacks (eliminarCuenta 1 confirm_mock) cuentas_init)
     (\<lambda>v l. DeleteCuenta 1 \<in> set l) \<and>
   espera (correr (mock_de [(''getCuentas'', ThrowError ''Network error''), (''getClientes'', Of (RClientes [clienteParcial]))])
            cuentas_callbacks ngOnInit_cuentas cuentas_init)
     (\<lambda>v l. mensajeTipo v = MsgError)"
  by (intro conjI) code_simp+

end
