(* ===== verification/Notification.thy ===== *)
theory Notification
  imports Prelude
begin

text \<open>
  The notification holder \<open>services/notification.service.ts\<close> (class
  \<open>NotificationService\<close>): one optional notification (message, type, duration) and the
  identifier \<open>timeoutId\<close> of its auto-hide timer. \<open>show\<close> cancels the pending timer,
  if any, sets the notification and schedules \<open>hide\<close> after the duration; \<open>hide\<close>
  clears the notification and cancels the timer. The four shortcuts pass their type and an
  optional duration (\<open>undefined\<close> selects the default 5000 ms).

  The browser's timers are part of the state (\<open>ns_env\<close>, see \<open>timer_env\<close>), so that
  the interaction between \<open>show\<close>, \<open>hide\<close> and the firing of the timer can be stated:
  \<open>ns_step\<close> is the step relation of the service in its environment (a call of
  \<open>show\<close> or \<open>hide\<close>, time passing, a due timer firing and running \<open>hide\<close>), and
  \<open>ns_reachable\<close> its reachable states. The signal wrapper of \<open>notification\<close> is a
  plain field. No component of the sources calls the service; it is modelled as the shared
  notification channel the specification describes.
\<close>

datatype notif_type = NSuccess | NError | NInfo | NWarning

record notification =
  n_message :: string
  n_type :: notif_type
  n_duration :: nat

record notification_service =
  notification :: "notification option"
  timeoutId :: "nat option"
  ns_env :: timer_env

definition ns_init :: notification_service where
  "ns_init = \<lparr>notification = None, timeoutId = None, ns_env = timer_env_init\<rparr>"

text \<open>\<open>if (this.timeoutId)\<close> is written out: an identifier is truthy when present and
  non-zero.\<close>

definition ns_show :: "string \<Rightarrow> notif_type \<Rightarrow> nat \<Rightarrow> notification_service \<Rightarrow> notification_service" where
  "ns_show message type duration s =
     (let env1 = (case timeoutId s of Some i \<Rightarrow> if i \<noteq> 0 then clearTimeout i (ns_env s) else ns_env s
                                    | None \<Rightarrow> ns_env s);
          s1 = s\<lparr>notification := Some \<lparr>n_message = message, n_type = type, n_duration = duration\<rparr>\<rparr>;
          (i, env2) = setTimeout duration env1
      in s1\<lparr>timeoutId := Some i, ns_env := env2\<rparr>)"

definition ns_hide :: "notification_service \<Rightarrow> notification_service" where
  "ns_hide s =
     (let s1 = s\<lparr>notification := None\<rparr>
      in case timeoutId s1 of
           Some i \<Rightarrow> if i \<noteq> 0 then s1\<lparr>ns_env := clearTimeout i (ns_env s1), timeoutId := None\<rparr> else s1
         | None \<Rightarrow> s1)"

definition duracion_defecto :: "nat option \<Rightarrow> nat" where
  "duracion_defecto d = (case d of None \<Rightarrow> 5000 | Some n \<Rightarrow> n)"

definition ns_success :: "string \<Rightarrow> nat option \<Rightarrow> notification_service \<Rightarrow> notification_service" where
  "ns_success m d s = ns_show m NSuccess (duracion_defecto d) s"

definition ns_error :: "string \<Rightarrow> nat option \<Rightarrow> notification_service \<Rightarrow> notification_service" where
  "ns_error m d s = ns_show m NError (duracion_defecto d) s"

definition ns_info :: "string \<Rightarrow> nat option \<Rightarrow> notification_service \<Rightarrow> notification_service" where
  "ns_info m d s = ns_show m NInfo (duracion_defecto d) s"

definition ns_warning :: "string \<Rightarrow> nat option \<Rightarrow> notification_service \<Rightarrow> notification_service" where
  "ns_warning m d s = ns_show m NWarning (duracion_defecto d) s"

text \<open>A due timer fires: the browser drops it and runs its callback, \<open>this.hide()\<close>.\<close>

definition ns_fire :: "nat \<Rightarrow> notification_service \<Rightarrow> notification_service" where
  "ns_fire i s = ns_hide (s\<lparr>ns_env := clearTimeout i (ns_env s)\<rparr>)"

inductive ns_step :: "notification_service \<Rightarrow> notification_service \<Rightarrow> bool" where
  show_call: "ns_step s (ns_show m k d s)"
| hide_call: "ns_step s (ns_hide s)"
| tick: "ns_step s (s\<lparr>ns_env := advance n (ns_env s)\<rparr>)"
| fire: "due_timer i (ns_env s) \<Longrightarrow> ns_step s (ns_fire i s)"

inductive ns_reachable :: "notification_service \<Rightarrow> bool" where
  init: "ns_reachable ns_init"
| step: "ns_reachable s \<Longrightarrow> ns_step s t \<Longrightarrow> ns_reachable t"

text \<open>The invariant: the browser holds at most one pending timer of the service, the one
  named by \<open>timeoutId\<close>; identifiers in use are positive and below the next fresh one;
  a timer is pending exactly while a notification is shown, and it is due no later than the
  notification's duration from now.\<close>

definition ns_inv :: "notification_service \<Rightarrow> bool" where
  "ns_inv s \<longleftrightarrow>
     0 < next_id (ns_env s) \<and>
     map fst (pending (ns_env s)) = (case timeoutId s of None \<Rightarrow> [] | Some i \<Rightarrow> [i]) \<and>
     (case timeoutId s of None \<Rightarrow> True | Some i \<Rightarrow> 0 < i \<and> i < next_id (ns_env s)) \<and>
     (case notification s of
        None \<Rightarrow> timeoutId s = None
      | Some nt \<Rightarrow> timeoutId s \<noteq> None \<and>
          (\<forall>(j, d) \<in> set (pending (ns_env s)). d \<le> clock (ns_env s) + n_duration nt))"

subsection \<open>Lemmas\<close>

lemma ns_inv_init: "ns_inv ns_init"
  by (simp add: ns_inv_def ns_init_def timer_env_init_def)

lemma filter_fst_single:
  "map fst xs = [i] \<Longrightarrow> filter (\<lambda>(j, _). j \<noteq> i) xs = []"
  by (cases xs) (auto split: prod.splits)

lemma ns_show_inv: "ns_inv s \<Longrightarrow> ns_inv (ns_show m k d s)"
  by (auto simp: ns_inv_def ns_show_def setTimeout_def clearTimeout_def Let_def filter_fst_single
      split: option.splits)

lemma ns_hide_inv: "ns_inv s \<Longrightarrow> ns_inv (ns_hide s)"
  by (auto simp: ns_inv_def ns_hide_def clearTimeout_def Let_def filter_fst_single
      split: option.splits)

lemma ns_fire_inv: "ns_inv s \<Longrightarrow> due_timer i (ns_env s) \<Longrightarrow> ns_inv (ns_fire i s)"
  by (auto simp: ns_inv_def ns_fire_def ns_hide_def clearTimeout_def due_timer_def Let_def
      filter_fst_single split: option.splits)

lemma ns_step_inv: "ns_step s t \<Longrightarrow> ns_inv s \<Longrightarrow> ns_inv t"
proof (induction rule: ns_step.induct)
  case (show_call s m k d)
  then show ?case by (rule ns_show_inv)
next
  case (hide_call s)
  then show ?case by (rule ns_hide_inv)
next
  case (tick s n)
  then show ?case by (auto simp: ns_inv_def advance_def split: option.splits)
next
  case (fire i s)
  then show ?case by (simp add: ns_fire_inv)
qed

lemma ns_reachable_inv: "ns_reachable s \<Longrightarrow> ns_inv s"
  by (induction rule: ns_reachable.induct) (auto intro: ns_inv_init ns_step_inv)

subsection \<open>Properties\<close>

text \<open>C18. No stale auto-hide: in every reachable state of the service, a pending timer is
  the only one and is the timer of the notification currently shown (\<open>timeoutId\<close>). So
  showing a new notification always cancels the previous timer, and a timer that fires hides
  the notification it was set for, never a newer one.\<close>

theorem ns_un_solo_temporizador:
  assumes "ns_reachable s" and "(i, due) \<in> set (pending (ns_env s))"
  shows "pending (ns_env s) = [(i, due)] \<and> timeoutId s = Some i \<and> notification s \<noteq> None"
proof -
  have inv: "ns_inv s" using assms(1) by (rule ns_reachable_inv)
  then have m: "map fst (pending (ns_env s)) = (case timeoutId s of None \<Rightarrow> [] | Some i \<Rightarrow> [i])"
    by (simp add: ns_inv_def)
  obtain j where j: "timeoutId s = Some j"
    using m assms(2) by (cases "timeoutId s") auto
  with m have one: "map fst (pending (ns_env s)) = [j]" by simp
  with assms(2) have "pending (ns_env s) = [(i, due)] \<and> i = j"
    by (cases "pending (ns_env s)") auto
  with j inv show ?thesis by (auto simp: ns_inv_def split: option.splits)
qed

theorem ns_un_solo_temporizador_witness:
  "pending (ns_env (ns_show ''Cuenta creada'' NSuccess 3000 (ns_show ''Error'' NError 5000 ns_init))) = [(2, 3000)] \<and>
   timeoutId (ns_show ''Cuenta creada'' NSuccess 3000 (ns_show ''Error'' NError 5000 ns_init)) = Some 2"
proof -
  have r: "ns_reachable (ns_show ''Cuenta creada'' NSuccess 3000 (ns_show ''Error'' NError 5000 ns_init))"
    by (rule ns_reachable.step [OF ns_reachable.step [OF ns_reachable.init ns_step.show_call] ns_step.show_call])
  have p: "(2, 3000) \<in> set (pending (ns_env (ns_show ''Cuenta creada'' NSuccess 3000 (ns_show ''Error'' NError 5000 ns_init))))"
    by (simp add: ns_show_def ns_init_def timer_env_init_def setTimeout_def clearTimeout_def)
  from ns_un_solo_temporizador [OF r p] show ?thesis by simp
qed

text \<open>C37. A notification never stays for good: from every reachable state that shows a
  notification, the browser alone, letting the notification's duration pass and firing the
  timer that is then due, hides it and leaves no timer pending.\<close>

theorem ns_se_oculta:
  assumes "ns_reachable s" and "notification s = Some nt"
  shows "\<exists>i. timeoutId s = Some i \<and>
           ns_step s (s\<lparr>ns_env := advance (n_duration nt) (ns_env s)\<rparr>) \<and>
           due_timer i (advance (n_duration nt) (ns_env s)) \<and>
           ns_step (s\<lparr>ns_env := advance (n_duration nt) (ns_env s)\<rparr>)
                   (ns_fire i (s\<lparr>ns_env := advance (n_duration nt) (ns_env s)\<rparr>)) \<and>
           notification (ns_fire i (s\<lparr>ns_env := advance (n_duration nt) (ns_env s)\<rparr>)) = None \<and>
           pending (ns_env (ns_fire i (s\<lparr>ns_env := advance (n_duration nt) (ns_env s)\<rparr>))) = []"
proof -
  have inv: "ns_inv s" using assms(1) by (rule ns_reachable_inv)
  then obtain i where i: "timeoutId s = Some i"
    using assms(2) by (auto simp: ns_inv_def)
  with inv obtain d where p: "pending (ns_env s) = [(i, d)]"
    by (cases "pending (ns_env s)") (auto simp: ns_inv_def)
  with inv assms(2) have "d \<le> clock (ns_env s) + n_duration nt"
    by (auto simp: ns_inv_def)
  with p have due: "due_timer i (advance (n_duration nt) (ns_env s))"
    by (auto simp: due_timer_def advance_def)
  then have "ns_step (s\<lparr>ns_env := advance (n_duration nt) (ns_env s)\<rparr>)
                     (ns_fire i (s\<lparr>ns_env := advance (n_duration nt) (ns_env s)\<rparr>))"
    by (intro ns_step.fire) simp
  moreover have "ns_step s (s\<lparr>ns_env := advance (n_duration nt) (ns_env s)\<rparr>)"
    by (rule ns_step.tick)
  ultimately show ?thesis using i p due
    by (auto simp: ns_fire_def ns_hide_def clearTimeout_def advance_def Let_def)
qed

theorem ns_se_oculta_witness:
  "notification (ns_fire 1 ((ns_info ''Guardado'' None ns_init)\<lparr>ns_env := advance 5000 (ns_env (ns_info ''Guardado'' None ns_init))\<rparr>)) = None \<and>
   due_timer 1 (advance 5000 (ns_env (ns_info ''Guardado'' None ns_init)))"
proof -
  have r: "ns_reachable (ns_info ''Guardado'' None ns_init)"
    unfolding ns_info_def by (rule ns_reachable.step [OF ns_reachable.init ns_step.show_call])
  have n: "notification (ns_info ''Guardado'' None ns_init) =
             Some \<lparr>n_message = ''Guardado'', n_type = NInfo, n_duration = 5000\<rparr>"
    by (simp add: ns_info_def ns_show_def duracion_defecto_def Let_def ns_init_def setTimeout_def split: prod.splits)
  have t: "timeoutId (ns_info ''Guardado'' None ns_init) = Some 1"
    by (simp add: ns_info_def ns_show_def duracion_defecto_def Let_def ns_init_def setTimeout_def timer_env_init_def split: prod.splits)
  from ns_se_oculta [OF r n] t show ?thesis by auto
qed

end
