(* ===== verification/Spec2Isabelle.thy ===== *)
theory Spec2Isabelle
  imports Tests Notification
begin

text \<open>
  \<^bold>\<open>A verification development of the bank-frontend administration console.\<close>

  The program (\<open>src/bank-frontend/src/app\<close>) is an Angular front end for a bank's back
  office. Four feature views (customers, accounts, movements, reports) hold lists and forms,
  validate input, and call a REST backend through one HTTP client wrapper; two interceptors
  wrap every request (a loading counter that drives a global spinner, and an error
  normaliser); a notification service offers a single-slot message channel. The backend,
  the templates, routing and the PDF/JSON libraries are outside the repository.

  \<^bold>\<open>How the parts interact.\<close> A view's handler updates the view's fields and starts
  effects (theory \<open>ViewModel\<close>): a subscription to an \<open>ApiService\<close> call, a timer that
  clears the view's message, a download. The call's request is \<open>Api.request_of\<close>; the
  loading interceptor brackets it with \<open>show\<close>/\<open>hide\<close> on the loading service; on failure
  the error interceptor turns the transport error into the normalised error
  (\<open>ErrorInterceptor.normalizeError\<close>) that the view's \<open>error\<close> callback receives; on
  success the view's \<open>next\<close> callback receives the response. Callbacks are separate
  handlers (\<open>..._next\<close>, \<open>..._error\<close>), so any interleaving of user actions and
  responses is a sequence of handler applications.

  \<^bold>\<open>Theories and the code they model.\<close>
  \<^item> \<open>Prelude\<close>: JavaScript values and built-ins the code uses (\<open>toLowerCase\<close>,
    \<open>includes\<close>, \<open>trim\<close>, \<open>split\<close>, truthiness, number rendering and its reading
    back), the browser's timers (\<open>setTimeout\<close>, \<open>clearTimeout\<close>, a clock), and
    list/sum lemmas.
  \<^item> \<open>Models\<close>: \<open>models/models.ts\<close> (records \<open>cliente\<close>, \<open>cuenta\<close>,
    \<open>movimiento\<close>, \<open>reporteMovimiento\<close>), their JSON serialisation, and every constant
    of \<open>constants/app.constants.ts\<close> (\<open>VALIDACIONES\<close>, \<open>MENSAJES\<close>,
    \<open>APP_CONFIG\<close> as records).
  \<^item> \<open>Api\<close>: \<open>services/api.service.ts\<close>; one definition per method
    (\<open>getClientes\<close> ... \<open>getReporte\<close>) building its request, \<open>HttpParams.set\<close>,
    one constructor of \<open>api_call\<close> per method, and a reference decoder of the REST
    surface.
  \<^item> \<open>ErrorInterceptor\<close>: \<open>interceptors/error.interceptor.ts\<close>.
  \<^item> \<open>ViewModel\<close>: the effects, \<open>mostrarMensaje\<close> (identical in the four views), the
    views' reading of \<open>error.error.message\<close>, and the message timers in time.
  \<^item> \<open>Movimientos\<close>: \<open>components/movimientos/movimientos.component.ts\<close>, every method.
  \<^item> \<open>Reportes\<close>: \<open>components/reportes/reportes.component.ts\<close>, every method, with the
    browser's reading of date strings (UTC for \<open>'YYYY-MM-DD'\<close>, local time otherwise).
  \<^item> \<open>Clientes\<close>: \<open>components/clientes/clientes.component.ts\<close>, every method, with the
    update payload whose password property is deleted when blank.
  \<^item> \<open>Cuentas\<close>: \<open>components/cuentas/cuentas.component.ts\<close>, every method.
  \<^item> \<open>Loading\<close>: \<open>services/loading.service.ts\<close>; \<open>LoadingInterceptor\<close>:
    \<open>interceptors/loading.interceptor.ts\<close> with interleaved requests as an inductive step
    relation.
  \<^item> \<open>Notification\<close>: \<open>services/notification.service.ts\<close> with its timer, as a step
    relation with time.
  \<^item> \<open>Shell\<close>: \<open>app.routes.ts\<close> with the router's first-match and redirect
    semantics (\<open>navegar\<close>, a partial function in the option monad),
    \<open>app.component.ts\<close>, the cards of \<open>home.component.ts\<close> and the visibility
    condition of \<open>loading-spinner.component.ts\<close>.
  \<^item> \<open>Session\<close>: a view in its environment: the subscriptions it started, sent through
    the loading interceptor (\<open>suscribir\<close>), and their responses in any order, through the
    error interceptor to the view's callback and then to \<open>finalize\<close>
    (\<open>responder\<close>); generic in the view and its callbacks. An error response to a view
    whose error callbacks start nothing is final (\<open>responder_error_final\<close>), which
    \<open>Dispatch\<close> instantiates for the four views (\<open>respuestas_error_finales\<close>).
  \<^item> \<open>Dispatch\<close>: the \<open>subscribe({next, error})\<close> wiring of each of the four views
    (\<open>movimientos_callbacks\<close> ... \<open>cuentas_callbacks\<close>), the user events each view's
    template can raise (\<open>evento_*\<close>, \<open>manejar_*\<close>, modelled from the components'
    public methods, since the templates are not in the repository), the declared and
    effective types of the request bodies, and the properties across views.
  \<^item> \<open>Tests\<close>: the repository's unit tests on the model: the Jest mock of
    \<open>ApiService\<close> (\<open>mock_de\<close>, \<open>of\<close>/\<open>throwError\<close> as \<open>mock_resp\<close>), the
    \<open>confirm\<close> mock of \<open>setup-jest.ts\<close>, the synchronous delivery of a mocked
    observable (\<open>sincrono\<close>, with fuel for the depth of nested subscriptions), the
    fixtures of \<open>clientes.component.spec.ts\<close> and \<open>cuentas.component.spec.ts\<close>.
  \<^item> The build environments \<open>environments/environment*.ts\<close> are the record
    \<open>Api.entorno\<close> and its two values; no application file reads them.

  \<^bold>\<open>What is proved.\<close> The sign rule and the submit guard of the movement form (C1-C3,
  C14); that a failed call is final in every view: no retry, no reload, only the message
  changes (C15, error); the report totals' equivalence with plain sums and their bounds
  (C5, C6), the report
  validation and the request range (C7-C9, C16, C17); the loading counter's invariant under
  any call sequence, its refinement of a natural-number counter, and the spinner's
  agreement with the requests in flight under every interleaving (C10, C11, C13), and that
  even with \<open>reset\<close> called at any moment the spinner never shows without a request in
  flight (C12); the
  notification service's single pending timer (C18) and that every notification is hidden
  by its own timer within its duration (C37, liveness); the non-empty normalised error
  message (C25); the customer update that omits a blank password and the customer and
  account validation (C26, C28, C31); that after every successful save or
  delete in any execution of a view the list reload is in flight and the spinner stays on
  (C27); that every request body in flight has its method's declared interface type, up
  to the cast of the customer update (C36, type); the round trip of every
  API request through the REST surface (C34); that navigation terminates on a view for every
  URL (C35); that, for any view and any order
  of responses through both interceptors, the spinner shows exactly while a subscription
  awaits its response (C38), and that in every execution of every view an error response
  is final: the failed subscription leaves, none replaces it, and the counter drops by one
  (C4, error). The model also passes every expectation of the repository's component
  tests (\<open>Tests.pruebas_componentes\<close>), a check of the model against the code's own
  tests. Findings proved as theorems: a withdrawal typed after its type
  is posted positive (C19); east of UTC today cannot end a report range, and the default
  range fails in the evening west of UTC (C20, C21); \<open>reset\<close> desynchronises the
  spinner (C22); a view's message is cleared early by an earlier message's timer (C23); the
  views show \<open>error.error.message\<close> of the raw body instead of the normalised message
  (C24); editing a customer without id creates it without password (C29); capitalised
  identifications cannot be searched (C30); the display-only customer name is posted with
  an account update (C32); negative initial balances are posted (C33); a late report
  response overwrites a newer one and is exported under the newer period (C39); the limits
  of \<open>VALIDACIONES\<close> are applied nowhere (C40).

  \<^bold>\<open>Modelling choices.\<close> JavaScript numbers are \<open>int\<close> (amounts, identifiers and
  instants in milliseconds); floating point and \<open>NaN\<close> are not modelled. Strings are
  8-bit character lists (non-ASCII letters as their UTF-8 bytes) and case folding is ASCII.
  The time zone is a fixed offset. The code has no loop with unbounded iteration, so no fuel
  is needed: every definition is a total, executable function, except the router's redirect
  chain, a \<open>partial_function\<close> whose totality on the route table is C35, and the test
  harness's nested synchronous deliveries, whose fuel of two levels suffices for every view
  (\<open>Tests.sincrono_dos_niveles\<close>: a view's callbacks start at most a list load, whose
  callbacks start nothing; \<open>correr_clientes_total\<close>, \<open>correr_cuentas_total\<close>). The executions
  of the stateful parts are inductive relations over explicit events; the responses of a
  view's requests may arrive in any order (the specification gives no ordering guarantee),
  and a subscriber's callback runs before the \<open>finalize\<close> of the loading interceptor,
  as RxJS orders them. The interceptors are composed with the loading interceptor outside
  the error interceptor, the order the specification fixes (the registration file is not in
  the repository).

  \<^bold>\<open>Further work.\<close> The message timers of the views in the session model; a backend
  model under the session, for the race of a save's reload with an earlier list load.

  \<^bold>\<open>Not modelled.\<close> Markup and styles (the templates' HTML and CSS, the spinner's
  overlay; the \<open>.html\<close> templates are not in the repository, so the events they raise
  are modelled from the components and the specification); of the test code, the Angular
  \<open>TestBed\<close> environment and the \<open>HttpTestingController\<close> flush of the
  \<open>ApiService\<close> suite (its request expectations are \<open>Tests.pruebas_api\<close>); the copies of
  \<open>mostrarMensaje\<close> in the customers, accounts and reports views, identical to the
  movements view's and modelled once; the PDF
  layout and \<open>toFixed\<close>/\<open>toLocaleString\<close> formatting, and the console logging of the
  error interceptor.
\<close>

subsection \<open>Properties across components\<close>

text \<open>C24. The views do not show the message the error interceptor normalised: they read
  \<open>error.error.message\<close>, the raw body. For a server failure whose JSON body has no
  \<open>message\<close>, the interceptor's message is the transport message, but the movements view
  shows "Error: undefined"; for a failure with a \<open>null\<close> body the view's error callback
  throws a \<open>TypeError\<close> and shows nothing.\<close>

theorem vistas_ignoran_mensaje_normalizado:
  "ne_message (normalizeError \<lparr>http_status = 500, http_message = ''Internal Server Error'',
                               http_error = ObjectBody None\<rparr>) = ''Internal Server Error'' \<and>
   mensaje (fst (realizarMovimiento_error (normalizeError \<lparr>http_status = 500,
        http_message = ''Internal Server Error'', http_error = ObjectBody None\<rparr>) movimientos_init))
     = ''Error: undefined'' \<and>
   realizarMovimiento_error (normalizeError \<lparr>http_status = 0,
        http_message = ''Http failure response for /api/movimientos: 0 Unknown Error'',
        http_error = NullBody\<rparr>) movimientos_init = (movimientos_init, [Uncaught TypeError])"
  by (simp add: normalizeError_def realizarMovimiento_error_def mostrarError_def)

end
